theory Spec2Isabelle
  imports Main "HOL-Library.AList"
begin

section \<open>JavaScript values the scripts test\<close>

text \<open>
  A field that the scripts read with \<open>?.\<close>, \<open>||\<close> or \<open>??\<close> is a \<open>string option\<close>:
  \<open>None\<close> stands for both \<open>undefined\<close> and \<open>null\<close> (the scripts never tell them
  apart: they test \<open>== null\<close>, \<open>!x\<close> or \<open>x || d\<close>). A field that is read without
  any test is taken as present. In a boolean position the empty string is falsy too.
\<close>

definition truthy :: "string option \<Rightarrow> bool" where
  "truthy v = (case v of None \<Rightarrow> False | Some s \<Rightarrow> s \<noteq> [])"

text \<open>\<open>v || d\<close> on a string-or-absent value.\<close>

definition or_else :: "string option \<Rightarrow> string \<Rightarrow> string" where
  "or_else v d = (case v of None \<Rightarrow> d | Some s \<Rightarrow> if s = [] then d else s)"

text \<open>\<open>v || null\<close>: the empty string becomes \<open>null\<close>.\<close>

definition or_null :: "string option \<Rightarrow> string option" where
  "or_null v = (if truthy v then v else None)"

subsection \<open>Numbers\<close>

text \<open>
  The numbers the scripts compute are the result of \<open>parseInt\<close> and its products with
  positive integers: an integer, an infinity or \<open>NaN\<close>. A JavaScript number is a
  double, so an integer of more than 53 significant bits is rounded to the nearest
  double, ties to the even one, and beyond the largest double to an infinity. The sign
  of zero is not kept: the scripts only multiply these numbers and hand them to a timer.
\<close>

datatype number = Finite int | PlusInfinity | MinusInfinity | NaN

text \<open>The binary exponent \<open>e\<close> that leaves \<open>n div 2 ^ e\<close> with at most 53 bits.\<close>

function exponent :: "nat \<Rightarrow> nat \<Rightarrow> nat" where
  "exponent n e = (if n div 2 ^ e < 2 ^ 53 then e else exponent n (Suc e))"
  by pat_completeness auto
termination
proof (relation "measure (\<lambda>(n, e). n div 2 ^ e)")
  show "wf (measure (\<lambda>(n, e). n div 2 ^ e))" by simp
next
  fix n e :: nat
  assume "\<not> n div 2 ^ e < 2 ^ 53"
  then have "0 < n div 2 ^ e" by (simp add: not_less)
  then have "n div 2 ^ e div 2 < n div 2 ^ e" by simp
  then show "((n, Suc e), (n, e)) \<in> measure (\<lambda>(n, e). n div 2 ^ e)"
    by (simp del: power_Suc add: power_Suc2 div_mult2_eq)
qed

declare exponent.simps [simp del]

text \<open>Rounding to the nearest double, ties to even; \<open>None\<close> beyond the largest double.\<close>

definition round_nat :: "nat \<Rightarrow> nat option" where
  "round_nat n =
     (let e = exponent n 0; q = n div 2 ^ e; r = n mod 2 ^ e;
          q' = (if 2 ^ e < 2 * r \<or> (2 * r = 2 ^ e \<and> odd q) then q + 1 else q)
      in if 2 ^ 1024 \<le> q' * 2 ^ e then None else Some (q' * 2 ^ e))"

definition to_number :: "int \<Rightarrow> number" where
  "to_number i =
     (case round_nat (nat \<bar>i\<bar>) of
        Some m \<Rightarrow> Finite (if i < 0 then - int m else int m)
      | None \<Rightarrow> if i < 0 then MinusInfinity else PlusInfinity)"

text \<open>\<open>x * k\<close> for an integer \<open>k\<close> that is itself a double (the scripts' 1000, 2000 and attempt counters).\<close>

definition num_times :: "number \<Rightarrow> int \<Rightarrow> number" where
  "num_times x k =
     (case x of
        Finite a \<Rightarrow> to_number (a * k)
      | PlusInfinity \<Rightarrow> if k = 0 then NaN else if k < 0 then MinusInfinity else PlusInfinity
      | MinusInfinity \<Rightarrow> if k = 0 then NaN else if k < 0 then PlusInfinity else MinusInfinity
      | NaN \<Rightarrow> NaN)"

subsection \<open>parseInt(s, 10)\<close>

text \<open>
  A \<open>char\<close> has 8 bits and stands for the code unit of the same number, so the strings
  of the model are those over the code units 0 to 255. Leading white space is skipped
  (of these code units JavaScript counts as white space or line terminator 9 to 13, 32
  and the no-break space 160), one sign is read, then the longest run of decimal digits;
  with no digit the result is \<open>NaN\<close>, otherwise the number nearest to the integer the
  digits write.
\<close>

definition is_digit :: "char \<Rightarrow> bool" where
  "is_digit c = (c \<in> set ''0123456789'')"

definition is_space :: "char \<Rightarrow> bool" where
  "is_space c = (c \<in> {CHR '' '', CHR 0x09, CHR 0x0A, CHR 0x0B, CHR 0x0C, CHR 0x0D, CHR 0xA0})"

definition digit_val :: "char \<Rightarrow> nat" where
  "digit_val c = of_char c - 48"

definition digits_val :: "string \<Rightarrow> nat" where
  "digits_val ds = foldl (\<lambda>a c. 10 * a + digit_val c) 0 ds"

definition parseInt :: "string \<Rightarrow> number" where
  "parseInt s =
     (let t = dropWhile is_space s;
          neg = (case t of [] \<Rightarrow> False | c # _ \<Rightarrow> c = CHR ''-'');
          u = (case t of [] \<Rightarrow> [] | c # r \<Rightarrow> if c = CHR ''-'' \<or> c = CHR ''+'' then r else t);
          ds = takeWhile is_digit u
      in if ds = [] then NaN
         else to_number (if neg then - int (digits_val ds) else int (digits_val ds)))"

section \<open>The request layer\<close>

text \<open>
  What axios rejects with: \<open>e.response?.status\<close>, \<open>e.code\<close>, the
  \<open>retry-after\<close> header of \<open>e.response\<close> (\<open>None\<close> when the response has no
  such header), and \<open>e.message\<close>.
\<close>

record http_error =
  status :: "nat option"
  code :: "string option"
  retry_after :: "string option"
  message :: string

datatype 'a attempt = Ok 'a | Fail http_error

text \<open>
  The exceptions of the two scripts: an axios error rethrown, the \<open>Error\<close> that
  \<open>axiosVimeoRetry\<close> builds after its last attempt (retries, url), the
  \<open>ReferenceError\<close> of calling an undeclared name, the \<open>TypeError\<close> of reading
  a property of \<open>undefined\<close> (the property) or of iterating a value that is not
  iterable, and the \<open>Error\<close> of \<open>formatVimeoUrl\<close> in index.js.
\<close>

datatype exn =
    HttpError http_error
  | RetriesExhausted nat string
  | ReferenceError string
  | TypeError string
  | FormatError

text \<open>
  How an async function ends: a value, an exception, or the end of its body with no
  \<open>return\<close>, which gives the caller \<open>undefined\<close>.
\<close>

datatype 'a completion = Returns 'a | Throws exn | ReturnsUndefined

text \<open>
  What a run does to the outside, in order: a remote request (method and client, url),
  a timer (\<open>setTimeout\<close>'s argument in milliseconds), a query
  or a statement on the table (the key), a console line (a tag for the statement that
  prints, and the title or folder name it prints). The console lines of the request
  layer itself are not recorded.
\<close>

datatype event =
    Call string string
  | Sleep number
  | Select string
  | Upsert string
  | Console string string

subsection \<open>index.js: safeGet and safePost\<close>

text \<open>
  The wait after a 429: the header when it is truthy (seconds to milliseconds),
  otherwise \<open>2000 * attempt\<close>.
\<close>

definition safe_wait :: "http_error \<Rightarrow> nat \<Rightarrow> number" where
  "safe_wait e attempt =
     (if truthy (retry_after e) then num_times (parseInt (or_else (retry_after e) [])) 1000
      else num_times (Finite 2000) (int attempt))"

text \<open>
  The body of both functions is the same loop, \<open>for (attempt = 1; attempt <= retry;
  attempt++)\<close>; \<open>client attempt\<close> is what the network answers to the request of
  that iteration. The \<open>continue\<close> of the 429 branch skips the test
  \<open>attempt === retry\<close>.
\<close>

function safe_loop ::
  "string \<Rightarrow> (nat \<Rightarrow> 'a attempt) \<Rightarrow> string \<Rightarrow> nat \<Rightarrow> nat \<Rightarrow> 'a completion \<times> event list" where
  "safe_loop m client url retry attempt =
     (if attempt \<le> retry then
        (case client attempt of
           Ok d \<Rightarrow> (Returns d, [Call m url])
         | Fail e \<Rightarrow>
             if status e = Some 429 then
               (case safe_loop m client url retry (attempt + 1) of
                  (r, evs) \<Rightarrow> (r, Call m url # Sleep (safe_wait e attempt) # evs))
             else if attempt = retry then (Throws (HttpError e), [Call m url])
             else
               (case safe_loop m client url retry (attempt + 1) of
                  (r, evs) \<Rightarrow>
                    (r, Call m url # Sleep (num_times (Finite 1000) (int attempt)) # evs)))
      else (ReturnsUndefined, []))"
  by pat_completeness auto
termination
  by (relation "measure (\<lambda>(m, client, url, retry, attempt). Suc retry - attempt)") auto

declare safe_loop.simps [simp del]

definition safeGet :: "(nat \<Rightarrow> 'a attempt) \<Rightarrow> string \<Rightarrow> nat \<Rightarrow> 'a completion \<times> event list" where
  "safeGet client url retry = safe_loop ''GET'' client url retry 1"

definition safePost :: "(nat \<Rightarrow> 'a attempt) \<Rightarrow> string \<Rightarrow> nat \<Rightarrow> 'a completion \<times> event list" where
  "safePost client url retry = safe_loop ''POST'' client url retry 1"

subsection \<open>getVimeoPandaLinks.js: axiosVimeoRetry\<close>

definition axios_wait :: "http_error \<Rightarrow> nat \<Rightarrow> number" where
  "axios_wait e attempt =
     num_times (num_times (parseInt (or_else (retry_after e) ''5'')) 1000) (int attempt + 1)"

text \<open>\<open>for (attempt = 0; attempt < retries; attempt++)\<close>, then the \<open>throw\<close> after it.\<close>

function axios_loop ::
  "(nat \<Rightarrow> 'a attempt) \<Rightarrow> string \<Rightarrow> nat \<Rightarrow> nat \<Rightarrow> 'a completion \<times> event list" where
  "axios_loop client url retries attempt =
     (if attempt < retries then
        (case client attempt of
           Ok r \<Rightarrow> (Returns r, [Call ''GET'' url])
         | Fail e \<Rightarrow>
             if status e = Some 429 then
               (case axios_loop client url retries (attempt + 1) of
                  (r, evs) \<Rightarrow> (r, Call ''GET'' url # Sleep (axios_wait e attempt) # evs))
             else if code e = Some ''ECONNRESET'' \<or> code e = Some ''ETIMEDOUT'' then
               (case axios_loop client url retries (attempt + 1) of
                  (r, evs) \<Rightarrow>
                    (r, Call ''GET'' url #
                        Sleep (num_times (Finite 2000) (int attempt + 1)) # evs))
             else (Throws (HttpError e), [Call ''GET'' url]))
      else (Throws (RetriesExhausted retries url), []))"
  by pat_completeness auto
termination
  by (relation "measure (\<lambda>(client, url, retries, attempt). retries - attempt)") auto

declare axios_loop.simps [simp del]

definition axiosVimeoRetry :: "(nat \<Rightarrow> 'a attempt) \<Rightarrow> string \<Rightarrow> nat \<Rightarrow> 'a completion \<times> event list" where
  "axiosVimeoRetry client url retries = axios_loop client url retries 0"

section \<open>Identifiers and the Target folder list\<close>

subsection \<open>formatVimeoUrl\<close>

text \<open>
  The regular expression \<open>/^\/videos\/(\d+)$/\<close>: the whole string is \<open>/videos/\<close>
  followed by one or more of the digits 0 to 9. The result is the capture group.
\<close>

definition match_videos :: "string \<Rightarrow> string option" where
  "match_videos path =
     (if take 8 path = ''/videos/'' \<and> drop 8 path \<noteq> [] \<and> list_all is_digit (drop 8 path)
      then Some (drop 8 path) else None)"

text \<open>getVimeoPandaLinks.js returns \<open>null\<close> when there is no match.\<close>

definition formatVimeoUrl_links :: "string \<Rightarrow> string option" where
  "formatVimeoUrl_links path =
     (case match_videos path of
        None \<Rightarrow> None
      | Some videoId \<Rightarrow> Some (''https://player.vimeo.com/video/'' @ videoId))"

text \<open>index.js throws \<open>Error("Formato inv\'alido. Esperado: /videos/{id}")\<close>.\<close>

definition formatVimeoUrl :: "string \<Rightarrow> exn + string" where
  "formatVimeoUrl path =
     (case match_videos path of
        None \<Rightarrow> Inl FormatError
      | Some videoId \<Rightarrow> Inr (''https://player.vimeo.com/video/'' @ videoId))"

definition formatPandaIdToUrl :: "string \<Rightarrow> string" where
  "formatPandaIdToUrl videoId =
     ''https://player-vz-4cab7bf9-47f.tv.pandavideo.com.br/embed/?v='' @ videoId"

subsection \<open>findPandaFolder\<close>

text \<open>An element of the \<open>folders\<close> array of \<open>GET /folders\<close>: \<open>id\<close>, \<open>name\<close>, \<open>parent_folder_id\<close>.\<close>

record pfolder =
  panda_id :: string
  panda_name :: string
  parent_folder_id :: "string option"

text \<open>
  The predicate given to \<open>find\<close>: \<open>f.name === name && (f.parent_folder_id ===
  parentFolderId || (f.parent_folder_id == null && parentFolderId == null))\<close>.
\<close>

definition folder_matches :: "string \<Rightarrow> string option \<Rightarrow> pfolder \<Rightarrow> bool" where
  "folder_matches name parentFolderId f =
     (panda_name f = name \<and>
      (parent_folder_id f = parentFolderId \<or>
       (parent_folder_id f = None \<and> parentFolderId = None)))"

text \<open>
  getVimeoPandaLinks.js: one \<open>axiosPanda.get("/folders")\<close>, no retry and no
  \<open>catch\<close>; \<open>res.data?.folders\<close> is \<open>None\<close> when it is missing.
\<close>

definition findPandaFolder_links ::
  "pfolder list option attempt \<Rightarrow> string \<Rightarrow> string option \<Rightarrow> exn + string option" where
  "findPandaFolder_links res name parentFolderId =
     (case res of
        Fail e \<Rightarrow> Inl (HttpError e)
      | Ok None \<Rightarrow> Inr None
      | Ok (Some folders) \<Rightarrow>
          Inr (map_option panda_id (find (folder_matches name parentFolderId) folders)))"

text \<open>
  index.js, \<open>findPandaFolder\<close> after its request: \<open>got\<close> is how
  \<open>safeGet(axiosPandaAPI, '/folders')\<close> ended, and the \<open>catch\<close> turns every
  exception into \<open>null\<close>. \<open>None\<close> in the body: \<open>data.folders\<close> is not an array.
\<close>

definition found_folder ::
  "pfolder list option completion \<Rightarrow> string \<Rightarrow> string option \<Rightarrow> string option" where
  "found_folder got name parentFolderId =
     (case got of
        Throws e \<Rightarrow> None
      | ReturnsUndefined \<Rightarrow> None
      | Returns None \<Rightarrow> None
      | Returns (Some folders) \<Rightarrow>
          map_option panda_id (find (folder_matches name parentFolderId) folders))"

section \<open>The Mapping Store\<close>

text \<open>
  Modelled from the spec: the schema of the table \<open>vimeo_panda_videos\<close> and the
  engine that runs the statements are not in the repository. The spec gives one durable
  table keyed by \<open>sourceVideoRef\<close> (unique) with columns for \<open>targetVideoId\<close>,
  \<open>targetStreamingRef\<close>, \<open>title\<close> and a last-updated timestamp. A row is a
  record, the table a list of rows, and \<open>INSERT ... ON DUPLICATE KEY UPDATE\<close> changes
  the named columns of the row that has the key, or appends the new row when no row
  has it.
\<close>

record row =
  vimeo_video_id :: string
  panda_video_id :: "string option"
  panda_websocket_url :: "string option"
  title :: "string option"
  updated_at :: nat

definition has_key :: "string \<Rightarrow> row list \<Rightarrow> bool" where
  "has_key k rows = list_ex (\<lambda>r. vimeo_video_id r = k) rows"

definition on_duplicate_key_update :: "row \<Rightarrow> (row \<Rightarrow> row) \<Rightarrow> row list \<Rightarrow> row list" where
  "on_duplicate_key_update new upd rows =
     (if has_key (vimeo_video_id new) rows
      then map (\<lambda>r. if vimeo_video_id r = vimeo_video_id new then upd r else r) rows
      else rows @ [new])"

text \<open>\<open>SELECT 1 FROM vimeo_panda_videos WHERE vimeo_video_id = ? LIMIT 1\<close>, \<open>rows.length > 0\<close>.\<close>

definition vimeoVideoExists :: "row list \<Rightarrow> string \<Rightarrow> bool" where
  "vimeoVideoExists pool vimeoVideoUrl = has_key vimeoVideoUrl pool"

text \<open>
  The statement of getVimeoPandaLinks.js names three columns and updates
  \<open>panda_video_id\<close>, \<open>title\<close> and \<open>updated_at\<close>.
\<close>

definition upsert_links :: "string \<Rightarrow> string \<Rightarrow> string \<Rightarrow> nat \<Rightarrow> row list \<Rightarrow> row list" where
  "upsert_links vimeoVideoUrl pandaVideoUrl ttl timestamp rows =
     on_duplicate_key_update
       \<lparr>vimeo_video_id = vimeoVideoUrl, panda_video_id = Some pandaVideoUrl,
        panda_websocket_url = None, title = Some ttl, updated_at = timestamp\<rparr>
       (\<lambda>r. r\<lparr>panda_video_id := Some pandaVideoUrl, title := Some ttl,
               updated_at := timestamp\<rparr>)
       rows"

text \<open>
  The statement of \<open>saveVideoMapping\<close> in index.js names four columns and updates
  \<open>panda_video_id\<close>, \<open>panda_websocket_url\<close>, \<open>title\<close> and \<open>updated_at\<close>;
  \<open>?? null\<close> keeps a missing argument as NULL.
\<close>

definition upsert_index ::
  "string \<Rightarrow> string option \<Rightarrow> string option \<Rightarrow> string option \<Rightarrow> nat \<Rightarrow> row list \<Rightarrow> row list" where
  "upsert_index k pandaVideoId pandaWebsocketUrl ttl timestamp rows =
     on_duplicate_key_update
       \<lparr>vimeo_video_id = k, panda_video_id = pandaVideoId,
        panda_websocket_url = pandaWebsocketUrl, title = ttl, updated_at = timestamp\<rparr>
       (\<lambda>r. r\<lparr>panda_video_id := pandaVideoId, panda_websocket_url := pandaWebsocketUrl,
               title := ttl, updated_at := timestamp\<rparr>)
       rows"

section \<open>The Source pages and the run's state\<close>

text \<open>
  The fields the scripts read of an element of a page's \<open>data\<close> array. A video has
  \<open>name\<close> (here \<open>video_name\<close>), \<open>uri\<close> and \<open>download\<close> (entries with \<open>width\<close> and
  \<open>link\<close>); an item of a folder listing has the object \<open>folder\<close> with its
  \<open>name\<close>, \<open>uri\<close> and the uris of \<open>metadata.connections.videos\<close> and
  \<open>metadata.connections.items\<close>. A field that is missing is \<open>None\<close>.
\<close>

record download_entry =
  width :: "int option"
  link :: "string option"

text \<open>
  \<open>width\<close> is the number as parsed, a double with an integer value: the comparison
  \<open>(b.width || 0) - (a.width || 0)\<close> of two such numbers has the sign of their
  difference.
\<close>

record folder_obj =
  folder_name :: "string option"
  folder_uri :: "string option"
  videos_uri :: "string option"
  items_uri :: "string option"

record entry =
  video_name :: "string option"
  uri :: "string option"
  download :: "download_entry list option"
  folder :: "folder_obj option"

text \<open>
  What a response body has in its field \<open>data\<close>: nothing or a falsy value
  (\<open>Absent\<close>, also when the body itself is missing), an array of entries, a string,
  or any other value, which is truthy and neither an array nor iterable (an object, a
  number, \<open>true\<close>). The two scripts tell these apart differently:
  getVimeoPandaLinks.js tests \<open>!data?.data\<close> only and then iterates, index.js also
  tests \<open>Array.isArray\<close>.
\<close>

datatype 'a listing = Absent | Items "'a list" | Text string | Other

text \<open>
  Iterating a string yields its characters, and the scripts find none of the fields
  they read in a character: each is an entry without fields.
\<close>

definition no_fields :: entry where
  "no_fields = \<lparr>video_name = None, uri = None, download = None, folder = None\<rparr>"

text \<open>
  What \<open>for (const x of data.data)\<close> of getVimeoPandaLinks.js runs over, after
  \<open>if (!data?.data) break\<close>: \<open>Inr None\<close> is the \<open>break\<close>, \<open>Inl\<close> the
  \<open>TypeError\<close> of a value that is not iterable.
\<close>

definition iterated :: "entry listing \<Rightarrow> exn + entry list option" where
  "iterated d =
     (case d of
        Absent \<Rightarrow> Inr None
      | Items xs \<Rightarrow> Inr (Some xs)
      | Text s \<Rightarrow> if s = [] then Inr None else Inr (Some (map (\<lambda>c. no_fields) s))
      | Other \<Rightarrow> Inl (TypeError ''not iterable''))"

text \<open>The same for index.js, after \<open>if (!data?.data || !Array.isArray(data.data)) break\<close>.\<close>

definition listed :: "entry listing \<Rightarrow> entry list option" where
  "listed d = (case d of Items xs \<Rightarrow> Some xs | _ \<Rightarrow> None)"

text \<open>A response body: \<open>data.data\<close> and \<open>data.paging?.next\<close>.\<close>

record page =
  data :: "entry listing"
  paging_next :: "string option"

text \<open>An element of the \<open>videos\<close> array of the Target's search by folder and title.\<close>

record pvideo =
  video_external_id :: string

text \<open>What the Target answers to one request: it refuses, it sends a body without the expected field, or it serves the request.\<close>

datatype reply = Refuse http_error | Garbled | Served

text \<open>
  The remote platforms, as the run sees them. \<open>vimeo url i\<close> is the Source's answer
  to try \<open>i\<close> (from 0) of a request for \<open>url\<close>. For getVimeoPandaLinks.js, which
  only reads the Target, \<open>panda_folders\<close> answers \<open>GET /folders\<close> and
  \<open>panda_videos folderId title\<close> answers the search. For index.js, which also creates
  folders, \<open>panda_reply n\<close> is the Target's answer to the \<open>n\<close>-th request of the
  run (from 0) and \<open>new_id n\<close> the id it gives a folder created by that request.
\<close>

record env =
  vimeo :: "string \<Rightarrow> nat \<Rightarrow> page attempt"
  panda_folders :: "pfolder list option attempt"
  panda_videos :: "string \<Rightarrow> string \<Rightarrow> pvideo list option attempt"
  panda_reply :: "nat \<Rightarrow> reply"
  new_id :: "nat \<Rightarrow> string"

text \<open>
  The state of a run: the table, everything done so far, and the clock. index.js adds
  its \<open>folderMap\<close>, the folders of the Target and the number of requests sent to it.
\<close>

record state =
  pool :: "row list"
  trace :: "event list"
  clock :: nat

record index_state = state +
  folderMap :: "(string \<times> string) list"
  panda :: "pfolder list"
  sent :: nat

text \<open>
  A timer of Node.js fires after its delay; a delay that is not a number from 1 to
  \<open>2^31 - 1\<close> is set to 1.
\<close>

definition timer_delay :: "number \<Rightarrow> nat" where
  "timer_delay w =
     (case w of
        Finite n \<Rightarrow> if n < 1 \<or> 2147483647 < n then 1 else nat n
      | PlusInfinity \<Rightarrow> 1
      | MinusInfinity \<Rightarrow> 1
      | NaN \<Rightarrow> 1)"

fun elapsed :: "event list \<Rightarrow> nat" where
  "elapsed [] = 0"
| "elapsed (Sleep w # evs) = timer_delay w + elapsed evs"
| "elapsed (ev # evs) = elapsed evs"

definition emit :: "event list \<Rightarrow> 'a state_scheme \<Rightarrow> 'a state_scheme" where
  "emit evs st = st\<lparr>trace := trace st @ evs, clock := clock st + elapsed evs\<rparr>"

text \<open>
  How a piece of the traversal ends: normally, with an exception on its way to the
  caller, or (in the model only) with its fuel used up before the loop ended.
\<close>

datatype ending = Finished | Raised exn | Unfinished

text \<open>\<open>for (const x of xs)\<close> with a body that may throw.\<close>

fun for_each :: "('a \<Rightarrow> 's \<Rightarrow> ending \<times> 's) \<Rightarrow> 'a list \<Rightarrow> 's \<Rightarrow> ending \<times> 's" where
  "for_each body [] st = (Finished, st)"
| "for_each body (x # xs) st =
     (case body x st of
        (Finished, st') \<Rightarrow> for_each body xs st'
      | (e, st') \<Rightarrow> (e, st'))"

definition sem_titulo :: string where
  "sem_titulo = ''sem t'' @ [CHR 0xED] @ ''tulo''"

section \<open>getVimeoPandaLinks.js\<close>

definition findPandaVideoByTitle :: "pvideo list option attempt \<Rightarrow> exn + pvideo option" where
  "findPandaVideoByTitle res =
     (case res of
        Fail e \<Rightarrow> Inl (HttpError e)
      | Ok None \<Rightarrow> Inr None
      | Ok (Some videos) \<Rightarrow> Inr (case videos of [] \<Rightarrow> None | v # _ \<Rightarrow> Some v))"

text \<open>
  The body of the \<open>for\<close> loop of \<open>processVideosInFolder\<close>: one Source video.
  \<open>formatVimeoUrl(video.uri)\<close> on a missing \<open>uri\<close> is a \<open>TypeError\<close>.
\<close>

definition reconcile_links :: "env \<Rightarrow> string \<Rightarrow> entry \<Rightarrow> state \<Rightarrow> ending \<times> state" where
  "reconcile_links env pandaFolderId video st =
     (let ttl = or_else (video_name video) sem_titulo in
      case uri video of
        None \<Rightarrow> (Raised (TypeError ''match''), st)
      | Some path \<Rightarrow>
          (case formatVimeoUrl_links path of
             None \<Rightarrow> (Finished, st)
           | Some vimeoVideoUrl \<Rightarrow>
               let st1 = emit [Select vimeoVideoUrl] st in
               if vimeoVideoExists (pool st1) vimeoVideoUrl
               then (Finished, emit [Console ''SKIP'' ttl] st1)
               else
                 let st2 = emit [Call ''GET'' ''/videos''] st1 in
                 (case findPandaVideoByTitle (panda_videos env pandaFolderId ttl) of
                    Inl e \<Rightarrow> (Raised e, st2)
                  | Inr None \<Rightarrow>
                      (Finished, emit [Console ''MISS'' ttl, Sleep (Finite 300)] st2)
                  | Inr (Some pandaVideo) \<Rightarrow>
                      let pandaVideoUrl = formatPandaIdToUrl (video_external_id pandaVideo);
                          st3 = (emit [Upsert vimeoVideoUrl] st2)
                                  \<lparr>pool := upsert_links vimeoVideoUrl pandaVideoUrl ttl
                                             (clock st2) (pool st2)\<rparr>
                      in (Finished, emit [Console ''MAP'' ttl, Sleep (Finite 300)] st3))))"

text \<open>
  The \<open>do ... while (url)\<close> of \<open>processVideosInFolder\<close>, from the page at \<open>url\<close>.
  The first argument bounds the number of pages fetched.
\<close>

fun video_pages_links :: "nat \<Rightarrow> env \<Rightarrow> string \<Rightarrow> string \<Rightarrow> state \<Rightarrow> ending \<times> state" where
  "video_pages_links 0 env pandaFolderId url st = (Unfinished, st)"
| "video_pages_links (Suc n) env pandaFolderId url st =
     (case axiosVimeoRetry (vimeo env url) url 5 of
        (res, evs) \<Rightarrow>
          let st1 = emit evs st in
          (case res of
             Throws e \<Rightarrow> (Raised e, st1)
           | ReturnsUndefined \<Rightarrow> (Raised (TypeError ''data''), st1)
           | Returns body \<Rightarrow>
               (case iterated (data body) of
                  Inl e \<Rightarrow> (Raised e, st1)
                | Inr None \<Rightarrow> (Finished, st1)
                | Inr (Some videos) \<Rightarrow>
                    (case for_each (reconcile_links env pandaFolderId) videos st1 of
                       (Finished, st2) \<Rightarrow>
                         (case or_null (paging_next body) of
                            None \<Rightarrow> (Finished, st2)
                          | Some nxt \<Rightarrow> video_pages_links n env pandaFolderId nxt st2)
                     | (e, st2) \<Rightarrow> (e, st2)))))"

definition processVideosInFolder_links ::
  "nat \<Rightarrow> env \<Rightarrow> entry \<Rightarrow> string \<Rightarrow> state \<Rightarrow> ending \<times> state" where
  "processVideosInFolder_links n env vimeoFolder pandaFolderId st =
     (case or_null (case folder vimeoFolder of None \<Rightarrow> None | Some f \<Rightarrow> videos_uri f) of
        None \<Rightarrow> (Finished, st)
      | Some videosUri \<Rightarrow> video_pages_links n env pandaFolderId (videosUri @ ''?per_page=50'') st)"

text \<open>
  The body of the \<open>for\<close> loop of \<open>processFolder\<close>: one item of a folder listing.
  \<open>recur\<close> is \<open>processFolder\<close> itself, for the sub-folders.
\<close>

definition visit_links ::
  "(string \<Rightarrow> string option \<Rightarrow> state \<Rightarrow> ending \<times> state) \<Rightarrow> nat \<Rightarrow> env \<Rightarrow> string option \<Rightarrow>
     entry \<Rightarrow> state \<Rightarrow> ending \<times> state" where
  "visit_links recur n env pandaParentId item st =
     (let folderName = or_else (case folder item of None \<Rightarrow> None | Some f \<Rightarrow> folder_name f)
                         ''sem nome''
      in
      case or_null (case folder item of None \<Rightarrow> None | Some f \<Rightarrow> folder_uri f) of
        None \<Rightarrow> (Finished, st)
      | Some vimeoUri \<Rightarrow>
          let st1 = emit [Call ''GET'' ''/folders''] st in
          (case findPandaFolder_links (panda_folders env) folderName pandaParentId of
             Inl e \<Rightarrow> (Raised e, st1)
           | Inr found \<Rightarrow>
               (case or_null found of
                  None \<Rightarrow> (Finished, emit [Console ''Skip'' folderName] st1)
                | Some pandaFolderId \<Rightarrow>
                    (case processVideosInFolder_links n env item pandaFolderId st1 of
                       (Finished, st2) \<Rightarrow>
                         (case or_null (case folder item of None \<Rightarrow> None
                                        | Some f \<Rightarrow> items_uri f) of
                            None \<Rightarrow> (Finished, emit [Sleep (Finite 500)] st2)
                          | Some subfoldersUri \<Rightarrow>
                              (case recur subfoldersUri (Some pandaFolderId) st2 of
                                 (Finished, st3) \<Rightarrow> (Finished, emit [Sleep (Finite 500)] st3)
                               | (e, st3) \<Rightarrow> (e, st3)))
                     | (e, st2) \<Rightarrow> (e, st2)))))"

text \<open>
  \<open>processFolder\<close>: the \<open>do ... while (url)\<close> over the pages of a folder listing.
  The first argument bounds the pages fetched at this level and the depth below it.
\<close>

fun folder_pages_links :: "nat \<Rightarrow> env \<Rightarrow> string \<Rightarrow> string option \<Rightarrow> state \<Rightarrow> ending \<times> state" where
  "folder_pages_links 0 env url pandaParentId st = (Unfinished, st)"
| "folder_pages_links (Suc n) env url pandaParentId st =
     (case axiosVimeoRetry (vimeo env url) url 5 of
        (res, evs) \<Rightarrow>
          let st1 = emit evs st in
          (case res of
             Throws e \<Rightarrow> (Raised e, st1)
           | ReturnsUndefined \<Rightarrow> (Raised (TypeError ''data''), st1)
           | Returns body \<Rightarrow>
               (case iterated (data body) of
                  Inl e \<Rightarrow> (Raised e, st1)
                | Inr None \<Rightarrow> (Finished, st1)
                | Inr (Some items) \<Rightarrow>
                    (case for_each
                            (visit_links
                               (\<lambda>u p s. folder_pages_links n env (u @ ''?per_page=50'') p s)
                               n env pandaParentId)
                            items st1 of
                       (Finished, st2) \<Rightarrow>
                         (case or_null (paging_next body) of
                            None \<Rightarrow> (Finished, st2)
                          | Some nxt \<Rightarrow> folder_pages_links n env nxt pandaParentId st2)
                     | (e, st2) \<Rightarrow> (e, st2)))))"

definition processFolder_links ::
  "nat \<Rightarrow> env \<Rightarrow> string \<Rightarrow> string option \<Rightarrow> state \<Rightarrow> ending \<times> state" where
  "processFolder_links n env vimeoFolderUri pandaParentId st =
     folder_pages_links n env (vimeoFolderUri @ ''?per_page=50'') pandaParentId st"

text \<open>
  \<open>run\<close>, and the \<open>run().catch(err => console.error(err))\<close> of the last line: an
  exception skips \<open>pool.end()\<close> and the closing line and is printed. \<open>rootUri\<close> is the
  root listing of the configured user.
\<close>

definition run_links :: "nat \<Rightarrow> env \<Rightarrow> string \<Rightarrow> state \<Rightarrow> ending \<times> state" where
  "run_links n env rootUri st =
     (case processFolder_links n env rootUri None st of
        (Finished, st') \<Rightarrow> (Finished, emit [Console ''log'' ''Processo concluido''] st')
      | (Raised e, st') \<Rightarrow> (Raised e, emit [Console ''error'' ''uncaught''] st')
      | (Unfinished, st') \<Rightarrow> (Unfinished, st'))"

section \<open>index.js\<close>

text \<open>
  The traversal of index.js: \<open>run\<close>, \<open>processFolder\<close>, \<open>processVideosInFolder\<close>
  and what they call. \<open>uploadVideoToPanda\<close> (its only call is commented out) and
  \<open>videoExistsInDB\<close> (never called) take no part in the traversal.
\<close>

text \<open>
  \<open>saveVideoMapping\<close>: the key is \<open>formatVimeoUrl(vimeoVideoId)\<close>, evaluated
  before the statement runs, so its exception leaves the table as it was.
\<close>

definition saveVideoMapping ::
  "string \<Rightarrow> string option \<Rightarrow> string option \<Rightarrow> string option \<Rightarrow> 'a state_scheme
     \<Rightarrow> exn + 'a state_scheme" where
  "saveVideoMapping vimeoVideoId pandaVideoId pandaWebsocketUrl ttl st =
     (case formatVimeoUrl vimeoVideoId of
        Inl e \<Rightarrow> Inl e
      | Inr k \<Rightarrow>
          Inr (emit [Console ''DB'' vimeoVideoId]
                 ((emit [Upsert k] st)
                    \<lparr>pool := upsert_index k pandaVideoId pandaWebsocketUrl ttl
                               (clock st) (pool st)\<rparr>)))"

text \<open>The number of requests among the events of a call.\<close>

fun calls :: "event list \<Rightarrow> nat" where
  "calls [] = 0"
| "calls (Call m u # evs) = Suc (calls evs)"
| "calls (ev # evs) = calls evs"

text \<open>
  \<open>findPandaFolder\<close>: \<open>safeGet\<close> with its default of 3 attempts; a served request
  lists the folders the Target has at that moment.
\<close>

definition findPandaFolder ::
  "env \<Rightarrow> string \<Rightarrow> string option \<Rightarrow> index_state \<Rightarrow> string option \<times> index_state" where
  "findPandaFolder env name parentFolderId st =
     (case safeGet
             (\<lambda>attempt. case panda_reply env (sent st + (attempt - 1)) of
                           Refuse e \<Rightarrow> Fail e
                         | Garbled \<Rightarrow> Ok None
                         | Served \<Rightarrow> Ok (Some (panda st)))
             ''/folders'' 3 of
        (got, evs) \<Rightarrow>
          (found_folder got name parentFolderId,
           (emit evs st)\<lparr>sent := sent st + calls evs\<rparr>))"

text \<open>
  \<open>createPandaFolder\<close>: the payload has \<open>parent_folder_id\<close> only when
  \<open>parentFolderId\<close> is truthy. A served \<open>POST /folders\<close> adds the folder to the
  Target and answers with its id; \<open>data && data.id\<close> decides what the script returns.
\<close>

definition createPandaFolder ::
  "env \<Rightarrow> string \<Rightarrow> string option \<Rightarrow> index_state \<Rightarrow> string option \<times> index_state" where
  "createPandaFolder env name parentFolderId st =
     (case safePost
             (\<lambda>attempt. case panda_reply env (sent st + (attempt - 1)) of
                           Refuse e \<Rightarrow> Fail e
                         | Garbled \<Rightarrow> Ok None
                         | Served \<Rightarrow> Ok (Some (new_id env (sent st + (attempt - 1)))))
             ''/folders'' 3 of
        (got, evs) \<Rightarrow>
          let st1 = (emit evs st)\<lparr>sent := sent st + calls evs\<rparr> in
          (case got of
             Throws e \<Rightarrow> (None, emit [Console ''Panda erro ao criar'' name] st1)
           | ReturnsUndefined \<Rightarrow> (None, emit [Console ''Panda falha ao criar'' name] st1)
           | Returns None \<Rightarrow> (None, emit [Console ''Panda falha ao criar'' name] st1)
           | Returns (Some i) \<Rightarrow>
               let st2 = st1\<lparr>panda := panda st1 @
                              [\<lparr>panda_id = i, panda_name = name,
                                parent_folder_id = or_null parentFolderId\<rparr>]\<rparr>
               in if i \<noteq> [] then (Some i, emit [Console ''Panda criada'' name] st2)
                  else (None, emit [Console ''Panda falha ao criar'' name] st2)))"

text \<open>
  What the matcher of index.js would return: \<open>id\<close> and \<open>websocket_url\<close>. The name
  \<open>findPandaVideoByVimeoUrl\<close> is neither declared nor imported in index.js, a
  module, so evaluating the call throws a \<open>ReferenceError\<close> before any request.
\<close>

record panda_match =
  match_id :: "string option"
  websocket_url :: "string option"

definition findPandaVideoByVimeoUrl :: "string \<Rightarrow> exn + panda_match option" where
  "findPandaVideoByVimeoUrl downloadUrl = Inl (ReferenceError ''findPandaVideoByVimeoUrl'')"

text \<open>
  \<open>uploadVideoToPanda\<close>: up to three posts to the upload address; \<open>client attempt\<close>
  is the answer to the post of that attempt and its body is \<open>res.data\<close>. The \<open>try\<close>
  covers the post, the two console lines and \<open>saveVideoMapping\<close>; the \<open>catch\<close>
  treats whatever was thrown alike: it prints it, waits \<open>1000 * attempt\<close> and tries
  again, and after the third attempt it returns \<open>null\<close>. The result is
  \<open>res.data\<close> or \<open>null\<close>.
\<close>

definition PANDA_UPLOAD_URL :: string where
  "PANDA_UPLOAD_URL = ''https://import.pandavideo.com:9443/videos''"

function upload_loop ::
  "(nat \<Rightarrow> panda_match option attempt) \<Rightarrow> string \<Rightarrow> string \<Rightarrow> nat \<Rightarrow> 'a state_scheme
     \<Rightarrow> panda_match option \<times> 'a state_scheme" where
  "upload_loop client ttl vimeoVideoId attempt st =
     (if attempt \<le> 3 then
        (case (case client attempt of
                 Fail e \<Rightarrow> Inl (emit [Call ''POST'' PANDA_UPLOAD_URL] st)
               | Ok body \<Rightarrow>
                   (case saveVideoMapping vimeoVideoId
                           (or_null (case body of None \<Rightarrow> None | Some b \<Rightarrow> match_id b))
                           (or_null (case body of None \<Rightarrow> None | Some b \<Rightarrow> websocket_url b))
                           (Some ttl)
                           (emit [Call ''POST'' PANDA_UPLOAD_URL, Console ''Panda enviado'' ttl,
                                  Console ''dados'' vimeoVideoId] st) of
                      Inl e \<Rightarrow>
                        Inl (emit [Call ''POST'' PANDA_UPLOAD_URL, Console ''Panda enviado'' ttl,
                                   Console ''dados'' vimeoVideoId] st)
                    | Inr st' \<Rightarrow> Inr (body, st'))) of
           Inr done \<Rightarrow> done
         | Inl st' \<Rightarrow>
             if attempt = 3
             then (None, emit [Console ''Panda erro upload'' ttl,
                               Console ''Panda falha definitiva'' ttl] st')
             else upload_loop client ttl vimeoVideoId (attempt + 1)
                    (emit [Console ''Panda erro upload'' ttl,
                           Sleep (num_times (Finite 1000) (int attempt))] st'))
      else (None, st))"
  by pat_completeness auto
termination
  by (relation "measure (\<lambda>(client, ttl, vimeoVideoId, attempt, st). 4 - attempt)") auto

declare upload_loop.simps [simp del]

definition uploadVideoToPanda ::
  "(nat \<Rightarrow> panda_match option attempt) \<Rightarrow> string \<Rightarrow> string \<Rightarrow> 'a state_scheme
     \<Rightarrow> panda_match option \<times> 'a state_scheme" where
  "uploadVideoToPanda client ttl vimeoVideoId st = upload_loop client ttl vimeoVideoId 1 st"

text \<open>
  \<open>downloadUrl\<close>: the array sorted by descending \<open>width || 0\<close> (the sort is stable),
  then \<open>video.download[0].link || null\<close>.
\<close>

definition width_or_0 :: "download_entry \<Rightarrow> int" where
  "width_or_0 d = (case width d of None \<Rightarrow> 0 | Some w \<Rightarrow> w)"

definition pick_download :: "download_entry list option \<Rightarrow> string option" where
  "pick_download d =
     (case d of
        None \<Rightarrow> None
      | Some ds \<Rightarrow>
          (case sort_key (\<lambda>x. - width_or_0 x) ds of
             [] \<Rightarrow> None
           | x # _ \<Rightarrow> or_null (link x)))"

text \<open>
  The lines under \<open>if (existingPandaVideo)\<close>: the match is printed and saved with
  \<open>saveVideoMapping(video.uri, ...)\<close>, whose exception nothing catches here.
\<close>

definition save_match :: "panda_match \<Rightarrow> entry \<Rightarrow> string \<Rightarrow> index_state \<Rightarrow> ending \<times> index_state" where
  "save_match existingPandaVideo video ttl st =
     (let st1 = emit [Console ''Match'' ttl] st in
      case uri video of
        None \<Rightarrow> (Raised (TypeError ''match''), st1)
      | Some path \<Rightarrow>
          (case saveVideoMapping path (match_id existingPandaVideo)
                  (websocket_url existingPandaVideo) (Some ttl) st1 of
             Inl e \<Rightarrow> (Raised e, st1)
           | Inr st2 \<Rightarrow> (Finished, st2)))"

text \<open>The body of the \<open>for\<close> loop of \<open>processVideosInFolder\<close>: one Source video.\<close>

definition reconcile :: "entry \<Rightarrow> index_state \<Rightarrow> ending \<times> index_state" where
  "reconcile video st =
     (let ttl = or_else (video_name video) sem_titulo in
      case pick_download (download video) of
        None \<Rightarrow> (Finished, emit [Console ''Vimeo sem link de download'' ttl] st)
      | Some downloadUrl \<Rightarrow>
          (case findPandaVideoByVimeoUrl downloadUrl of
             Inl e \<Rightarrow> (Raised e, st)
           | Inr None \<Rightarrow> (Finished, emit [Console ''No Match'' ttl] st)
           | Inr (Some existingPandaVideo) \<Rightarrow> save_match existingPandaVideo video ttl st))"

text \<open>
  A request of the traversal to the Source: \<open>safeGet(axiosVimeo, url)\<close> with its
  default of 3 attempts, numbered from 1.
\<close>

definition vimeo_get :: "env \<Rightarrow> string \<Rightarrow> page completion \<times> event list" where
  "vimeo_get env url = safeGet (\<lambda>attempt. vimeo env url (attempt - 1)) url 3"

fun video_pages :: "nat \<Rightarrow> env \<Rightarrow> string \<Rightarrow> index_state \<Rightarrow> ending \<times> index_state" where
  "video_pages 0 env url st = (Unfinished, st)"
| "video_pages (Suc n) env url st =
     (case vimeo_get env url of
        (got, evs) \<Rightarrow>
          let st1 = emit evs st in
          (case got of
             Throws e \<Rightarrow> (Raised e, st1)
           | ReturnsUndefined \<Rightarrow> (Finished, st1)
           | Returns body \<Rightarrow>
               (case listed (data body) of
                  None \<Rightarrow> (Finished, st1)
                | Some videos \<Rightarrow>
                    (case for_each reconcile videos st1 of
                       (Finished, st2) \<Rightarrow>
                         (case or_null (paging_next body) of
                            None \<Rightarrow> (Finished, st2)
                          | Some nxt \<Rightarrow> video_pages n env nxt st2)
                     | (e, st2) \<Rightarrow> (e, st2)))))"

text \<open>
  \<open>processVideosInFolder\<close>: a folder without a videos uri is reported and left. That
  line prints the field \<open>folder?.name\<close> as it is, so the event carries the name when
  the folder has one.
\<close>

definition processVideosInFolder ::
  "nat \<Rightarrow> env \<Rightarrow> entry \<Rightarrow> string \<Rightarrow> index_state \<Rightarrow> ending \<times> index_state" where
  "processVideosInFolder n env vimeoFolder pandaFolderId st =
     (case or_null (case folder vimeoFolder of None \<Rightarrow> None | Some f \<Rightarrow> videos_uri f) of
        None \<Rightarrow>
          (Finished,
           emit [case (case folder vimeoFolder of None \<Rightarrow> None | Some f \<Rightarrow> folder_name f) of
                   None \<Rightarrow> Console ''Vimeo sem videos, sem nome'' []
                 | Some nm \<Rightarrow> Console ''Vimeo sem videos'' nm] st)
      | Some videosUri \<Rightarrow> video_pages n env (videosUri @ ''?per_page=100'') st)"

text \<open>
  What both branches of the \<open>for\<close> body of \<open>processFolder\<close> do once the Target
  folder is known: the folder's videos, then its sub-folders.
\<close>

definition descend ::
  "(string \<Rightarrow> string option \<Rightarrow> index_state \<Rightarrow> ending \<times> index_state) \<Rightarrow> nat \<Rightarrow> env \<Rightarrow>
     entry \<Rightarrow> string \<Rightarrow> index_state \<Rightarrow> ending \<times> index_state" where
  "descend recur n env item pandaFolderId st =
     (case processVideosInFolder n env item pandaFolderId st of
        (Finished, st1) \<Rightarrow>
          (case or_null (case folder item of None \<Rightarrow> None | Some f \<Rightarrow> items_uri f) of
             None \<Rightarrow> (Finished, st1)
           | Some subfoldersUri \<Rightarrow> recur subfoldersUri (Some pandaFolderId) st1)
      | (e, st1) \<Rightarrow> (e, st1))"

text \<open>The body of the \<open>for\<close> loop of \<open>processFolder\<close>: one item of a folder listing.\<close>

definition visit ::
  "(string \<Rightarrow> string option \<Rightarrow> index_state \<Rightarrow> ending \<times> index_state) \<Rightarrow> nat \<Rightarrow> env \<Rightarrow>
     string option \<Rightarrow> entry \<Rightarrow> index_state \<Rightarrow> ending \<times> index_state" where
  "visit recur n env pandaParentId item st =
     (let folderName = or_else (case folder item of None \<Rightarrow> None | Some f \<Rightarrow> folder_name f)
                         ''sem nome''
      in
      case or_null (case folder item of None \<Rightarrow> None | Some f \<Rightarrow> folder_uri f) of
        None \<Rightarrow> (Finished, st)
      | Some vimeoUri \<Rightarrow>
          (case map_of (folderMap st) vimeoUri of
             Some pandaFolderId \<Rightarrow>
               descend recur n env item pandaFolderId (emit [Console ''Cache'' folderName] st)
           | None \<Rightarrow>
               (case findPandaFolder env folderName pandaParentId st of
                  (found, st1) \<Rightarrow>
                    (case (case or_null found of
                             Some i \<Rightarrow> (Some i, st1)
                           | None \<Rightarrow>
                               (case createPandaFolder env folderName pandaParentId st1 of
                                  (made, st2) \<Rightarrow> (or_null made, st2))) of
                       (None, st3) \<Rightarrow> (Finished, emit [Console ''Erro Pulando'' folderName] st3)
                     | (Some pandaFolderId, st3) \<Rightarrow>
                         descend recur n env item pandaFolderId
                           (st3\<lparr>folderMap :=
                                  AList.update vimeoUri pandaFolderId (folderMap st3)\<rparr>)))))"

fun folder_pages ::
  "nat \<Rightarrow> env \<Rightarrow> string \<Rightarrow> string option \<Rightarrow> index_state \<Rightarrow> ending \<times> index_state" where
  "folder_pages 0 env url pandaParentId st = (Unfinished, st)"
| "folder_pages (Suc n) env url pandaParentId st =
     (case vimeo_get env url of
        (got, evs) \<Rightarrow>
          let st1 = emit evs st in
          (case got of
             Throws e \<Rightarrow> (Raised e, st1)
           | ReturnsUndefined \<Rightarrow> (Finished, st1)
           | Returns body \<Rightarrow>
               (case listed (data body) of
                  None \<Rightarrow> (Finished, st1)
                | Some items \<Rightarrow>
                    (case for_each
                            (visit (\<lambda>u p s. folder_pages n env (u @ ''?per_page=100'') p s)
                               n env pandaParentId)
                            items st1 of
                       (Finished, st2) \<Rightarrow>
                         (case or_null (paging_next body) of
                            None \<Rightarrow> (Finished, st2)
                          | Some nxt \<Rightarrow> folder_pages n env nxt pandaParentId st2)
                     | (e, st2) \<Rightarrow> (e, st2)))))"

definition processFolder ::
  "nat \<Rightarrow> env \<Rightarrow> string \<Rightarrow> string option \<Rightarrow> index_state \<Rightarrow> ending \<times> index_state" where
  "processFolder n env vimeoFolderUri pandaParentId st =
     folder_pages n env (vimeoFolderUri @ ''?per_page=100'') pandaParentId st"

text \<open>\<open>run\<close>: the \<open>try\<close> around the traversal and the \<open>catch\<close> that prints \<open>Erro fatal\<close>.\<close>

definition run :: "nat \<Rightarrow> env \<Rightarrow> string \<Rightarrow> index_state \<Rightarrow> ending \<times> index_state" where
  "run n env rootUri st =
     (case processFolder n env rootUri None st of
        (Finished, st') \<Rightarrow> (Finished, emit [Console ''log'' ''Processamento finalizado''] st')
      | (Raised e, st') \<Rightarrow> (Raised e, emit [Console ''error'' ''Erro fatal''] st')
      | (Unfinished, st') \<Rightarrow> (Unfinished, st'))"

section \<open>Vocabulary of the properties\<close>

text \<open>The number of statements that write to the table among some events.\<close>

fun upserts :: "event list \<Rightarrow> nat" where
  "upserts [] = 0"
| "upserts (Upsert k # evs) = Suc (upserts evs)"
| "upserts (ev # evs) = upserts evs"


text \<open>The keys of the rows of the table of a state.\<close>

definition keys :: "state \<Rightarrow> string set" where
  "keys st = vimeo_video_id ` set (pool st)"


text \<open>One piece of the traversal after another, the second only when the first ends normally.\<close>

definition then_do ::
  "('s \<Rightarrow> ending \<times> 's) \<Rightarrow> ('s \<Rightarrow> ending \<times> 's) \<Rightarrow> 's \<Rightarrow> ending \<times> 's" where
  "then_do f g st = (case f st of (Finished, st') \<Rightarrow> g st' | (e, st') \<Rightarrow> (e, st'))"


text \<open>
  A piece of getVimeoPandaLinks.js is \<open>steady\<close> when it only adds keys to the table
  and, started again on a table that has the keys it ended with (and no others when it
  did not end normally), it ends the same way and writes nothing. A piece of index.js is
  \<open>quiet\<close> when it writes nothing at all.
\<close>

definition steady :: "(state \<Rightarrow> ending \<times> state) \<Rightarrow> bool" where
  "steady f \<longleftrightarrow>
     (\<forall>t r t'. f t = (r, t') \<longrightarrow>
        keys t \<subseteq> keys t' \<and>
        (\<forall>u. keys t' \<subseteq> keys u \<longrightarrow> (r \<noteq> Finished \<longrightarrow> keys u \<subseteq> keys t') \<longrightarrow>
           (\<exists>u'. f u = (r, u') \<and> pool u' = pool u \<and>
                 upserts (trace u') = upserts (trace u))))"


text \<open>
  Two descriptions of the remote platforms carry the \<open>same_data\<close> when every
  successful answer to the same request has the same body; they may differ in which
  requests fail. \<open>replays f g\<close>: after \<open>f\<close> has ended normally, \<open>g\<close>, started on a
  table that has the keys \<open>f\<close> ended with, writes nothing.
\<close>

definition same_data :: "env \<Rightarrow> env \<Rightarrow> bool" where
  "same_data a b \<longleftrightarrow>
     (\<forall>url i j p q. vimeo a url i = Ok p \<and> vimeo b url j = Ok q \<longrightarrow> p = q) \<and>
     (\<forall>f g. panda_folders a = Ok f \<and> panda_folders b = Ok g \<longrightarrow> f = g) \<and>
     (\<forall>folderId ttl v w.
        panda_videos a folderId ttl = Ok v \<and> panda_videos b folderId ttl = Ok w \<longrightarrow> v = w)"

definition replays :: "(state \<Rightarrow> ending \<times> state) \<Rightarrow> (state \<Rightarrow> ending \<times> state) \<Rightarrow> bool" where
  "replays f g \<longleftrightarrow>
     (\<forall>t t' u. f t = (Finished, t') \<longrightarrow> keys t' \<subseteq> keys u \<longrightarrow>
        (\<exists>r u'. g u = (r, u') \<and> pool u' = pool u \<and> upserts (trace u') = upserts (trace u)))"

definition quiet :: "(index_state \<Rightarrow> ending \<times> index_state) \<Rightarrow> bool" where
  "quiet f \<longleftrightarrow>
     (\<forall>s r s'. f s = (r, s') \<longrightarrow> pool s' = pool s \<and> upserts (trace s') = upserts (trace s))"


section \<open>Example inputs\<close>

text \<open>A rejection with HTTP 429, with the given \<open>retry-after\<close> header, and a client that answers every attempt with it.\<close>

definition rate_limited :: "string option \<Rightarrow> http_error" where
  "rate_limited h =
     \<lparr>status = Some 429, code = None, retry_after = h, message = ''Too Many Requests''\<rparr>"

definition limited_client :: "string option \<Rightarrow> nat \<Rightarrow> page attempt" where
  "limited_client h attempt = Fail (rate_limited h)"

text \<open>A row that already maps a Source video, with a streaming reference.\<close>

definition mapped :: "string \<Rightarrow> string \<Rightarrow> row" where
  "mapped k v =
     \<lparr>vimeo_video_id = k, panda_video_id = Some v, panda_websocket_url = Some ''wss://old'',
      title = Some ''old title'', updated_at = 1\<rparr>"


text \<open>An empty table at the start of a run; for index.js, also the folders the Target has.\<close>

definition blank :: state where
  "blank = \<lparr>pool = [], trace = [], clock = 0\<rparr>"

definition start :: "pfolder list \<Rightarrow> index_state" where
  "start fs = \<lparr>pool = [], trace = [], clock = 0, folderMap = [], panda = fs, sent = 0\<rparr>"

text \<open>
  A small Source: the root listing has an empty first page with a next reference, then
  the folders A and B; A holds the videos \<open>one\<close> (with a download link) and
  \<open>two\<close>, B holds \<open>three\<close>. The Target has the folders A and B and finds the
  titles \<open>one\<close> and \<open>three\<close>. \<open>broken\<close> is the same Source with a listing of
  A's videos that fails with HTTP 500; \<open>flaky\<close> is a Source with the folder B only
  and a Target that refuses the first three requests of the run; \<open>refusing\<close> is a
  Target that refuses every request.
\<close>

definition folder_item :: "string \<Rightarrow> string \<Rightarrow> entry" where
  "folder_item nm u =
     \<lparr>video_name = None, uri = None, download = None,
      folder = Some \<lparr>folder_name = Some nm, folder_uri = Some u,
                     videos_uri = Some (u @ ''/videos''), items_uri = None\<rparr>\<rparr>"

definition video_item :: "string \<Rightarrow> string \<Rightarrow> download_entry list \<Rightarrow> entry" where
  "video_item nm u ds = \<lparr>video_name = Some nm, uri = Some u, download = Some ds, folder = None\<rparr>"

definition path_of :: "string \<Rightarrow> string" where
  "path_of url = takeWhile (\<lambda>c. c \<noteq> CHR ''?'') url"

definition server_error :: http_error where
  "server_error = \<lparr>status = Some 500, code = None, retry_after = None, message = ''Internal Server Error''\<rparr>"

definition shelf :: "pfolder list" where
  "shelf = [\<lparr>panda_id = ''pa'', panda_name = ''A'', parent_folder_id = None\<rparr>,
            \<lparr>panda_id = ''pb'', panda_name = ''B'', parent_folder_id = None\<rparr>]"

definition library :: env where
  "library =
     \<lparr>vimeo = (\<lambda>url try.
         if path_of url = ''/root'' then
           Ok \<lparr>data = Items [], paging_next = Some ''/root/2''\<rparr>
         else if path_of url = ''/root/2'' then
           Ok \<lparr>data = Items [folder_item ''A'' ''/folders/1'', folder_item ''B'' ''/folders/2''],
               paging_next = None\<rparr>
         else if path_of url = ''/folders/1/videos'' then
           Ok \<lparr>data = Items [video_item ''one'' ''/videos/1''
                               [\<lparr>width = Some 1080, link = Some ''https://dl/1''\<rparr>],
                            video_item ''two'' ''/videos/2'' []],
               paging_next = None\<rparr>
         else if path_of url = ''/folders/2/videos'' then
           Ok \<lparr>data = Items [video_item ''three'' ''/videos/3'' []], paging_next = None\<rparr>
         else Ok \<lparr>data = Absent, paging_next = None\<rparr>),
      panda_folders = Ok (Some shelf),
      panda_videos = (\<lambda>folderId ttl.
         if ttl = ''one'' \<or> ttl = ''three'' then Ok (Some [\<lparr>video_external_id = ''x-'' @ ttl\<rparr>])
         else Ok (Some [])),
      panda_reply = (\<lambda>n. Served),
      new_id = (\<lambda>n. ''new'')\<rparr>"

text \<open>The same platforms with a Target whose search finds other videos for the same titles.\<close>

definition relabelled :: env where
  "relabelled = library\<lparr>panda_videos := (\<lambda>folderId ttl. Ok (Some [\<lparr>video_external_id = ''y-'' @ ttl\<rparr>]))\<rparr>"

text \<open>The same Source, but the listing of A's videos has an object where the array should be.\<close>

definition misshapen :: env where
  "misshapen = library\<lparr>vimeo := (\<lambda>url try.
      if path_of url = ''/folders/1/videos'' then Ok \<lparr>data = Other, paging_next = None\<rparr>
      else vimeo library url try)\<rparr>"

definition broken :: env where
  "broken = library\<lparr>vimeo := (\<lambda>url try.
      if path_of url = ''/folders/1/videos'' then Fail server_error else vimeo library url try)\<rparr>"

definition flaky :: env where
  "flaky = library\<lparr>vimeo := (\<lambda>url try.
      if path_of url = ''/root'' then
        Ok \<lparr>data = Items [folder_item ''B'' ''/folders/2''], paging_next = None\<rparr>
      else vimeo library url try),
    panda_reply := (\<lambda>n. if n < 3 then Refuse server_error else Served)\<rparr>"

definition refusing :: env where
  "refusing = library\<lparr>panda_reply := (\<lambda>n. Refuse server_error)\<rparr>"

text \<open>A video whose widest download entry has no link, while a narrower one has.\<close>

definition hidden :: entry where
  "hidden = video_item ''hidden'' ''/videos/9''
              [\<lparr>width = Some 720, link = Some ''https://dl/9''\<rparr>,
               \<lparr>width = Some 1080, link = None\<rparr>]"

text \<open>An upload address that accepts every post and answers with an id and a streaming reference.\<close>

definition accepting :: "nat \<Rightarrow> panda_match option attempt" where
  "accepting attempt = Ok (Some \<lparr>match_id = Some ''p1'', websocket_url = Some ''wss://p1''\<rparr>)"

text \<open>Target folders that differ in parent or in the case of the name.\<close>

definition foos :: "pfolder list" where
  "foos = [\<lparr>panda_id = ''f1'', panda_name = ''Foo'', parent_folder_id = Some ''X''\<rparr>,
           \<lparr>panda_id = ''f2'', panda_name = ''Foo'', parent_folder_id = None\<rparr>,
           \<lparr>panda_id = ''f3'', panda_name = ''foo'', parent_folder_id = Some ''Y''\<rparr>]"

text \<open>A video item with the title \<open>odd\<close> whose identifier is not of the shape \<open>/videos/<digits>\<close>.\<close>

definition odd_video :: entry where
  "odd_video = \<lparr>video_name = Some ''odd'', uri = Some ''/videos/12a'', download = None, folder = None\<rparr>"

section \<open>The request layer: how a call ends, and how long it waits\<close>

text \<open>An integer of at most 53 bits is a number as it is, and so is such a product.\<close>

lemma exponent_small: "n < 2 ^ 53 \<Longrightarrow> exponent n 0 = 0"
  by (subst exponent.simps) simp

lemma to_number_small: "\<bar>i\<bar> < 2 ^ 53 \<Longrightarrow> to_number i = Finite i"
proof -
  assume "\<bar>i\<bar> < 2 ^ 53"
  then have a: "nat \<bar>i\<bar> < 2 ^ 53" by (simp add: nat_less_iff)
  then have e: "exponent (nat \<bar>i\<bar>) 0 = 0" by (rule exponent_small)
  have "(2::nat) ^ 53 < 2 ^ 1024" by simp
  with a have "\<not> (2::nat) ^ 1024 \<le> nat \<bar>i\<bar>" by simp
  with e show ?thesis by (simp add: to_number_def round_nat_def Let_def)
qed

lemma num_times_small: "\<bar>a * k\<bar> < 2 ^ 53 \<Longrightarrow> num_times (Finite a) k = Finite (a * k)"
  by (simp add: num_times_def to_number_small)

lemma parseInt_digits:
  assumes "ds \<noteq> []" and "list_all is_digit ds"
  shows "parseInt ds = to_number (int (digits_val ds))"
proof -
  from assms obtain c r where ds: "ds = c # r" and c: "is_digit c"
    by (cases ds) auto
  from c have n: "\<not> is_space c" "c \<noteq> CHR ''-''" "c \<noteq> CHR ''+''"
    by (auto simp: is_digit_def is_space_def)
  from assms(2) have t: "takeWhile is_digit ds = ds"
    by (simp add: takeWhile_eq_all_conv list_all_iff)
  from n ds have d: "dropWhile is_space ds = ds" by simp
  show ?thesis
    unfolding parseInt_def d Let_def using ds n t assms(1) by simp
qed

lemmas parse_defs = parseInt_def is_digit_def is_space_def digits_val_def digit_val_def
  num_times_def truthy_def or_else_def or_null_def to_number_small


text \<open>
  \<open>axiosVimeoRetry\<close> never ends without a response or an exception, and no call of
  either layer makes more requests than its attempt counter allows, whatever mix of
  failures the attempts meet.
\<close>

lemma axios_loop_never_undefined:
  "fst (axios_loop client url retries attempt) \<noteq> ReturnsUndefined"
proof (induction client url retries attempt rule: axios_loop.induct)
  case (1 client url retries attempt)
  show ?case
  proof (cases "attempt < retries")
    case False
    then show ?thesis by (subst axios_loop.simps) simp
  next
    case True
    show ?thesis
    proof (cases "client attempt")
      case (Ok r)
      with True show ?thesis by (subst axios_loop.simps) simp
    next
      case (Fail e)
      show ?thesis
      proof (cases "status e = Some 429")
        case a: True
        from "1.IH"(1)[OF True Fail a] True Fail a show ?thesis
          by (subst axios_loop.simps) (auto split: prod.splits)
      next
        case b: False
        show ?thesis
        proof (cases "code e = Some ''ECONNRESET'' \<or> code e = Some ''ETIMEDOUT''")
          case c: True
          from "1.IH"(2)[OF True Fail b c] True Fail b c show ?thesis
            by (subst axios_loop.simps) (auto split: prod.splits)
        next
          case c: False
          with True Fail b show ?thesis by (subst axios_loop.simps) simp
        qed
      qed
    qed
  qed
qed

lemma axios_loop_calls: "calls (snd (axios_loop client url retries attempt)) \<le> retries - attempt"
proof (induction client url retries attempt rule: axios_loop.induct)
  case (1 client url retries attempt)
  show ?case
  proof (cases "attempt < retries")
    case False
    then show ?thesis by (subst axios_loop.simps) simp
  next
    case True
    show ?thesis
    proof (cases "client attempt")
      case (Ok r)
      with True show ?thesis by (subst axios_loop.simps) simp
    next
      case (Fail e)
      show ?thesis
      proof (cases "status e = Some 429")
        case a: True
        from "1.IH"(1)[OF True Fail a] True Fail a show ?thesis
          by (subst axios_loop.simps) (auto split: prod.splits)
      next
        case b: False
        show ?thesis
        proof (cases "code e = Some ''ECONNRESET'' \<or> code e = Some ''ETIMEDOUT''")
          case c: True
          from "1.IH"(2)[OF True Fail b c] True Fail b c show ?thesis
            by (subst axios_loop.simps) (auto split: prod.splits)
        next
          case c: False
          with True Fail b show ?thesis by (subst axios_loop.simps) simp
        qed
      qed
    qed
  qed
qed

lemma safe_loop_calls: "calls (snd (safe_loop m client url retry attempt)) \<le> Suc retry - attempt"
proof (induction m client url retry attempt rule: safe_loop.induct)
  case (1 m client url retry attempt)
  show ?case
  proof (cases "attempt \<le> retry")
    case False
    then show ?thesis by (subst safe_loop.simps) simp
  next
    case True
    show ?thesis
    proof (cases "client attempt")
      case (Ok r)
      with True show ?thesis by (subst safe_loop.simps) simp
    next
      case (Fail e)
      show ?thesis
      proof (cases "status e = Some 429")
        case a: True
        from "1.IH"(1)[OF True Fail a] True Fail a show ?thesis
          by (subst safe_loop.simps) (auto split: prod.splits)
      next
        case b: False
        show ?thesis
        proof (cases "attempt = retry")
          case c: True
          with True Fail b show ?thesis by (subst safe_loop.simps) simp
        next
          case c: False
          from "1.IH"(2)[OF True Fail b c] True Fail b c show ?thesis
            by (subst safe_loop.simps) (auto split: prod.splits)
        qed
      qed
    qed
  qed
qed


text \<open>
  C3. Every call through the request layer either returns the body of a successful
  attempt or raises an error after at most the configured attempts; it never completes
  with neither. \<open>axiosVimeoRetry\<close> does so (\<open>axios_loop_never_undefined\<close>), and so
  does \<open>safeGet\<close> when its last attempt fails otherwise; but when every one of the three
  attempts of \<open>safeGet\<close> is answered with HTTP 429, the loop ends and the call
  completes with \<open>undefined\<close>: no body and no error. \<open>safePost\<close> runs the same loop.
\<close>

theorem safeGet_all_429_returns_undefined:
  "safeGet (limited_client None) url 3 =
     (ReturnsUndefined,
      [Call ''GET'' url, Sleep (Finite 2000), Call ''GET'' url, Sleep (Finite 4000),
       Call ''GET'' url, Sleep (Finite 6000)])"
  by (simp add: safeGet_def safe_loop.simps limited_client_def rate_limited_def safe_wait_def
        truthy_def num_times_small)


text \<open>
  The callers of \<open>safeGet\<close> take \<open>undefined\<close> for a page without a data array: the
  listing ends there, normally.
\<close>

lemma undefined_page_ends_listing:
  "vimeo_get env url = (ReturnsUndefined, evs) \<Longrightarrow>
     folder_pages (Suc n) env url pandaParentId st = (Finished, emit evs st) \<and>
     video_pages (Suc n) env url st = (Finished, emit evs st)"
  by (simp add: Let_def)


text \<open>
  C5, as the spec states it, asks that the wait after a 429 be multiplied by the attempt
  index also when the \<open>retry-after\<close> header is present, so that \<open>retry-after: 2\<close>
  waits at least 2 seconds times the attempt index. In \<open>safeGet\<close> and \<open>safePost\<close>
  the second attempt with \<open>retry-after: 2\<close> waits 2000 ms, less than 2 * 1000 * 2.
\<close>

theorem safe_wait_header_not_escalated:
  "safeGet (limited_client (Some ''2'')) ''/u'' 3 =
     (ReturnsUndefined,
      [Call ''GET'' ''/u'', Sleep (Finite 2000), Call ''GET'' ''/u'', Sleep (Finite 2000),
       Call ''GET'' ''/u'', Sleep (Finite 2000)])
   \<and> safe_wait (rate_limited (Some ''2'')) 2 = Finite 2000
   \<and> (2000 :: int) < 2 * 1000 * 2"
  by (simp add: safeGet_def safe_loop.simps limited_client_def rate_limited_def safe_wait_def
        parse_defs)

text \<open>
  C5, amended. After an attempt that receives HTTP 429, \<open>axiosVimeoRetry\<close> waits the
  header's seconds (5 when the header is missing or empty) times 1000 times the attempt
  index counted from 1, and goes on with the next attempt; \<open>safeGet\<close> and
  \<open>safePost\<close> wait the header's seconds times 1000 when the header is present, not
  multiplied by the attempt, and \<open>2000 * attempt\<close> otherwise. The seconds are what
  \<open>parseInt\<close> reads of the header and the products are JavaScript's; for a header
  of decimal digits and for a missing header, as long as the product stays below
  \<open>2^53\<close>, the wait is the exact product. In both layers a 429 uses up one attempt of
  the same counter as every other failure: the requests of a call never exceed the
  attempts left.
\<close>

theorem rate_limit_wait:
  assumes "client attempt = Fail e" and "status e = Some 429"
  shows "(attempt < retries \<longrightarrow>
            axios_loop client url retries attempt =
              (case axios_loop client url retries (Suc attempt) of
                 (r, evs) \<Rightarrow>
                   (r, Call ''GET'' url #
                       Sleep (num_times (num_times (parseInt (or_else (retry_after e) ''5'')) 1000)
                                (int attempt + 1)) # evs)))
       \<and> (attempt \<le> retry \<longrightarrow>
            safe_loop m client url retry attempt =
              (case safe_loop m client url retry (Suc attempt) of
                 (r, evs) \<Rightarrow>
                   (r, Call m url #
                       Sleep (case or_null (retry_after e) of
                                Some h \<Rightarrow> num_times (parseInt h) 1000
                              | None \<Rightarrow> num_times (Finite 2000) (int attempt)) # evs)))
       \<and> (retry_after e = Some ds \<and> ds \<noteq> [] \<and> list_all is_digit ds \<and>
          int (digits_val ds) * 1000 * (int attempt + 1) < 2 ^ 53 \<longrightarrow>
            (attempt < retries \<longrightarrow>
               axios_loop client url retries attempt =
                 (case axios_loop client url retries (Suc attempt) of
                    (r, evs) \<Rightarrow>
                      (r, Call ''GET'' url #
                          Sleep (Finite (int (digits_val ds) * 1000 * (int attempt + 1))) # evs))) \<and>
            (attempt \<le> retry \<longrightarrow>
               safe_loop m client url retry attempt =
                 (case safe_loop m client url retry (Suc attempt) of
                    (r, evs) \<Rightarrow>
                      (r, Call m url # Sleep (Finite (int (digits_val ds) * 1000)) # evs))))
       \<and> (or_null (retry_after e) = None \<and> 5000 * (int attempt + 1) < 2 ^ 53 \<longrightarrow>
            (attempt < retries \<longrightarrow>
               axios_loop client url retries attempt =
                 (case axios_loop client url retries (Suc attempt) of
                    (r, evs) \<Rightarrow>
                      (r, Call ''GET'' url # Sleep (Finite (5 * 1000 * (int attempt + 1))) # evs))) \<and>
            (attempt \<le> retry \<longrightarrow>
               safe_loop m client url retry attempt =
                 (case safe_loop m client url retry (Suc attempt) of
                    (r, evs) \<Rightarrow>
                      (r, Call m url # Sleep (Finite (2000 * int attempt)) # evs))))
       \<and> calls (snd (axios_loop client url retries attempt)) \<le> retries - attempt
       \<and> calls (snd (safe_loop m client url retry attempt)) \<le> Suc retry - attempt"
proof -
  have ax: "attempt < retries \<Longrightarrow>
            axios_loop client url retries attempt =
              (case axios_loop client url retries (Suc attempt) of
                 (r, evs) \<Rightarrow> (r, Call ''GET'' url # Sleep (axios_wait e attempt) # evs))"
    using assms by (subst axios_loop.simps) (simp split: prod.splits)
  have sf: "attempt \<le> retry \<Longrightarrow>
            safe_loop m client url retry attempt =
              (case safe_loop m client url retry (Suc attempt) of
                 (r, evs) \<Rightarrow> (r, Call m url # Sleep (safe_wait e attempt) # evs))"
    using assms by (subst safe_loop.simps) (simp split: prod.splits)
  have aw: "axios_wait e attempt =
              num_times (num_times (parseInt (or_else (retry_after e) ''5'')) 1000)
                (int attempt + 1)"
    by (simp add: axios_wait_def)
  have sw: "safe_wait e attempt =
              (case or_null (retry_after e) of
                 Some h \<Rightarrow> num_times (parseInt h) 1000
               | None \<Rightarrow> num_times (Finite 2000) (int attempt))"
    by (auto simp: safe_wait_def or_null_def or_else_def truthy_def split: option.splits)
  have dg: "axios_wait e attempt = Finite (int (digits_val ds) * 1000 * (int attempt + 1)) \<and>
            safe_wait e attempt = Finite (int (digits_val ds) * 1000)"
    if h: "retry_after e = Some ds \<and> ds \<noteq> [] \<and> list_all is_digit ds \<and>
          int (digits_val ds) * 1000 * (int attempt + 1) < 2 ^ 53"
  proof -
    let ?a = "int (digits_val ds)"
    from h have p: "parseInt ds = to_number ?a" by (simp add: parseInt_digits)
    have nn: "0 \<le> ?a" by simp
    have k: "1 \<le> int attempt + 1" by simp
    from nn have "?a * 1000 * 1 \<le> ?a * 1000 * (int attempt + 1)"
      by (intro mult_left_mono) simp_all
    with h have b1000: "?a * 1000 < 2 ^ 53" by simp
    from nn have "?a \<le> ?a * 1000" by simp
    with b1000 have b1: "?a < 2 ^ 53" by simp
    from b1 nn have t1: "to_number ?a = Finite ?a" by (intro to_number_small) simp
    from b1000 nn have t2: "num_times (Finite ?a) 1000 = Finite (?a * 1000)"
      by (intro num_times_small) simp
    from h nn have t3: "num_times (Finite (?a * 1000)) (int attempt + 1) =
                          Finite (?a * 1000 * (int attempt + 1))"
      by (intro num_times_small) simp
    from h have o: "or_else (retry_after e) ''5'' = ds" "or_null (retry_after e) = Some ds"
      by (simp_all add: or_else_def or_null_def truthy_def)
    from p t1 t2 t3 o show ?thesis by (simp add: aw sw)
  qed
  have ms: "axios_wait e attempt = Finite (5 * 1000 * (int attempt + 1)) \<and>
            safe_wait e attempt = Finite (2000 * int attempt)"
    if h: "or_null (retry_after e) = None \<and> 5000 * (int attempt + 1) < 2 ^ 53"
  proof -
    from h have o: "or_else (retry_after e) ''5'' = ''5''"
      by (auto simp: or_else_def or_null_def truthy_def split: option.splits if_splits)
    have p: "parseInt ''5'' = Finite 5" by (simp add: parse_defs)
    have t2: "num_times (Finite 5) 1000 = Finite 5000" by (simp add: num_times_small)
    from h have t3: "num_times (Finite 5000) (int attempt + 1) = Finite (5000 * (int attempt + 1))"
      by (intro num_times_small) simp
    from h have "2000 * int attempt < 2 ^ 53" by simp
    then have t4: "num_times (Finite 2000) (int attempt) = Finite (2000 * int attempt)"
      by (intro num_times_small) simp
    from h o p t2 t3 t4 show ?thesis by (simp add: aw sw)
  qed
  show ?thesis
    apply (intro conjI impI)
    subgoal using ax aw by simp
    subgoal using sf sw by simp
    subgoal using ax dg by simp
    subgoal using sf dg by simp
    subgoal using ax ms by simp
    subgoal using sf ms by simp
    subgoal by (rule axios_loop_calls)
    subgoal by (rule safe_loop_calls)
    done
qed

theorem rate_limit_wait_witness:
  "limited_client (Some ''2'') 1 = Fail (rate_limited (Some ''2''))
   \<and> status (rate_limited (Some ''2'')) = Some 429
   \<and> snd (axios_loop (limited_client (Some ''2'')) ''/u'' 5 1) =
       Call ''GET'' ''/u'' # Sleep (Finite 4000) #
       snd (axios_loop (limited_client (Some ''2'')) ''/u'' 5 (Suc 1))
   \<and> snd (safe_loop ''GET'' (limited_client (Some ''2'')) ''/u'' 3 2) =
       Call ''GET'' ''/u'' # Sleep (Finite 2000) #
       snd (safe_loop ''GET'' (limited_client (Some ''2'')) ''/u'' 3 (Suc 2))"
proof -
  let ?e = "rate_limited (Some ''2'')"
  let ?c = "limited_client (Some ''2'')"
  have c: "\<And>a. ?c a = Fail ?e"
    by (simp add: limited_client_def)
  have s: "status ?e = Some 429"
    by (simp add: rate_limited_def)
  have h1: "retry_after ?e = Some ''2'' \<and> ''2'' \<noteq> [] \<and> list_all is_digit ''2'' \<and>
           int (digits_val ''2'') * 1000 * (int 1 + 1) < 2 ^ 53"
    and h2: "retry_after ?e = Some ''2'' \<and> ''2'' \<noteq> [] \<and> list_all is_digit ''2'' \<and>
           int (digits_val ''2'') * 1000 * (int 2 + 1) < 2 ^ 53"
    by (simp_all add: rate_limited_def is_digit_def digits_val_def digit_val_def)
  have d: "int (digits_val ''2'') = 2"
    by (simp add: digits_val_def digit_val_def)
  note w1 = rate_limit_wait [where client = ?c and attempt = 1 and e = ?e and retries = 5
                               and url = "''/u''" and retry = 3 and m = "''GET''" and ds = "''2''",
                             OF c s, THEN conjunct2, THEN conjunct2, THEN conjunct1, THEN mp,
                             OF h1, THEN conjunct1]
  note w2 = rate_limit_wait [where client = ?c and attempt = 2 and e = ?e and retries = 5
                               and url = "''/u''" and retry = 3 and m = "''GET''" and ds = "''2''",
                             OF c s, THEN conjunct2, THEN conjunct2, THEN conjunct1, THEN mp,
                             OF h2, THEN conjunct2]
  have a: "axios_loop ?c ''/u'' 5 1 =
             (case axios_loop ?c ''/u'' 5 (Suc 1) of
                (r, evs) \<Rightarrow> (r, Call ''GET'' ''/u'' # Sleep (Finite 4000) # evs))"
    using w1 d by simp
  have b: "safe_loop ''GET'' ?c ''/u'' 3 2 =
             (case safe_loop ''GET'' ?c ''/u'' 3 (Suc 2) of
                (r, evs) \<Rightarrow> (r, Call ''GET'' ''/u'' # Sleep (Finite 2000) # evs))"
    using w2 d by simp
  have a': "snd (axios_loop ?c ''/u'' 5 1) =
       Call ''GET'' ''/u'' # Sleep (Finite 4000) # snd (axios_loop ?c ''/u'' 5 (Suc 1))"
    by (subst a) (simp split: prod.splits)
  have b': "snd (safe_loop ''GET'' ?c ''/u'' 3 2) =
       Call ''GET'' ''/u'' # Sleep (Finite 2000) # snd (safe_loop ''GET'' ?c ''/u'' 3 (Suc 2))"
    by (subst b) (simp split: prod.splits)
  from c s a' b' show ?thesis by blast
qed


section \<open>Identifiers\<close>

lemma match_videos_iff:
  "match_videos path = Some ds \<longleftrightarrow> path = ''/videos/'' @ ds \<and> ds \<noteq> [] \<and> list_all is_digit ds"
proof
  assume "match_videos path = Some ds"
  then have a: "take 8 path = ''/videos/''" and b: "drop 8 path = ds"
    and c: "ds \<noteq> []" and d: "list_all is_digit ds"
    by (auto simp: match_videos_def split: if_splits)
  have "path = take 8 path @ drop 8 path" by simp
  with a b have "path = ''/videos/'' @ ds" by simp
  with c d show "path = ''/videos/'' @ ds \<and> ds \<noteq> [] \<and> list_all is_digit ds" by simp
next
  assume "path = ''/videos/'' @ ds \<and> ds \<noteq> [] \<and> list_all is_digit ds"
  then show "match_videos path = Some ds" by (simp add: match_videos_def)
qed

lemma match_videos_None:
  "\<not> (\<exists>ds. ds \<noteq> [] \<and> list_all is_digit ds \<and> path = ''/videos/'' @ ds) \<Longrightarrow> match_videos path = None"
  using match_videos_iff [of path] by (cases "match_videos path") auto

text \<open>What a sequence of events adds to a state: no row, and its own writes and requests.\<close>

lemma upserts_append: "upserts (xs @ ys) = upserts xs + upserts ys"
  by (induction xs rule: upserts.induct) simp_all

lemma calls_append: "calls (xs @ ys) = calls xs + calls ys"
  by (induction xs rule: calls.induct) simp_all

lemma pool_emit: "pool (emit evs st) = pool st"
  by (simp add: emit_def)

lemma upserts_emit: "upserts (trace (emit evs st)) = upserts (trace st) + upserts evs"
  by (simp add: emit_def upserts_append)

lemma calls_emit: "calls (trace (emit evs st)) = calls (trace st) + calls evs"
  by (simp add: emit_def calls_append)

text \<open>
  With an identifier that \<open>formatVimeoUrl\<close> rejects, every attempt of
  \<open>uploadVideoToPanda\<close> fails, at the post or at \<open>saveVideoMapping\<close>, and is
  followed by the next: the loop posts at each attempt left, writes nothing and returns
  \<open>null\<close>.
\<close>

lemma upload_loop_rejected_3:
  assumes "match_videos path = None"
  shows "fst (upload_loop client ttl path 3 st) = None \<and>
     pool (snd (upload_loop client ttl path 3 st)) = pool st \<and>
     upserts (trace (snd (upload_loop client ttl path 3 st))) = upserts (trace st) \<and>
     calls (trace (snd (upload_loop client ttl path 3 st))) = calls (trace st) + 1"
proof -
  from assms have f: "\<And>v w t s. saveVideoMapping path v w t s = Inl FormatError"
    by (simp add: saveVideoMapping_def formatVimeoUrl_def)
  show ?thesis
    by (subst (1 2 3 4) upload_loop.simps)
       (simp add: f pool_emit upserts_emit calls_emit split: attempt.splits)
qed

lemma upload_loop_rejected_step:
  assumes "match_videos path = None" and "attempt = 1 \<or> attempt = 2"
  shows "\<exists>s. upload_loop client ttl path attempt st = upload_loop client ttl path (attempt + 1) s \<and>
     pool s = pool st \<and> upserts (trace s) = upserts (trace st) \<and>
     calls (trace s) = calls (trace st) + 1"
proof -
  from assms(1) have f: "\<And>v w t s. saveVideoMapping path v w t s = Inl FormatError"
    by (simp add: saveVideoMapping_def formatVimeoUrl_def)
  from assms(2) show ?thesis
    by (subst upload_loop.simps)
       (auto simp: f pool_emit upserts_emit calls_emit split: attempt.splits)
qed

lemma upload_loop_rejected:
  assumes m: "match_videos path = None"
  shows "fst (upload_loop client ttl path 1 st) = None \<and>
     pool (snd (upload_loop client ttl path 1 st)) = pool st \<and>
     upserts (trace (snd (upload_loop client ttl path 1 st))) = upserts (trace st) \<and>
     calls (trace (snd (upload_loop client ttl path 1 st))) = calls (trace st) + 3"
proof -
  from upload_loop_rejected_step [OF m, of 1 client ttl st]
  obtain s1 where a1: "upload_loop client ttl path 1 st = upload_loop client ttl path 2 s1"
    and p1: "pool s1 = pool st" and u1: "upserts (trace s1) = upserts (trace st)"
    and c1: "calls (trace s1) = calls (trace st) + 1"
    by (auto simp: numeral_2_eq_2)
  from upload_loop_rejected_step [OF m, of 2 client ttl s1]
  obtain s2 where a2: "upload_loop client ttl path 2 s1 = upload_loop client ttl path 3 s2"
    and p2: "pool s2 = pool s1" and u2: "upserts (trace s2) = upserts (trace s1)"
    and c2: "calls (trace s2) = calls (trace s1) + 1"
    by (auto simp: numeral_3_eq_3 numeral_2_eq_2)
  from upload_loop_rejected_3 [OF m, of client ttl s2] a1 a2 p1 p2 u1 u2 c1 c2
  show ?thesis by simp
qed

text \<open>
  C6, as the spec states it, asks that an identifier of another shape fail with a
  \<open>FormatError\<close> that is never retried. \<open>uploadVideoToPanda\<close> of index.js, the one
  function that catches the error of \<open>formatVimeoUrl\<close>, takes it for a failed upload:
  with an upload address that accepts every post it uploads the video three times, each
  time followed by the same error, and then gives up; and \<open>formatVimeoUrl\<close> of
  getVimeoPandaLinks.js does not fail at all: it returns \<open>null\<close>, and the video is
  passed over with no error and no trace.
\<close>

theorem format_error_is_retried:
  "formatVimeoUrl ''/videos/12a'' = Inl FormatError
   \<and> formatVimeoUrl_links ''/videos/12a'' = None
   \<and> uri odd_video = Some ''/videos/12a''
   \<and> reconcile_links library ''pa'' odd_video blank = (Finished, blank)
   \<and> uploadVideoToPanda accepting ''t'' ''/videos/12a'' blank =
       (None,
        \<lparr>pool = [],
         trace = [Call ''POST'' PANDA_UPLOAD_URL, Console ''Panda enviado'' ''t'',
                  Console ''dados'' ''/videos/12a'', Console ''Panda erro upload'' ''t'',
                  Sleep (Finite 1000),
                  Call ''POST'' PANDA_UPLOAD_URL, Console ''Panda enviado'' ''t'',
                  Console ''dados'' ''/videos/12a'', Console ''Panda erro upload'' ''t'',
                  Sleep (Finite 2000),
                  Call ''POST'' PANDA_UPLOAD_URL, Console ''Panda enviado'' ''t'',
                  Console ''dados'' ''/videos/12a'', Console ''Panda erro upload'' ''t'',
                  Console ''Panda falha definitiva'' ''t''],
         clock = 3000\<rparr>)"
  by (simp add: formatVimeoUrl_def formatVimeoUrl_links_def match_videos_def is_digit_def
        uploadVideoToPanda_def upload_loop.simps saveVideoMapping_def accepting_def blank_def
        emit_def timer_delay_def num_times_small or_null_def truthy_def odd_video_def
        reconcile_links_def)

text \<open>
  C6, amended. For an identifier of the exact shape \<open>/videos/<digits>\<close> the derived
  reference is exactly \<open>https://player.vimeo.com/video/<digits>\<close>, in both scripts.
  For every other identifier: in getVimeoPandaLinks.js the derivation returns \<open>null\<close>
  instead of failing, and the traversal skips that one video with no query, no request
  and no write and goes on with the next video, so nothing retries it; in index.js the
  derivation fails with its format error and \<open>saveVideoMapping\<close> hands the error to
  its caller before anything is written. Of its two callers, the lines of
  \<open>processVideosInFolder\<close> that save a match do not catch it, so there it is an
  exception like any other, and \<open>uploadVideoToPanda\<close> takes it for a failed
  upload: whatever the upload address answers, it posts the video at each of its three
  attempts, writes nothing, and then gives that one video up with \<open>null\<close>.
\<close>

theorem formatVimeoUrl_shape:
  "(ds \<noteq> [] \<and> list_all is_digit ds \<longrightarrow>
      formatVimeoUrl (''/videos/'' @ ds) = Inr (''https://player.vimeo.com/video/'' @ ds) \<and>
      formatVimeoUrl_links (''/videos/'' @ ds) = Some (''https://player.vimeo.com/video/'' @ ds))
   \<and> (\<not> (\<exists>ds. ds \<noteq> [] \<and> list_all is_digit ds \<and> path = ''/videos/'' @ ds) \<longrightarrow>
      formatVimeoUrl_links path = None \<and>
      reconcile_links env pandaFolderId (video\<lparr>uri := Some path\<rparr>) st = (Finished, st) \<and>
      for_each (reconcile_links env pandaFolderId) (video\<lparr>uri := Some path\<rparr> # videos) st =
        for_each (reconcile_links env pandaFolderId) videos st \<and>
      formatVimeoUrl path = Inl FormatError \<and>
      saveVideoMapping path v w t st' = Inl FormatError \<and>
      save_match found (video\<lparr>uri := Some path\<rparr>) ttl ist =
        (Raised FormatError, emit [Console ''Match'' ttl] ist) \<and>
      fst (uploadVideoToPanda client ttl path st') = None \<and>
      pool (snd (uploadVideoToPanda client ttl path st')) = pool st' \<and>
      upserts (trace (snd (uploadVideoToPanda client ttl path st'))) = upserts (trace st') \<and>
      calls (trace (snd (uploadVideoToPanda client ttl path st'))) = calls (trace st') + 3)"
proof (intro conjI impI)
  assume a: "ds \<noteq> [] \<and> list_all is_digit ds"
  then have m: "match_videos (''/videos/'' @ ds) = Some ds"
    using match_videos_iff [of "''/videos/'' @ ds" ds] by simp
  from m show "formatVimeoUrl (''/videos/'' @ ds) = Inr (''https://player.vimeo.com/video/'' @ ds)"
    by (simp add: formatVimeoUrl_def)
  from m show "formatVimeoUrl_links (''/videos/'' @ ds) = Some (''https://player.vimeo.com/video/'' @ ds)"
    by (simp add: formatVimeoUrl_links_def)
next
  assume "\<not> (\<exists>ds. ds \<noteq> [] \<and> list_all is_digit ds \<and> path = ''/videos/'' @ ds)"
  then have m: "match_videos path = None" by (rule match_videos_None)
  from m show f: "formatVimeoUrl path = Inl FormatError"
    by (simp add: formatVimeoUrl_def)
  from m show g: "formatVimeoUrl_links path = None"
    by (simp add: formatVimeoUrl_links_def)
  from f show "saveVideoMapping path v w t st' = Inl FormatError"
    by (simp add: saveVideoMapping_def)
  from f show "save_match found (video\<lparr>uri := Some path\<rparr>) ttl ist =
        (Raised FormatError, emit [Console ''Match'' ttl] ist)"
    by (simp add: save_match_def saveVideoMapping_def Let_def)
  from g show r: "reconcile_links env pandaFolderId (video\<lparr>uri := Some path\<rparr>) st = (Finished, st)"
    by (simp add: reconcile_links_def)
  from r show "for_each (reconcile_links env pandaFolderId) (video\<lparr>uri := Some path\<rparr> # videos) st =
        for_each (reconcile_links env pandaFolderId) videos st"
    by simp
  from upload_loop_rejected [OF m, of client ttl st']
  show "fst (uploadVideoToPanda client ttl path st') = None"
    and "pool (snd (uploadVideoToPanda client ttl path st')) = pool st'"
    and "upserts (trace (snd (uploadVideoToPanda client ttl path st'))) = upserts (trace st')"
    and "calls (trace (snd (uploadVideoToPanda client ttl path st'))) = calls (trace st') + 3"
    by (simp_all add: uploadVideoToPanda_def)
qed

theorem formatVimeoUrl_shape_witness:
  "''123'' \<noteq> [] \<and> list_all is_digit ''123''
   \<and> formatVimeoUrl ''/videos/123'' = Inr ''https://player.vimeo.com/video/123''
   \<and> formatVimeoUrl_links ''/videos/123'' = Some ''https://player.vimeo.com/video/123''
   \<and> \<not> (\<exists>ds. ds \<noteq> [] \<and> list_all is_digit ds \<and> ''/videos/12a'' = ''/videos/'' @ ds)
   \<and> formatVimeoUrl ''/videos/12a'' = Inl FormatError
   \<and> formatVimeoUrl_links ''/videos/12a'' = None
   \<and> saveVideoMapping ''/videos/12a'' None None None blank = Inl FormatError
   \<and> reconcile_links library ''pa'' (odd_video\<lparr>uri := Some ''/videos/12a''\<rparr>) blank =
       (Finished, blank)
   \<and> save_match \<lparr>match_id = Some ''p1'', websocket_url = None\<rparr>
        (odd_video\<lparr>uri := Some ''/videos/12a''\<rparr>) ''t'' (start shelf) =
       (Raised FormatError, emit [Console ''Match'' ''t''] (start shelf))
   \<and> fst (uploadVideoToPanda accepting ''t'' ''/videos/12a'' blank) = None
   \<and> calls (trace (snd (uploadVideoToPanda accepting ''t'' ''/videos/12a'' blank))) = 3"
proof -
  have a: "''123'' \<noteq> [] \<and> list_all is_digit ''123''"
    by (simp add: is_digit_def)
  have b: "\<not> (\<exists>ds. ds \<noteq> [] \<and> list_all is_digit ds \<and> ''/videos/12a'' = ''/videos/'' @ ds)"
    by (auto simp: is_digit_def)
  have c: "calls (trace blank) = 0"
    by (simp add: blank_def)
  from a b c
    formatVimeoUrl_shape [where ds = "''123''" and path = "''/videos/12a''" and st = blank
        and st' = blank and video = odd_video and videos = "[]" and v = None and w = None
        and t = None and env = library and pandaFolderId = "''pa''" and client = accepting
        and ttl = "''t''" and found = "\<lparr>match_id = Some ''p1'', websocket_url = None\<rparr>"
        and ist = "start shelf"]
  show ?thesis by simp
qed

section \<open>Folder resolution\<close>

lemma find_folder_matches:
  "find (folder_matches nm parent) folders = Some f \<Longrightarrow>
     f \<in> set folders \<and> panda_name f = nm \<and> parent_folder_id f = parent"
  by (auto simp: find_Some_iff folder_matches_def)

lemma safe_loop_Returns:
  "fst (safe_loop m client url retry attempt) = Returns d \<Longrightarrow> \<exists>i. client i = Ok d"
proof (induction m client url retry attempt rule: safe_loop.induct)
  case (1 m client url retry attempt)
  show ?case
  proof (cases "attempt \<le> retry")
    case False
    with "1.prems" show ?thesis by (subst (asm) safe_loop.simps) simp
  next
    case True
    show ?thesis
    proof (cases "client attempt")
      case (Ok r)
      with True "1.prems" have "r = d" by (subst (asm) safe_loop.simps) simp
      with Ok show ?thesis by blast
    next
      case (Fail e)
      show ?thesis
      proof (cases "status e = Some 429")
        case a: True
        from "1.prems" True Fail a
        have "fst (safe_loop m client url retry (attempt + 1)) = Returns d"
          by (subst (asm) safe_loop.simps) (auto split: prod.splits)
        with "1.IH"(1)[OF True Fail a] show ?thesis by blast
      next
        case b: False
        show ?thesis
        proof (cases "attempt = retry")
          case c: True
          with True Fail b "1.prems" show ?thesis by (subst (asm) safe_loop.simps) simp
        next
          case c: False
          from "1.prems" True Fail b c
          have "fst (safe_loop m client url retry (attempt + 1)) = Returns d"
            by (subst (asm) safe_loop.simps) (auto split: prod.splits)
          with "1.IH"(2)[OF True Fail b c] show ?thesis by blast
        qed
      qed
    qed
  qed
qed

lemma found_folder_Some:
  "found_folder got nm parent = Some i \<Longrightarrow>
     \<exists>folders f. got = Returns (Some folders) \<and> find (folder_matches nm parent) folders = Some f
        \<and> panda_id f = i"
  by (auto simp: found_folder_def split: completion.splits option.splits)

text \<open>
  C8. Resolving \<open>(nm, parent)\<close> against a Target folder list returns the id of a
  folder only when that folder's name equals \<open>nm\<close> by string equality and its parent
  id equals \<open>parent\<close>, where an absent parent matches an absent parent only: it is the
  first such folder of the list served. A folder whose parent differs from \<open>parent\<close>
  (also when exactly one of the two is absent), or whose name differs (also only in
  case), is never the one found. This holds for \<open>findPandaFolder\<close> of both scripts.
\<close>

theorem findPandaFolder_exact:
  "(findPandaFolder_links res nm parent = Inr (Some i) \<longrightarrow>
      (\<exists>folders f. res = Ok (Some folders) \<and> find (folder_matches nm parent) folders = Some f
          \<and> f \<in> set folders \<and> panda_id f = i \<and> panda_name f = nm
          \<and> parent_folder_id f = parent))
   \<and> (fst (findPandaFolder env nm parent st) = Some i \<longrightarrow>
      (\<exists>f. find (folder_matches nm parent) (panda st) = Some f
          \<and> f \<in> set (panda st) \<and> panda_id f = i \<and> panda_name f = nm
          \<and> parent_folder_id f = parent))
   \<and> (parent_folder_id g \<noteq> parent \<longrightarrow> find (folder_matches nm parent) folders \<noteq> Some g)
   \<and> (panda_name g \<noteq> nm \<longrightarrow> find (folder_matches nm parent) folders \<noteq> Some g)"
proof (intro conjI impI)
  assume "findPandaFolder_links res nm parent = Inr (Some i)"
  then obtain folders f where "res = Ok (Some folders)"
    and "find (folder_matches nm parent) folders = Some f" and "panda_id f = i"
    by (auto simp: findPandaFolder_links_def split: attempt.splits option.splits)
  with find_folder_matches [of nm parent folders f]
  show "\<exists>folders f. res = Ok (Some folders) \<and> find (folder_matches nm parent) folders = Some f
          \<and> f \<in> set folders \<and> panda_id f = i \<and> panda_name f = nm
          \<and> parent_folder_id f = parent"
    by blast
next
  assume a: "fst (findPandaFolder env nm parent st) = Some i"
  let ?client = "\<lambda>attempt. case panda_reply env (sent st + (attempt - 1)) of
                           Refuse e \<Rightarrow> Fail e
                         | Garbled \<Rightarrow> Ok None
                         | Served \<Rightarrow> Ok (Some (panda st))"
  from a have "found_folder (fst (safeGet ?client ''/folders'' 3)) nm parent = Some i"
    by (simp add: findPandaFolder_def split: prod.splits)
  then obtain folders f where g: "fst (safeGet ?client ''/folders'' 3) = Returns (Some folders)"
    and h: "find (folder_matches nm parent) folders = Some f" and k: "panda_id f = i"
    using found_folder_Some by blast
  from g have "\<exists>j. ?client j = Ok (Some folders)"
    unfolding safeGet_def by (rule safe_loop_Returns)
  then obtain j where "?client j = Ok (Some folders)" ..
  then have "folders = panda st"
    by (auto split: reply.splits)
  with h k find_folder_matches [of nm parent folders f]
  show "\<exists>f. find (folder_matches nm parent) (panda st) = Some f
          \<and> f \<in> set (panda st) \<and> panda_id f = i \<and> panda_name f = nm
          \<and> parent_folder_id f = parent"
    by blast
next
  assume "parent_folder_id g \<noteq> parent"
  then show "find (folder_matches nm parent) folders \<noteq> Some g"
    using find_folder_matches [of nm parent folders g] by blast
next
  assume "panda_name g \<noteq> nm"
  then show "find (folder_matches nm parent) folders \<noteq> Some g"
    using find_folder_matches [of nm parent folders g] by blast
qed

theorem findPandaFolder_exact_witness:
  "findPandaFolder_links (Ok (Some foos)) ''Foo'' None = Inr (Some ''f2'')
   \<and> fst (findPandaFolder library ''Foo'' None (start foos)) = Some ''f2''
   \<and> parent_folder_id (hd foos) \<noteq> None
   \<and> find (folder_matches ''Foo'' None) foos \<noteq> Some (hd foos)
   \<and> panda_name (last foos) \<noteq> ''Foo''
   \<and> find (folder_matches ''Foo'' (Some ''Y'')) foos \<noteq> Some (last foos)
   \<and> (\<exists>f. find (folder_matches ''Foo'' None) (panda (start foos)) = Some f
          \<and> panda_id f = ''f2'' \<and> panda_name f = ''Foo'' \<and> parent_folder_id f = None)"
proof -
  have a: "findPandaFolder_links (Ok (Some foos)) ''Foo'' None = Inr (Some ''f2'')"
    by (simp add: findPandaFolder_links_def foos_def folder_matches_def)
  have b: "fst (findPandaFolder library ''Foo'' None (start foos)) = Some ''f2''"
    by (simp add: findPandaFolder_def safeGet_def safe_loop.simps library_def start_def
          found_folder_def foos_def folder_matches_def)
  have c: "parent_folder_id (hd foos) \<noteq> None"
    by (simp add: foos_def)
  have d: "panda_name (last foos) \<noteq> ''Foo''"
    by (simp add: foos_def)
  from a b c
    findPandaFolder_exact [where res = "Ok (Some foos)" and nm = "''Foo''" and parent = None
       and i = "''f2''" and env = library and st = "start foos" and g = "hd foos"
       and folders = foos]
  have e: "find (folder_matches ''Foo'' None) foos \<noteq> Some (hd foos)"
    and f: "\<exists>f. find (folder_matches ''Foo'' None) (panda (start foos)) = Some f
          \<and> panda_id f = ''f2'' \<and> panda_name f = ''Foo'' \<and> parent_folder_id f = None"
    by blast+
  from d
    findPandaFolder_exact [where nm = "''Foo''" and parent = "Some ''Y''" and g = "last foos"
       and folders = foos]
  have g: "find (folder_matches ''Foo'' (Some ''Y'')) foos \<noteq> Some (last foos)"
    by blast
  from a b c d e f g show ?thesis by blast
qed

section \<open>The Mapping Store: one row per key\<close>

lemma has_key_iff: "has_key k rows \<longleftrightarrow> k \<in> vimeo_video_id ` set rows"
  by (auto simp: has_key_def list_ex_iff)

lemma keys_on_duplicate_key_update:
  assumes "\<And>r. vimeo_video_id (upd r) = vimeo_video_id r"
  shows "map vimeo_video_id (on_duplicate_key_update new upd rows) =
           (if has_key (vimeo_video_id new) rows then map vimeo_video_id rows
            else map vimeo_video_id rows @ [vimeo_video_id new])"
  using assms by (simp add: on_duplicate_key_update_def comp_def cong: map_cong)

lemma distinct_on_duplicate_key_update:
  assumes "\<And>r. vimeo_video_id (upd r) = vimeo_video_id r"
    and "distinct (map vimeo_video_id rows)"
  shows "distinct (map vimeo_video_id (on_duplicate_key_update new upd rows))"
  using assms by (simp add: keys_on_duplicate_key_update has_key_iff)

lemma has_key_on_duplicate_key_update:
  assumes "\<And>r. vimeo_video_id (upd r) = vimeo_video_id r"
  shows "has_key k (on_duplicate_key_update new upd rows) \<longleftrightarrow>
           k = vimeo_video_id new \<or> has_key k rows"
proof -
  have "has_key k (on_duplicate_key_update new upd rows) \<longleftrightarrow>
          k \<in> set (map vimeo_video_id (on_duplicate_key_update new upd rows))"
    by (simp add: has_key_iff)
  also have "\<dots> \<longleftrightarrow> k = vimeo_video_id new \<or> has_key k rows"
    using assms by (auto simp: keys_on_duplicate_key_update has_key_iff)
  finally show ?thesis .
qed

lemma one_row_per_key:
  "distinct (map vimeo_video_id rows) \<Longrightarrow> has_key k rows \<Longrightarrow>
     \<exists>r. filter (\<lambda>r. vimeo_video_id r = k) rows = [r]"
proof (induction rows)
  case Nil
  then show ?case by (simp add: has_key_def)
next
  case (Cons a rows)
  show ?case
  proof (cases "vimeo_video_id a = k")
    case True
    with Cons.prems have "filter (\<lambda>r. vimeo_video_id r = k) rows = []"
      by (force simp: filter_empty_conv image_iff)
    with True show ?thesis by simp
  next
    case False
    with Cons show ?thesis by (simp add: has_key_def)
  qed
qed

lemma filter_updated:
  assumes "\<And>r. vimeo_video_id (upd r) = vimeo_video_id r" and "has_key (vimeo_video_id new) rows"
  shows "filter (\<lambda>r. vimeo_video_id r = vimeo_video_id new) (on_duplicate_key_update new upd rows) =
           map upd (filter (\<lambda>r. vimeo_video_id r = vimeo_video_id new) rows)"
  using assms by (simp add: on_duplicate_key_update_def filter_map comp_def cong: filter_cong)

lemma length_updated:
  "has_key (vimeo_video_id new) rows \<Longrightarrow> length (on_duplicate_key_update new upd rows) = length rows"
  by (simp add: on_duplicate_key_update_def)


lemma upsert_index_twice:
  assumes "distinct (map vimeo_video_id rows)"
  shows "filter (\<lambda>r. vimeo_video_id r = k)
           (upsert_index k v2 w2 t2 ts2 (upsert_index k v1 w1 t1 ts1 rows)) =
           [\<lparr>vimeo_video_id = k, panda_video_id = v2, panda_websocket_url = w2, title = t2,
             updated_at = ts2\<rparr>]
       \<and> length (upsert_index k v2 w2 t2 ts2 (upsert_index k v1 w1 t1 ts1 rows)) =
           length (upsert_index k v1 w1 t1 ts1 rows)
       \<and> distinct (map vimeo_video_id
                     (upsert_index k v2 w2 t2 ts2 (upsert_index k v1 w1 t1 ts1 rows)))"
proof -
  let ?i1 = "upsert_index k v1 w1 t1 ts1 rows"
  have di: "distinct (map vimeo_video_id ?i1)"
    unfolding upsert_index_def using assms by (intro distinct_on_duplicate_key_update) simp_all
  have hi: "has_key k ?i1"
    unfolding upsert_index_def by (subst has_key_on_duplicate_key_update) simp_all
  from one_row_per_key [OF di hi] obtain ri where ri: "filter (\<lambda>r. vimeo_video_id r = k) ?i1 = [ri]" ..
  from ri have "ri \<in> set (filter (\<lambda>r. vimeo_video_id r = k) ?i1)" by simp
  then have ki: "vimeo_video_id ri = k" by simp
  have a: "filter (\<lambda>r. vimeo_video_id r = k) (upsert_index k v2 w2 t2 ts2 ?i1) =
             [\<lparr>vimeo_video_id = k, panda_video_id = v2, panda_websocket_url = w2, title = t2,
               updated_at = ts2\<rparr>]"
    unfolding upsert_index_def [of k v2]
    using filter_updated [where new = "\<lparr>vimeo_video_id = k, panda_video_id = v2,
             panda_websocket_url = w2, title = t2, updated_at = ts2\<rparr>" and rows = ?i1
             and upd = "\<lambda>r. r\<lparr>panda_video_id := v2, panda_websocket_url := w2,
               title := t2, updated_at := ts2\<rparr>"] hi ri ki
    by simp
  have c: "length (upsert_index k v2 w2 t2 ts2 ?i1) = length ?i1"
    unfolding upsert_index_def [of k v2] using hi by (simp add: length_updated)
  have e: "distinct (map vimeo_video_id (upsert_index k v2 w2 t2 ts2 ?i1))"
    unfolding upsert_index_def [of k v2] using di by (intro distinct_on_duplicate_key_update) simp_all
  from a c e show ?thesis by blast
qed

text \<open>
  The first reconciliation of a key by getVimeoPandaLinks.js, when the Target finds a
  video: one row is appended. Any reconciliation of a key that has a row: the skip.
\<close>

lemma reconcile_links_writes:
  assumes "uri video = Some path" and "formatVimeoUrl_links path = Some k"
    and "\<not> has_key k (pool st)"
    and "findPandaVideoByTitle (panda_videos env pandaFolderId (or_else (video_name video) sem_titulo)) =
           Inr (Some v)"
  shows "reconcile_links env pandaFolderId video st =
           (Finished,
            emit [Console ''MAP'' (or_else (video_name video) sem_titulo), Sleep (Finite 300)]
              ((emit [Select k, Call ''GET'' ''/videos'', Upsert k] st)
                 \<lparr>pool := pool st @
                    [\<lparr>vimeo_video_id = k,
                      panda_video_id = Some (formatPandaIdToUrl (video_external_id v)),
                      panda_websocket_url = None,
                      title = Some (or_else (video_name video) sem_titulo),
                      updated_at = clock st\<rparr>]\<rparr>))"
  using assms
  by (simp add: reconcile_links_def Let_def vimeoVideoExists_def emit_def upsert_links_def
        on_duplicate_key_update_def)

lemma reconcile_links_skips:
  assumes "uri video = Some path" and "formatVimeoUrl_links path = Some k"
    and "has_key k (pool st)"
  shows "reconcile_links env pandaFolderId video st =
           (Finished,
            emit [Select k, Console ''SKIP'' (or_else (video_name video) sem_titulo)] st)"
  using assms by (simp add: reconcile_links_def Let_def vimeoVideoExists_def emit_def)

text \<open>
  C2, as the spec states it, asks that after reconciling a key twice with different
  target ids the row hold the latest. getVimeoPandaLinks.js reconciles the video
  \<open>/videos/1\<close> first against a Target that finds \<open>x-one\<close>, then against one that
  finds \<open>y-one\<close>: the second reconciliation is the skip of a key that has a row, it
  asks the Target nothing and writes nothing, and the row holds the first target id.
\<close>

theorem second_reconciliation_keeps_first_target:
  "findPandaVideoByTitle (panda_videos library ''pa'' ''one'') =
     Inr (Some \<lparr>video_external_id = ''x-one''\<rparr>)
   \<and> findPandaVideoByTitle (panda_videos relabelled ''pa'' ''one'') =
     Inr (Some \<lparr>video_external_id = ''y-one''\<rparr>)
   \<and> reconcile_links library ''pa'' (video_item ''one'' ''/videos/1'' []) blank =
       (Finished,
        \<lparr>pool = [\<lparr>vimeo_video_id = ''https://player.vimeo.com/video/1'',
                   panda_video_id = Some (formatPandaIdToUrl ''x-one''),
                   panda_websocket_url = None, title = Some ''one'', updated_at = 0\<rparr>],
         trace = [Select ''https://player.vimeo.com/video/1'', Call ''GET'' ''/videos'',
                  Upsert ''https://player.vimeo.com/video/1'', Console ''MAP'' ''one'',
                  Sleep (Finite 300)],
         clock = 300\<rparr>)
   \<and> reconcile_links relabelled ''pa'' (video_item ''one'' ''/videos/1'' [])
        \<lparr>pool = [\<lparr>vimeo_video_id = ''https://player.vimeo.com/video/1'',
                   panda_video_id = Some (formatPandaIdToUrl ''x-one''),
                   panda_websocket_url = None, title = Some ''one'', updated_at = 0\<rparr>],
         trace = [Select ''https://player.vimeo.com/video/1'', Call ''GET'' ''/videos'',
                  Upsert ''https://player.vimeo.com/video/1'', Console ''MAP'' ''one'',
                  Sleep (Finite 300)],
         clock = 300\<rparr> =
       (Finished,
        \<lparr>pool = [\<lparr>vimeo_video_id = ''https://player.vimeo.com/video/1'',
                   panda_video_id = Some (formatPandaIdToUrl ''x-one''),
                   panda_websocket_url = None, title = Some ''one'', updated_at = 0\<rparr>],
         trace = [Select ''https://player.vimeo.com/video/1'', Call ''GET'' ''/videos'',
                  Upsert ''https://player.vimeo.com/video/1'', Console ''MAP'' ''one'',
                  Sleep (Finite 300), Select ''https://player.vimeo.com/video/1'',
                  Console ''SKIP'' ''one''],
         clock = 300\<rparr>)
   \<and> formatPandaIdToUrl ''x-one'' \<noteq> formatPandaIdToUrl ''y-one''"
  by (simp add: reconcile_links_def formatVimeoUrl_links_def match_videos_def is_digit_def
        vimeoVideoExists_def has_key_def findPandaVideoByTitle_def upsert_links_def
        on_duplicate_key_update_def formatPandaIdToUrl_def library_def relabelled_def
        video_item_def blank_def emit_def Let_def or_else_def timer_delay_def)

text \<open>
  C2, amended. For every key \<open>k\<close>, on a table with one row per key:
  getVimeoPandaLinks.js writes for \<open>k\<close> only when the table has no row keyed \<open>k\<close>,
  and a second reconciliation of \<open>k\<close> is skipped with no write, whatever the Target
  would find: after reconciling \<open>k\<close> twice with different target ids the table
  contains exactly one row keyed \<open>k\<close>, holding the first target id. In index.js a second
  \<open>saveVideoMapping\<close> for \<open>k\<close> overwrites the target id, the streaming reference, the
  title and the timestamp of the existing row in one statement and never creates a
  second row: after two calls with different target ids the table contains exactly one
  row keyed \<open>k\<close>, holding the latest.
\<close>

theorem upsert_law:
  "(distinct (map vimeo_video_id (pool st)) \<and>
    uri video = Some path \<and> formatVimeoUrl_links path = Some k \<and> \<not> has_key k (pool st) \<and>
    findPandaVideoByTitle (panda_videos env1 folder1 (or_else (video_name video) sem_titulo)) =
      Inr (Some v1) \<and>
    reconcile_links env1 folder1 video st = (r1, st1) \<and>
    reconcile_links env2 folder2 video st1 = (r2, st2) \<longrightarrow>
      r1 = Finished \<and> r2 = Finished \<and>
      upserts (trace st1) = upserts (trace st) + 1 \<and>
      upserts (trace st2) = upserts (trace st1) \<and>
      calls (trace st2) = calls (trace st1) \<and>
      pool st2 = pool st1 \<and>
      length (pool st2) = length (pool st) + 1 \<and>
      distinct (map vimeo_video_id (pool st2)) \<and>
      filter (\<lambda>r. vimeo_video_id r = k) (pool st2) =
        [\<lparr>vimeo_video_id = k,
          panda_video_id = Some (formatPandaIdToUrl (video_external_id v1)),
          panda_websocket_url = None,
          title = Some (or_else (video_name video) sem_titulo),
          updated_at = clock st\<rparr>])
   \<and> (uri video = Some path \<and> formatVimeoUrl_links path = Some k \<and> has_key k (pool st) \<and>
      reconcile_links env1 folder1 video st = (r1, st1) \<longrightarrow>
      r1 = Finished \<and> pool st1 = pool st \<and> upserts (trace st1) = upserts (trace st) \<and>
      calls (trace st1) = calls (trace st))
   \<and> (distinct (map vimeo_video_id (pool ist)) \<and> formatVimeoUrl path' = Inr k' \<and>
      saveVideoMapping path' a1 w1 t1 ist = Inr ist1 \<and>
      saveVideoMapping path' a2 w2 t2 ist1 = Inr ist2 \<longrightarrow>
      filter (\<lambda>r. vimeo_video_id r = k') (pool ist2) =
        [\<lparr>vimeo_video_id = k', panda_video_id = a2, panda_websocket_url = w2, title = t2,
          updated_at = clock ist1\<rparr>] \<and>
      length (pool ist2) = length (pool ist1) \<and>
      distinct (map vimeo_video_id (pool ist2)) \<and>
      upserts (trace ist2) = upserts (trace ist1) + 1)"
proof (intro conjI impI)
  let ?ttl = "or_else (video_name video) sem_titulo"
  let ?row = "\<lparr>vimeo_video_id = k,
          panda_video_id = Some (formatPandaIdToUrl (video_external_id v1)),
          panda_websocket_url = None, title = Some ?ttl, updated_at = clock st\<rparr>"
  assume h: "distinct (map vimeo_video_id (pool st)) \<and>
    uri video = Some path \<and> formatVimeoUrl_links path = Some k \<and> \<not> has_key k (pool st) \<and>
    findPandaVideoByTitle (panda_videos env1 folder1 ?ttl) = Inr (Some v1) \<and>
    reconcile_links env1 folder1 video st = (r1, st1) \<and>
    reconcile_links env2 folder2 video st1 = (r2, st2)"
  from h reconcile_links_writes [of video path k st env1 folder1 v1]
  have one: "r1 = Finished"
    and st1: "st1 = emit [Console ''MAP'' ?ttl, Sleep (Finite 300)]
                     ((emit [Select k, Call ''GET'' ''/videos'', Upsert k] st)
                        \<lparr>pool := pool st @ [?row]\<rparr>)"
    by simp_all
  from st1 have p1: "pool st1 = pool st @ [?row]"
    by (simp add: emit_def)
  then have hk: "has_key k (pool st1)"
    by (simp add: has_key_def)
  from h hk reconcile_links_skips [of video path k st1 env2 folder2]
  have two: "r2 = Finished" and st2: "st2 = emit [Select k, Console ''SKIP'' ?ttl] st1"
    by simp_all
  from h have nk: "k \<notin> vimeo_video_id ` set (pool st)"
    by (simp add: has_key_iff)
  from one show "r1 = Finished" .
  from two show "r2 = Finished" .
  from st1 show "upserts (trace st1) = upserts (trace st) + 1"
    by (simp add: emit_def upserts_append)
  from st2 show "upserts (trace st2) = upserts (trace st1)"
    by (simp add: upserts_emit)
  from st2 show "calls (trace st2) = calls (trace st1)"
    by (simp add: calls_emit)
  from st2 show p2: "pool st2 = pool st1"
    by (simp add: pool_emit)
  from p1 p2 show "length (pool st2) = length (pool st) + 1"
    by simp
  from p1 p2 h nk show "distinct (map vimeo_video_id (pool st2))"
    by simp
  from nk have "filter (\<lambda>r. vimeo_video_id r = k) (pool st) = []"
    by (auto simp: filter_empty_conv)
  with p1 p2 show "filter (\<lambda>r. vimeo_video_id r = k) (pool st2) = [?row]"
    by simp
next
  assume h: "uri video = Some path \<and> formatVimeoUrl_links path = Some k \<and> has_key k (pool st) \<and>
      reconcile_links env1 folder1 video st = (r1, st1)"
  from h reconcile_links_skips [of video path k st env1 folder1]
  have r: "r1 = Finished"
    and s: "st1 = emit [Select k, Console ''SKIP'' (or_else (video_name video) sem_titulo)] st"
    by simp_all
  from r show "r1 = Finished" .
  from s show "pool st1 = pool st" by (simp add: pool_emit)
  from s show "upserts (trace st1) = upserts (trace st)" by (simp add: upserts_emit)
  from s show "calls (trace st1) = calls (trace st)" by (simp add: calls_emit)
next
  assume h: "distinct (map vimeo_video_id (pool ist)) \<and> formatVimeoUrl path' = Inr k' \<and>
      saveVideoMapping path' a1 w1 t1 ist = Inr ist1 \<and>
      saveVideoMapping path' a2 w2 t2 ist1 = Inr ist2"
  then have p1: "pool ist1 = upsert_index k' a1 w1 t1 (clock ist) (pool ist)"
    and p2: "pool ist2 = upsert_index k' a2 w2 t2 (clock ist1) (pool ist1)"
    and u2: "upserts (trace ist2) = upserts (trace ist1) + 1"
    by (auto simp: saveVideoMapping_def emit_def upserts_append)
  from h have d: "distinct (map vimeo_video_id (pool ist))" by simp
  note w = upsert_index_twice [OF d, of k' a2 w2 t2 "clock ist1" a1 w1 t1 "clock ist"]
  from w p1 p2 show "filter (\<lambda>r. vimeo_video_id r = k') (pool ist2) =
        [\<lparr>vimeo_video_id = k', panda_video_id = a2, panda_websocket_url = w2, title = t2,
          updated_at = clock ist1\<rparr>]"
    by simp
  from w p1 p2 show "length (pool ist2) = length (pool ist1)" by simp
  from w p1 p2 show "distinct (map vimeo_video_id (pool ist2))" by simp
  from u2 show "upserts (trace ist2) = upserts (trace ist1) + 1" .
qed

theorem upsert_law_witness:
  "distinct (map vimeo_video_id (pool blank))
   \<and> \<not> has_key ''https://player.vimeo.com/video/1'' (pool blank)
   \<and> fst (reconcile_links library ''pa'' (video_item ''one'' ''/videos/1'' []) blank) = Finished
   \<and> fst (reconcile_links relabelled ''pa'' (video_item ''one'' ''/videos/1'' [])
            (snd (reconcile_links library ''pa'' (video_item ''one'' ''/videos/1'' []) blank))) =
       Finished
   \<and> filter (\<lambda>r. vimeo_video_id r = ''https://player.vimeo.com/video/1'')
        (pool (snd (reconcile_links relabelled ''pa'' (video_item ''one'' ''/videos/1'' [])
                 (snd (reconcile_links library ''pa'' (video_item ''one'' ''/videos/1'' []) blank))))) =
       [\<lparr>vimeo_video_id = ''https://player.vimeo.com/video/1'',
         panda_video_id = Some (formatPandaIdToUrl ''x-one''),
         panda_websocket_url = None, title = Some ''one'', updated_at = 0\<rparr>]
   \<and> saveVideoMapping ''/videos/7'' (Some ''v1'') None None
        (blank\<lparr>pool := [mapped ''a'' ''v0'']\<rparr>) =
       Inr \<lparr>pool = [mapped ''a'' ''v0'',
                    \<lparr>vimeo_video_id = ''https://player.vimeo.com/video/7'',
                      panda_video_id = Some ''v1'', panda_websocket_url = None, title = None,
                      updated_at = 0\<rparr>],
            trace = [Upsert ''https://player.vimeo.com/video/7'', Console ''DB'' ''/videos/7''],
            clock = 0\<rparr>
   \<and> (\<exists>s. saveVideoMapping ''/videos/7'' (Some ''v2'') (Some ''w2'') (Some ''t2'')
              \<lparr>pool = [mapped ''a'' ''v0'',
                    \<lparr>vimeo_video_id = ''https://player.vimeo.com/video/7'',
                      panda_video_id = Some ''v1'', panda_websocket_url = None, title = None,
                      updated_at = 0\<rparr>],
               trace = [Upsert ''https://player.vimeo.com/video/7'', Console ''DB'' ''/videos/7''],
               clock = 0\<rparr> = Inr s
          \<and> filter (\<lambda>r. vimeo_video_id r = ''https://player.vimeo.com/video/7'') (pool s) =
              [\<lparr>vimeo_video_id = ''https://player.vimeo.com/video/7'',
                panda_video_id = Some ''v2'', panda_websocket_url = Some ''w2'',
                title = Some ''t2'', updated_at = 0\<rparr>]
          \<and> length (pool s) = 2)"
proof -
  let ?v = "video_item ''one'' ''/videos/1'' []"
  let ?k = "''https://player.vimeo.com/video/1''"
  let ?k7 = "''https://player.vimeo.com/video/7''"
  let ?first = "reconcile_links library ''pa'' ?v blank"
  let ?second = "reconcile_links relabelled ''pa'' ?v (snd ?first)"
  let ?i0 = "blank\<lparr>pool := [mapped ''a'' ''v0'']\<rparr>"
  let ?i1 = "\<lparr>pool = [mapped ''a'' ''v0'',
                    \<lparr>vimeo_video_id = ?k7, panda_video_id = Some ''v1'',
                      panda_websocket_url = None, title = None, updated_at = 0\<rparr>],
            trace = [Upsert ?k7, Console ''DB'' ''/videos/7''], clock = 0\<rparr>"
  have d: "distinct (map vimeo_video_id (pool blank))"
    and n: "\<not> has_key ?k (pool blank)"
    by (simp_all add: blank_def has_key_def)
  have u: "uri ?v = Some ''/videos/1''"
    and t: "or_else (video_name ?v) sem_titulo = ''one''"
    by (simp_all add: video_item_def or_else_def)
  have f: "formatVimeoUrl_links ''/videos/1'' = Some ?k"
    by (simp add: formatVimeoUrl_links_def match_videos_def is_digit_def)
  have x: "findPandaVideoByTitle (panda_videos library ''pa'' (or_else (video_name ?v) sem_titulo)) =
             Inr (Some \<lparr>video_external_id = ''x-one''\<rparr>)"
    by (simp add: t findPandaVideoByTitle_def library_def)
  have e1: "?first = (fst ?first, snd ?first)" and e2: "?second = (fst ?second, snd ?second)"
    by simp_all
  have cb: "clock blank = 0"
    by (simp add: blank_def)
  have hyp: "distinct (map vimeo_video_id (pool blank)) \<and>
    uri ?v = Some ''/videos/1'' \<and> formatVimeoUrl_links ''/videos/1'' = Some ?k \<and>
    \<not> has_key ?k (pool blank) \<and>
    findPandaVideoByTitle (panda_videos library ''pa'' (or_else (video_name ?v) sem_titulo)) =
      Inr (Some \<lparr>video_external_id = ''x-one''\<rparr>) \<and>
    reconcile_links library ''pa'' ?v blank = (fst ?first, snd ?first) \<and>
    reconcile_links relabelled ''pa'' ?v (snd ?first) = (fst ?second, snd ?second)"
    using d u f n x by simp
  note w = upsert_law [where st = blank and video = ?v and path = "''/videos/1''" and k = ?k
      and ?env1.0 = library and ?folder1.0 = "''pa''"
      and ?v1.0 = "\<lparr>video_external_id = ''x-one''\<rparr>" and ?r1.0 = "fst ?first"
      and ?st1.0 = "snd ?first" and ?env2.0 = relabelled and ?folder2.0 = "''pa''"
      and ?r2.0 = "fst ?second" and ?st2.0 = "snd ?second", THEN conjunct1, THEN mp, OF hyp]
  from w have a: "fst ?first = Finished" and b: "fst ?second = Finished"
    and c': "filter (\<lambda>r. vimeo_video_id r = ?k) (pool (snd ?second)) =
              [\<lparr>vimeo_video_id = ?k,
                panda_video_id = Some (formatPandaIdToUrl (video_external_id \<lparr>video_external_id = ''x-one''\<rparr>)),
                panda_websocket_url = None, title = Some (or_else (video_name ?v) sem_titulo),
                updated_at = clock blank\<rparr>]"
    by blast+
  from c' have c: "filter (\<lambda>r. vimeo_video_id r = ?k) (pool (snd ?second)) =
              [\<lparr>vimeo_video_id = ?k, panda_video_id = Some (formatPandaIdToUrl ''x-one''),
                panda_websocket_url = None, title = Some ''one'', updated_at = 0\<rparr>]"
    by (simp add: t cb)
  have di: "distinct (map vimeo_video_id (pool ?i0))"
    by (simp add: blank_def mapped_def)
  have g: "formatVimeoUrl ''/videos/7'' = Inr ?k7"
    by (simp add: formatVimeoUrl_def match_videos_def is_digit_def)
  have s1: "saveVideoMapping ''/videos/7'' (Some ''v1'') None None ?i0 = Inr ?i1"
    by (simp add: saveVideoMapping_def g upsert_index_def on_duplicate_key_update_def has_key_def
          mapped_def blank_def emit_def)
  obtain s where s2: "saveVideoMapping ''/videos/7'' (Some ''v2'') (Some ''w2'') (Some ''t2'') ?i1 =
                        Inr s"
    by (simp add: saveVideoMapping_def g)
  have l1: "length (pool ?i1) = 2" and c1: "clock ?i1 = 0"
    by simp_all
  have hyp2: "distinct (map vimeo_video_id (pool ?i0)) \<and> formatVimeoUrl ''/videos/7'' = Inr ?k7 \<and>
      saveVideoMapping ''/videos/7'' (Some ''v1'') None None ?i0 = Inr ?i1 \<and>
      saveVideoMapping ''/videos/7'' (Some ''v2'') (Some ''w2'') (Some ''t2'') ?i1 = Inr s"
    using di g s1 s2 by blast
  note w2 = upsert_law [where ist = ?i0 and path' = "''/videos/7''" and k' = ?k7
      and ?a1.0 = "Some ''v1''" and ?w1.0 = None and ?t1.0 = None and ?ist1.0 = ?i1
      and ?a2.0 = "Some ''v2''" and ?w2.0 = "Some ''w2''" and ?t2.0 = "Some ''t2''"
      and ?ist2.0 = s, THEN conjunct2, THEN conjunct2, THEN mp, OF hyp2]
  from w2 have h': "filter (\<lambda>r. vimeo_video_id r = ?k7) (pool s) =
              [\<lparr>vimeo_video_id = ?k7, panda_video_id = Some ''v2'',
                panda_websocket_url = Some ''w2'', title = Some ''t2'', updated_at = clock ?i1\<rparr>]"
    and l': "length (pool s) = length (pool ?i1)"
    by blast+
  from h' have h: "filter (\<lambda>r. vimeo_video_id r = ?k7) (pool s) =
              [\<lparr>vimeo_video_id = ?k7, panda_video_id = Some ''v2'',
                panda_websocket_url = Some ''w2'', title = Some ''t2'', updated_at = 0\<rparr>]"
    by simp
  from l' have l: "length (pool s) = 2"
    by simp
  from s2 h l have ex: "\<exists>s. saveVideoMapping ''/videos/7'' (Some ''v2'') (Some ''w2'') (Some ''t2'') ?i1 =
                        Inr s
          \<and> filter (\<lambda>r. vimeo_video_id r = ?k7) (pool s) =
              [\<lparr>vimeo_video_id = ?k7, panda_video_id = Some ''v2'',
                panda_websocket_url = Some ''w2'', title = Some ''t2'', updated_at = 0\<rparr>]
          \<and> length (pool s) = 2"
    by blast
  from d n a b c s1 ex show ?thesis by blast
qed

section \<open>Pagination\<close>

text \<open>The definitions a run on the example inputs unfolds.\<close>

lemmas run_defs = eval_nat_numeral axiosVimeoRetry_def axios_loop.simps safeGet_def safePost_def
  safe_loop.simps vimeo_get_def path_of_def emit_def Let_def or_null_def or_else_def truthy_def
  folder_item_def video_item_def shelf_def folder_matches_def server_error_def blank_def start_def
  num_times_small



text \<open>
  One iteration of the loops over the pages of a listing, once the page has been
  fetched: without a next reference the loop processes the entries and fetches nothing
  more; without a data field it ends normally; with a next reference and an empty array
  it goes on with the page at that reference. With a data field that is neither falsy,
  nor an array, nor a string, index.js ends the loop normally and getVimeoPandaLinks.js
  throws.
\<close>

lemma page_loop_links:
  assumes "axiosVimeoRetry (vimeo env url) url 5 = (Returns body, evs)"
  shows "(or_null (paging_next body) = None \<and> data body = Items videos \<longrightarrow>
            video_pages_links (Suc n) env pandaFolderId url st =
              for_each (reconcile_links env pandaFolderId) videos (emit evs st))
       \<and> (data body = Absent \<longrightarrow>
            video_pages_links (Suc n) env pandaFolderId url st = (Finished, emit evs st) \<and>
            folder_pages_links (Suc n) env url pandaParentId st = (Finished, emit evs st))
       \<and> (data body = Items [] \<and> paging_next body = Some nxt \<and> nxt \<noteq> [] \<longrightarrow>
            video_pages_links (Suc n) env pandaFolderId url st =
              video_pages_links n env pandaFolderId nxt (emit evs st))
       \<and> (data body = Other \<longrightarrow>
            video_pages_links (Suc n) env pandaFolderId url st =
              (Raised (TypeError ''not iterable''), emit evs st) \<and>
            folder_pages_links (Suc n) env url pandaParentId st =
              (Raised (TypeError ''not iterable''), emit evs st))"
  using assms
  by (auto simp: Let_def iterated_def or_null_def truthy_def split: prod.splits ending.splits)

lemma page_loop_index:
  assumes "vimeo_get env url = (Returns body, evs)"
  shows "(or_null (paging_next body) = None \<and> data body = Items items \<longrightarrow>
            folder_pages (Suc n) env url pandaParentId st =
              for_each (visit (\<lambda>u p s. folder_pages n env (u @ ''?per_page=100'') p s)
                          n env pandaParentId) items (emit evs st))
       \<and> (listed (data body) = None \<longrightarrow>
            folder_pages (Suc n) env url pandaParentId st = (Finished, emit evs st) \<and>
            video_pages (Suc n) env url st = (Finished, emit evs st))
       \<and> (data body = Items [] \<and> paging_next body = Some nxt \<and> nxt \<noteq> [] \<longrightarrow>
            folder_pages (Suc n) env url pandaParentId st =
              folder_pages n env nxt pandaParentId (emit evs st))"
  using assms
  by (auto simp: Let_def listed_def or_null_def truthy_def
           split: prod.splits ending.splits listing.splits)

text \<open>
  C7. The loops end normally at a page without a data field. The claim asks the same of
  every page that is missing the expected data array, and index.js does so: it tests
  \<open>Array.isArray\<close>. getVimeoPandaLinks.js tests only \<open>!data?.data\<close>: when the
  listing of A's videos answers with an object in the place of the array, the \<open>for\<close>
  loop throws a \<open>TypeError\<close>, which ends the whole run before folder B is visited,
  where index.js ends the listing of A normally and goes on to B.
\<close>

theorem non_array_data_raises:
  "vimeo_get misshapen ''/folders/1/videos?per_page=100'' =
     (Returns \<lparr>data = Other, paging_next = None\<rparr>, [Call ''GET'' ''/folders/1/videos?per_page=100''])
   \<and> video_pages (Suc 0) misshapen ''/folders/1/videos?per_page=100'' (start shelf) =
       (Finished, emit [Call ''GET'' ''/folders/1/videos?per_page=100''] (start shelf))
   \<and> axiosVimeoRetry (vimeo misshapen ''/folders/1/videos?per_page=50'')
        ''/folders/1/videos?per_page=50'' 5 =
     (Returns \<lparr>data = Other, paging_next = None\<rparr>, [Call ''GET'' ''/folders/1/videos?per_page=50''])
   \<and> video_pages_links (Suc 0) misshapen ''pa'' ''/folders/1/videos?per_page=50'' blank =
       (Raised (TypeError ''not iterable''),
        emit [Call ''GET'' ''/folders/1/videos?per_page=50''] blank)
   \<and> run_links 5 misshapen ''/root'' blank =
       (Raised (TypeError ''not iterable''),
        \<lparr>pool = [],
         trace = [Call ''GET'' ''/root?per_page=50'', Call ''GET'' ''/root/2'',
                  Call ''GET'' ''/folders'', Call ''GET'' ''/folders/1/videos?per_page=50'',
                  Console ''error'' ''uncaught''],
         clock = 0\<rparr>)
   \<and> run 5 misshapen ''/root'' (start shelf) =
       (Finished,
        \<lparr>pool = [],
         trace = [Call ''GET'' ''/root?per_page=100'', Call ''GET'' ''/root/2'',
                  Call ''GET'' ''/folders'', Call ''GET'' ''/folders/1/videos?per_page=100'',
                  Call ''GET'' ''/folders'', Call ''GET'' ''/folders/2/videos?per_page=100'',
                  Console ''Vimeo sem link de download'' ''three'',
                  Console ''log'' ''Processamento finalizado''],
         clock = 0, folderMap = [(''/folders/1'', ''pa''), (''/folders/2'', ''pb'')],
         panda = shelf, sent = 2\<rparr>)"
  by (simp add: run_links_def processFolder_links_def visit_links_def findPandaFolder_links_def
        processVideosInFolder_links_def iterated_def listed_def misshapen_def library_def run_defs
        run_def processFolder_def visit_def descend_def processVideosInFolder_def
        reconcile_def pick_download_def width_or_0_def findPandaFolder_def found_folder_def
        sem_titulo_def)

section \<open>Errors in the traversal\<close>

text \<open>A \<open>for\<close> loop stops at the first entry whose body throws; the entries after it are not visited.\<close>

lemma for_each_stops:
  "for_each body before st0 = (Finished, st) \<Longrightarrow> body x st = (Raised e, st') \<Longrightarrow>
     for_each body (before @ x # after) st0 = (Raised e, st')"
proof (induction before arbitrary: st0)
  case Nil
  then show ?case by simp
next
  case (Cons a before)
  obtain r s where b: "body a st0 = (r, s)" by (cases "body a st0")
  show ?case
  proof (cases r)
    case Finished
    with Cons b show ?thesis by simp
  next
    case (Raised x)
    with Cons.prems b show ?thesis by simp
  next
    case Unfinished
    with Cons.prems b show ?thesis by simp
  qed
qed

lemma for_each_skips:
  "body x st = (Finished, st') \<Longrightarrow> for_each body (x # xs) st = for_each body xs st'"
  by simp

text \<open>
  The loops and calls of index.js hand an exception on unchanged: each is, in the state
  it has reached, the call it makes next.
\<close>

lemma safe_loop_throws_last:
  assumes "safe_loop m client url 3 1 = (Throws x, evs)"
  shows "\<exists>e. client 3 = Fail e \<and> status e \<noteq> Some 429 \<and> x = HttpError e"
proof -
  have four: "safe_loop m client url 3 4 = (ReturnsUndefined, [])"
    by (subst safe_loop.simps) simp
  have three: "\<And>ev. safe_loop m client url 3 3 = (Throws x, ev) \<Longrightarrow> ?thesis"
    by (subst (asm) safe_loop.simps) (auto simp: four split: attempt.splits if_splits)
  have two: "\<And>ev. safe_loop m client url 3 2 = (Throws x, ev) \<Longrightarrow> ?thesis"
    by (subst (asm) safe_loop.simps)
       (auto split: attempt.splits if_splits prod.splits dest: three)
  note two' = two [unfolded numeral_2_eq_2]
  from assms show ?thesis
    by (subst (asm) safe_loop.simps)
       (auto split: attempt.splits if_splits prod.splits dest: two')
qed

lemma vimeo_get_throws:
  assumes "vimeo_get env url = (Throws x, evs)"
  shows "\<exists>e. vimeo env url 2 = Fail e \<and> status e \<noteq> Some 429 \<and> x = HttpError e"
  using safe_loop_throws_last [of "''GET''" "\<lambda>attempt. vimeo env url (attempt - 1)" url x evs] assms
  by (simp add: vimeo_get_def safeGet_def)

lemma video_pages_throws:
  "vimeo_get env url = (Throws x, evs) \<Longrightarrow> video_pages (Suc n) env url st = (Raised x, emit evs st)"
  by (simp add: Let_def)

lemma video_pages_passes:
  "vimeo_get env url = (Returns body, evs) \<Longrightarrow> data body = Items vs \<Longrightarrow>
     for_each reconcile vs (emit evs st) = (Raised x, st') \<Longrightarrow>
     video_pages (Suc n) env url st = (Raised x, st')"
  by (simp add: Let_def listed_def)

lemma video_pages_next:
  "vimeo_get env url = (Returns body, evs) \<Longrightarrow> data body = Items vs \<Longrightarrow>
     for_each reconcile vs (emit evs st) = (Finished, st1) \<Longrightarrow>
     or_null (paging_next body) = Some nxt \<Longrightarrow>
     video_pages (Suc n) env url st = video_pages n env nxt st1"
  by (simp add: Let_def listed_def)

lemma processVideosInFolder_listing:
  "or_null (case folder item of None \<Rightarrow> None | Some f \<Rightarrow> videos_uri f) = Some videosUri \<Longrightarrow>
     processVideosInFolder n env item pandaFolderId st =
       video_pages n env (videosUri @ ''?per_page=100'') st"
  by (simp add: processVideosInFolder_def)

lemma descend_passes:
  "processVideosInFolder n env item pandaFolderId st = (Raised x, st') \<Longrightarrow>
     descend recur n env item pandaFolderId st = (Raised x, st')"
  by (simp add: descend_def)

lemma descend_recur_passes:
  "processVideosInFolder n env item pandaFolderId st = (Finished, st1) \<Longrightarrow>
   or_null (case folder item of None \<Rightarrow> None | Some f \<Rightarrow> items_uri f) = Some sub \<Longrightarrow>
     descend recur n env item pandaFolderId st = recur sub (Some pandaFolderId) st1"
  by (simp add: descend_def)

lemma visit_cached:
  "or_null (case folder item of None \<Rightarrow> None | Some f \<Rightarrow> folder_uri f) = Some vimeoUri \<Longrightarrow>
   map_of (folderMap st) vimeoUri = Some pandaFolderId \<Longrightarrow>
     visit recur n env pandaParentId item st =
       descend recur n env item pandaFolderId
         (emit [Console ''Cache''
           (or_else (case folder item of None \<Rightarrow> None | Some f \<Rightarrow> folder_name f)
              ''sem nome'')] st)"
  by (simp add: visit_def Let_def)

lemma visit_found:
  "or_null (case folder item of None \<Rightarrow> None | Some f \<Rightarrow> folder_uri f) = Some vimeoUri \<Longrightarrow>
   map_of (folderMap st) vimeoUri = None \<Longrightarrow>
   findPandaFolder env
     (or_else (case folder item of None \<Rightarrow> None | Some f \<Rightarrow> folder_name f)
        ''sem nome'') pandaParentId st = (found, st1) \<Longrightarrow>
   or_null found = Some pandaFolderId \<Longrightarrow>
     visit recur n env pandaParentId item st =
       descend recur n env item pandaFolderId
         (st1\<lparr>folderMap := AList.update vimeoUri pandaFolderId (folderMap st1)\<rparr>)"
  by (simp add: visit_def Let_def)

lemma visit_created:
  "or_null (case folder item of None \<Rightarrow> None | Some f \<Rightarrow> folder_uri f) = Some vimeoUri \<Longrightarrow>
   map_of (folderMap st) vimeoUri = None \<Longrightarrow>
   findPandaFolder env
     (or_else (case folder item of None \<Rightarrow> None | Some f \<Rightarrow> folder_name f)
        ''sem nome'') pandaParentId st = (found, st1) \<Longrightarrow>
   or_null found = None \<Longrightarrow>
   createPandaFolder env
     (or_else (case folder item of None \<Rightarrow> None | Some f \<Rightarrow> folder_name f)
        ''sem nome'') pandaParentId st1 = (made, st2) \<Longrightarrow>
   or_null made = Some pandaFolderId \<Longrightarrow>
     visit recur n env pandaParentId item st =
       descend recur n env item pandaFolderId
         (st2\<lparr>folderMap := AList.update vimeoUri pandaFolderId (folderMap st2)\<rparr>)"
  by (simp add: visit_def Let_def)

lemma folder_pages_throws:
  "vimeo_get env url = (Throws x, evs) \<Longrightarrow>
     folder_pages (Suc n) env url pandaParentId st = (Raised x, emit evs st)"
  by (simp add: Let_def)

lemma folder_pages_passes:
  "vimeo_get env url = (Returns body, evs) \<Longrightarrow> data body = Items items \<Longrightarrow>
     for_each (visit (\<lambda>u p s. folder_pages n env (u @ ''?per_page=100'') p s) n env pandaParentId)
       items (emit evs st) = (Raised x, st') \<Longrightarrow>
     folder_pages (Suc n) env url pandaParentId st = (Raised x, st')"
  by (simp add: Let_def listed_def)

lemma folder_pages_next:
  "vimeo_get env url = (Returns body, evs) \<Longrightarrow> data body = Items items \<Longrightarrow>
     for_each (visit (\<lambda>u p s. folder_pages n env (u @ ''?per_page=100'') p s) n env pandaParentId)
       items (emit evs st) = (Finished, st1) \<Longrightarrow>
     or_null (paging_next body) = Some nxt \<Longrightarrow>
     folder_pages (Suc n) env url pandaParentId st = folder_pages n env nxt pandaParentId st1"
  by (simp add: Let_def listed_def)

lemma run_passes:
  "processFolder n env rootUri None st = (Raised x, st') \<Longrightarrow>
     run n env rootUri st = (Raised x, emit [Console ''error'' ''Erro fatal''] st')"
  by (simp add: run_def)

text \<open>So do the loops of getVimeoPandaLinks.js, where also the Target calls throw.\<close>

lemma video_pages_links_throws:
  "axiosVimeoRetry (vimeo env url) url 5 = (Throws x, evs) \<Longrightarrow>
     video_pages_links (Suc n) env pandaFolderId url st = (Raised x, emit evs st)"
  by (simp add: Let_def)

lemma video_pages_links_passes:
  "axiosVimeoRetry (vimeo env url) url 5 = (Returns body, evs) \<Longrightarrow>
   iterated (data body) = Inr (Some vs) \<Longrightarrow>
     for_each (reconcile_links env pandaFolderId) vs (emit evs st) = (Raised x, st') \<Longrightarrow>
     video_pages_links (Suc n) env pandaFolderId url st = (Raised x, st')"
  by (simp add: Let_def)

lemma video_pages_links_next:
  "axiosVimeoRetry (vimeo env url) url 5 = (Returns body, evs) \<Longrightarrow>
   iterated (data body) = Inr (Some vs) \<Longrightarrow>
     for_each (reconcile_links env pandaFolderId) vs (emit evs st) = (Finished, st1) \<Longrightarrow>
     or_null (paging_next body) = Some nxt \<Longrightarrow>
     video_pages_links (Suc n) env pandaFolderId url st =
       video_pages_links n env pandaFolderId nxt st1"
  by (simp add: Let_def)

lemma processVideosInFolder_links_listing:
  "or_null (case folder item of None \<Rightarrow> None | Some f \<Rightarrow> videos_uri f) = Some videosUri \<Longrightarrow>
     processVideosInFolder_links n env item pandaFolderId st =
       video_pages_links n env pandaFolderId (videosUri @ ''?per_page=50'') st"
  by (simp add: processVideosInFolder_links_def)

lemma reconcile_links_throws:
  "uri video = Some path \<Longrightarrow> formatVimeoUrl_links path = Some k \<Longrightarrow> \<not> has_key k (pool st) \<Longrightarrow>
   panda_videos env pandaFolderId (or_else (video_name video) sem_titulo) = Fail e \<Longrightarrow>
     reconcile_links env pandaFolderId video st =
       (Raised (HttpError e), emit [Select k, Call ''GET'' ''/videos''] st)"
  by (simp add: reconcile_links_def Let_def vimeoVideoExists_def emit_def findPandaVideoByTitle_def)

lemma visit_links_throws:
  "or_null (case folder item of None \<Rightarrow> None | Some f \<Rightarrow> folder_uri f) = Some vimeoUri \<Longrightarrow>
   panda_folders env = Fail e \<Longrightarrow>
     visit_links recur n env pandaParentId item st =
       (Raised (HttpError e), emit [Call ''GET'' ''/folders''] st)"
  by (simp add: visit_links_def Let_def findPandaFolder_links_def)

lemma visit_links_passes:
  "or_null (case folder item of None \<Rightarrow> None | Some f \<Rightarrow> folder_uri f) = Some vimeoUri \<Longrightarrow>
   findPandaFolder_links (panda_folders env)
     (or_else (case folder item of None \<Rightarrow> None | Some f \<Rightarrow> folder_name f)
        ''sem nome'') pandaParentId = Inr found \<Longrightarrow>
   or_null found = Some pandaFolderId \<Longrightarrow>
   processVideosInFolder_links n env item pandaFolderId (emit [Call ''GET'' ''/folders''] st) =
      (Raised x, st') \<Longrightarrow>
     visit_links recur n env pandaParentId item st = (Raised x, st')"
  by (simp add: visit_links_def Let_def)

lemma visit_links_recur_passes:
  "or_null (case folder item of None \<Rightarrow> None | Some f \<Rightarrow> folder_uri f) = Some vimeoUri \<Longrightarrow>
   findPandaFolder_links (panda_folders env)
     (or_else (case folder item of None \<Rightarrow> None | Some f \<Rightarrow> folder_name f)
        ''sem nome'') pandaParentId = Inr found \<Longrightarrow>
   or_null found = Some pandaFolderId \<Longrightarrow>
   processVideosInFolder_links n env item pandaFolderId (emit [Call ''GET'' ''/folders''] st) =
      (Finished, st1) \<Longrightarrow>
   or_null (case folder item of None \<Rightarrow> None | Some f \<Rightarrow> items_uri f) = Some sub \<Longrightarrow>
   recur sub (Some pandaFolderId) st1 = (Raised x, st') \<Longrightarrow>
     visit_links recur n env pandaParentId item st = (Raised x, st')"
  by (simp add: visit_links_def Let_def)

lemma folder_pages_links_throws:
  "axiosVimeoRetry (vimeo env url) url 5 = (Throws x, evs) \<Longrightarrow>
     folder_pages_links (Suc n) env url pandaParentId st = (Raised x, emit evs st)"
  by (simp add: Let_def)

lemma folder_pages_links_passes:
  "axiosVimeoRetry (vimeo env url) url 5 = (Returns body, evs) \<Longrightarrow>
   iterated (data body) = Inr (Some items) \<Longrightarrow>
     for_each (visit_links (\<lambda>u p s. folder_pages_links n env (u @ ''?per_page=50'') p s) n env pandaParentId)
       items (emit evs st) = (Raised x, st') \<Longrightarrow>
     folder_pages_links (Suc n) env url pandaParentId st = (Raised x, st')"
  by (simp add: Let_def)

lemma folder_pages_links_next:
  "axiosVimeoRetry (vimeo env url) url 5 = (Returns body, evs) \<Longrightarrow>
   iterated (data body) = Inr (Some items) \<Longrightarrow>
     for_each (visit_links (\<lambda>u p s. folder_pages_links n env (u @ ''?per_page=50'') p s) n env pandaParentId)
       items (emit evs st) = (Finished, st1) \<Longrightarrow>
     or_null (paging_next body) = Some nxt \<Longrightarrow>
     folder_pages_links (Suc n) env url pandaParentId st =
       folder_pages_links n env nxt pandaParentId st1"
  by (simp add: Let_def)

lemma run_links_passes:
  "processFolder_links n env rootUri None st = (Raised x, st') \<Longrightarrow>
     run_links n env rootUri st = (Raised x, emit [Console ''error'' ''uncaught''] st')"
  by (simp add: run_links_def)

text \<open>index.js: the folder that can be neither found nor created is skipped.\<close>

lemma visit_skips:
  "or_null (case folder item of None \<Rightarrow> None | Some f \<Rightarrow> folder_uri f) = Some vimeoUri \<Longrightarrow>
   map_of (folderMap st) vimeoUri = None \<Longrightarrow>
   findPandaFolder env
     (or_else (case folder item of None \<Rightarrow> None | Some f \<Rightarrow> folder_name f)
        ''sem nome'') pandaParentId st = (found, st1) \<Longrightarrow>
   or_null found = None \<Longrightarrow>
   createPandaFolder env
     (or_else (case folder item of None \<Rightarrow> None | Some f \<Rightarrow> folder_name f)
        ''sem nome'') pandaParentId st1 = (made, st2) \<Longrightarrow>
   or_null made = None \<Longrightarrow>
     visit recur n env pandaParentId item st =
       (Finished, emit [Console ''Erro Pulando''
         (or_else (case folder item of None \<Rightarrow> None | Some f \<Rightarrow> folder_name f)
            ''sem nome'')] st2)"
  by (simp add: visit_def Let_def)

lemmas index_defs = run_def processFolder_def visit_def descend_def processVideosInFolder_def
  reconcile_def pick_download_def width_or_0_def findPandaVideoByVimeoUrl_def findPandaFolder_def
  createPandaFolder_def found_folder_def sem_titulo_def listed_def

text \<open>
  C4, as the spec states it, asks that a folder or video whose processing fails with a
  request error be logged and skipped, and that the traversal go on with its siblings.
  On a Source where the listing of folder A's videos fails with HTTP 500, both scripts
  end the run at that listing: the exception reaches the handler of \<open>run\<close>, and
  folder B, whose listing would succeed, is never requested.
\<close>

theorem failed_listing_aborts_run:
  "run_links 5 broken ''/root'' blank =
     (Raised (HttpError server_error),
      \<lparr>pool = [],
       trace = [Call ''GET'' ''/root?per_page=50'', Call ''GET'' ''/root/2'',
                Call ''GET'' ''/folders'', Call ''GET'' ''/folders/1/videos?per_page=50'',
                Console ''error'' ''uncaught''],
       clock = 0\<rparr>)
   \<and> run 5 broken ''/root'' (start shelf) =
     (Raised (HttpError server_error),
      \<lparr>pool = [],
       trace = [Call ''GET'' ''/root?per_page=100'', Call ''GET'' ''/root/2'',
                Call ''GET'' ''/folders'', Call ''GET'' ''/folders/1/videos?per_page=100'',
                Sleep (Finite 1000), Call ''GET'' ''/folders/1/videos?per_page=100'',
                Sleep (Finite 2000), Call ''GET'' ''/folders/1/videos?per_page=100'',
                Console ''error'' ''Erro fatal''],
       clock = 3000, folderMap = [(''/folders/1'', ''pa'')], panda = shelf, sent = 1\<rparr>)"
  by (simp add: run_links_def processFolder_links_def visit_links_def findPandaFolder_links_def
        processVideosInFolder_links_def index_defs broken_def library_def run_defs
        timer_delay_def num_times_small iterated_def)

text \<open>
  C4, amended. index.js catches request errors only inside \<open>findPandaFolder\<close> and
  \<open>createPandaFolder\<close>: a folder whose Target folder can be neither found nor created
  is logged and skipped, and the loop goes on with its siblings; an error that
  \<open>safeGet\<close> or \<open>safePost\<close> raises inside these two functions becomes their
  result \<open>null\<close>. Every request error that
  the request layer raises to the traversal itself (in index.js \<open>safeGet\<close> giving up on
  a page of the Source, which raises the failure of its third attempt when that is not an
  HTTP 429; in getVimeoPandaLinks.js \<open>axiosVimeoRetry\<close> giving up on a
  page, the folder lookup or the video search) is caught by no loop of the traversal.
  The entries after the failing one are not visited, and every call on the way up ends
  with the same exception in the same state: the loop over the entries, the loop over
  the pages (at the first page or a later one), \<open>processVideosInFolder\<close>, the folder
  visit in each of its branches, the recursion into sub-folders, \<open>processFolder\<close>,
  and \<open>run\<close>, whose handler prints it and ends the run.
\<close>

theorem request_errors_end_the_traversal:
  "(or_null (case folder item of None \<Rightarrow> None | Some f \<Rightarrow> folder_uri f) = Some vimeoUri \<and>
      map_of (folderMap ist) vimeoUri = None \<and>
      findPandaFolder env
        (or_else (case folder item of None \<Rightarrow> None | Some f \<Rightarrow> folder_name f)
           ''sem nome'') pandaParentId ist = (found, ist1) \<and>
      or_null found = None \<and>
      createPandaFolder env
        (or_else (case folder item of None \<Rightarrow> None | Some f \<Rightarrow> folder_name f)
           ''sem nome'') pandaParentId ist1 = (made, ist2) \<and>
      or_null made = None \<longrightarrow>
      visit irecur n env pandaParentId item ist =
        (Finished, emit [Console ''Erro Pulando''
          (or_else (case folder item of None \<Rightarrow> None | Some f \<Rightarrow> folder_name f)
             ''sem nome'')] ist2))
   \<and> (safeGet (\<lambda>attempt. case panda_reply env (sent ist + (attempt - 1)) of
                           Refuse e \<Rightarrow> Fail e
                         | Garbled \<Rightarrow> Ok None
                         | Served \<Rightarrow> Ok (Some (panda ist))) ''/folders'' 3 = (Throws x, evs) \<longrightarrow>
      findPandaFolder env name parentFolderId ist =
        (None, (emit evs ist)\<lparr>sent := sent ist + calls evs\<rparr>))
   \<and> (safePost (\<lambda>attempt. case panda_reply env (sent ist + (attempt - 1)) of
                            Refuse e \<Rightarrow> Fail e
                          | Garbled \<Rightarrow> Ok None
                          | Served \<Rightarrow> Ok (Some (new_id env (sent ist + (attempt - 1))))) ''/folders'' 3 =
        (Throws x, evs) \<longrightarrow>
      createPandaFolder env name parentFolderId ist =
        (None, emit [Console ''Panda erro ao criar'' name]
                 ((emit evs ist)\<lparr>sent := sent ist + calls evs\<rparr>)))
   \<and> (axiosVimeoRetry (vimeo env url) url 5 = (Throws x, evs) \<longrightarrow>
      video_pages_links (Suc n) env pandaFolderId url st = (Raised x, emit evs st) \<and>
      folder_pages_links (Suc n) env url pandaParentId st = (Raised x, emit evs st))
   \<and> (vimeo_get env url = (Throws x, evs) \<longrightarrow>
      video_pages (Suc n) env url ist = (Raised x, emit evs ist) \<and>
      folder_pages (Suc n) env url pandaParentId ist = (Raised x, emit evs ist))
   \<and> (vimeo_get env url = (Throws x, evs) \<longrightarrow>
      (\<exists>e. vimeo env url 2 = Fail e \<and> status e \<noteq> Some 429 \<and> x = HttpError e))
   \<and> (step entry s0 = (Finished, s1) \<longrightarrow>
      for_each step (entry # siblings) s0 = for_each step siblings s1)
   \<and> (or_null (case folder item of None \<Rightarrow> None | Some f \<Rightarrow> folder_uri f) = Some vimeoUri \<and>
      panda_folders env = Fail e \<longrightarrow>
      visit_links recur n env pandaParentId item st =
        (Raised (HttpError e), emit [Call ''GET'' ''/folders''] st))
   \<and> (uri video = Some path \<and> formatVimeoUrl_links path = Some k \<and> \<not> has_key k (pool st) \<and>
      panda_videos env pandaFolderId (or_else (video_name video) sem_titulo) = Fail e \<longrightarrow>
      reconcile_links env pandaFolderId video st =
        (Raised (HttpError e), emit [Select k, Call ''GET'' ''/videos''] st))
   \<and> (for_each step earlier s0 = (Finished, s1) \<and> step entry s1 = (Raised x, s2) \<longrightarrow>
      for_each step (earlier @ entry # siblings) s0 = (Raised x, s2))
   \<and> (vimeo_get env url = (Returns body1, evs) \<and> data body1 = Items vs \<and>
      for_each reconcile vs (emit evs ist) = (Raised x, ist') \<longrightarrow>
      video_pages (Suc n) env url ist = (Raised x, ist'))
   \<and> (vimeo_get env url = (Returns body1, evs) \<and> data body1 = Items vs \<and>
      for_each reconcile vs (emit evs ist) = (Finished, ist1) \<and>
      or_null (paging_next body1) = Some nxt \<longrightarrow>
      video_pages (Suc n) env url ist = video_pages n env nxt ist1)
   \<and> (or_null (case folder item of None \<Rightarrow> None | Some f \<Rightarrow> videos_uri f) = Some videosUri \<longrightarrow>
      processVideosInFolder n env item pandaFolderId ist =
        video_pages n env (videosUri @ ''?per_page=100'') ist)
   \<and> (processVideosInFolder n env item pandaFolderId ist = (Raised x, ist') \<longrightarrow>
      descend irecur n env item pandaFolderId ist = (Raised x, ist'))
   \<and> (processVideosInFolder n env item pandaFolderId ist = (Finished, ist1) \<and>
      or_null (case folder item of None \<Rightarrow> None | Some f \<Rightarrow> items_uri f) = Some sub \<longrightarrow>
      descend irecur n env item pandaFolderId ist = irecur sub (Some pandaFolderId) ist1)
   \<and> (or_null (case folder item of None \<Rightarrow> None | Some f \<Rightarrow> folder_uri f) = Some vimeoUri \<and>
      map_of (folderMap ist) vimeoUri = Some pandaFolderId \<longrightarrow>
      visit irecur n env pandaParentId item ist =
        descend irecur n env item pandaFolderId
          (emit [Console ''Cache''
            (or_else (case folder item of None \<Rightarrow> None | Some f \<Rightarrow> folder_name f)
               ''sem nome'')] ist))
   \<and> (or_null (case folder item of None \<Rightarrow> None | Some f \<Rightarrow> folder_uri f) = Some vimeoUri \<and>
      map_of (folderMap ist) vimeoUri = None \<and>
      findPandaFolder env
        (or_else (case folder item of None \<Rightarrow> None | Some f \<Rightarrow> folder_name f)
           ''sem nome'') pandaParentId ist = (found, ist1) \<and>
      or_null found = Some pandaFolderId \<longrightarrow>
      visit irecur n env pandaParentId item ist =
        descend irecur n env item pandaFolderId
          (ist1\<lparr>folderMap := AList.update vimeoUri pandaFolderId (folderMap ist1)\<rparr>))
   \<and> (or_null (case folder item of None \<Rightarrow> None | Some f \<Rightarrow> folder_uri f) = Some vimeoUri \<and>
      map_of (folderMap ist) vimeoUri = None \<and>
      findPandaFolder env
        (or_else (case folder item of None \<Rightarrow> None | Some f \<Rightarrow> folder_name f)
           ''sem nome'') pandaParentId ist = (found, ist1) \<and>
      or_null found = None \<and>
      createPandaFolder env
        (or_else (case folder item of None \<Rightarrow> None | Some f \<Rightarrow> folder_name f)
           ''sem nome'') pandaParentId ist1 = (made, ist2) \<and>
      or_null made = Some pandaFolderId \<longrightarrow>
      visit irecur n env pandaParentId item ist =
        descend irecur n env item pandaFolderId
          (ist2\<lparr>folderMap := AList.update vimeoUri pandaFolderId (folderMap ist2)\<rparr>))
   \<and> (vimeo_get env url = (Returns body1, evs) \<and> data body1 = Items items \<and>
      for_each (visit (\<lambda>u p s. folder_pages n env (u @ ''?per_page=100'') p s) n env pandaParentId)
        items (emit evs ist) = (Raised x, ist') \<longrightarrow>
      folder_pages (Suc n) env url pandaParentId ist = (Raised x, ist'))
   \<and> (vimeo_get env url = (Returns body1, evs) \<and> data body1 = Items items \<and>
      for_each (visit (\<lambda>u p s. folder_pages n env (u @ ''?per_page=100'') p s) n env pandaParentId)
        items (emit evs ist) = (Finished, ist1) \<and>
      or_null (paging_next body1) = Some nxt \<longrightarrow>
      folder_pages (Suc n) env url pandaParentId ist = folder_pages n env nxt pandaParentId ist1)
   \<and> processFolder n env vimeoFolderUri pandaParentId ist =
      folder_pages n env (vimeoFolderUri @ ''?per_page=100'') pandaParentId ist
   \<and> (processFolder n env rootUri None ist = (Raised x, ist') \<longrightarrow>
      run n env rootUri ist = (Raised x, emit [Console ''error'' ''Erro fatal''] ist'))
   \<and> (axiosVimeoRetry (vimeo env url) url 5 = (Returns body1, evs) \<and>
      iterated (data body1) = Inr (Some vs) \<and>
      for_each (reconcile_links env pandaFolderId) vs (emit evs st) = (Raised x, st') \<longrightarrow>
      video_pages_links (Suc n) env pandaFolderId url st = (Raised x, st'))
   \<and> (axiosVimeoRetry (vimeo env url) url 5 = (Returns body1, evs) \<and>
      iterated (data body1) = Inr (Some vs) \<and>
      for_each (reconcile_links env pandaFolderId) vs (emit evs st) = (Finished, st1) \<and>
      or_null (paging_next body1) = Some nxt \<longrightarrow>
      video_pages_links (Suc n) env pandaFolderId url st =
        video_pages_links n env pandaFolderId nxt st1)
   \<and> (or_null (case folder item of None \<Rightarrow> None | Some f \<Rightarrow> videos_uri f) = Some videosUri \<longrightarrow>
      processVideosInFolder_links n env item pandaFolderId st =
        video_pages_links n env pandaFolderId (videosUri @ ''?per_page=50'') st)
   \<and> (or_null (case folder item of None \<Rightarrow> None | Some f \<Rightarrow> folder_uri f) = Some vimeoUri \<and>
      findPandaFolder_links (panda_folders env)
        (or_else (case folder item of None \<Rightarrow> None | Some f \<Rightarrow> folder_name f)
           ''sem nome'') pandaParentId = Inr found \<and>
      or_null found = Some pandaFolderId \<and>
      processVideosInFolder_links n env item pandaFolderId (emit [Call ''GET'' ''/folders''] st) =
        (Raised x, st') \<longrightarrow>
      visit_links recur n env pandaParentId item st = (Raised x, st'))
   \<and> (or_null (case folder item of None \<Rightarrow> None | Some f \<Rightarrow> folder_uri f) = Some vimeoUri \<and>
      findPandaFolder_links (panda_folders env)
        (or_else (case folder item of None \<Rightarrow> None | Some f \<Rightarrow> folder_name f)
           ''sem nome'') pandaParentId = Inr found \<and>
      or_null found = Some pandaFolderId \<and>
      processVideosInFolder_links n env item pandaFolderId (emit [Call ''GET'' ''/folders''] st) =
        (Finished, st1) \<and>
      or_null (case folder item of None \<Rightarrow> None | Some f \<Rightarrow> items_uri f) = Some sub \<and>
      recur sub (Some pandaFolderId) st1 = (Raised x, st') \<longrightarrow>
      visit_links recur n env pandaParentId item st = (Raised x, st'))
   \<and> (axiosVimeoRetry (vimeo env url) url 5 = (Returns body1, evs) \<and>
      iterated (data body1) = Inr (Some items) \<and>
      for_each (visit_links (\<lambda>u p s. folder_pages_links n env (u @ ''?per_page=50'') p s) n env pandaParentId)
        items (emit evs st) = (Raised x, st') \<longrightarrow>
      folder_pages_links (Suc n) env url pandaParentId st = (Raised x, st'))
   \<and> (axiosVimeoRetry (vimeo env url) url 5 = (Returns body1, evs) \<and>
      iterated (data body1) = Inr (Some items) \<and>
      for_each (visit_links (\<lambda>u p s. folder_pages_links n env (u @ ''?per_page=50'') p s) n env pandaParentId)
        items (emit evs st) = (Finished, st1) \<and>
      or_null (paging_next body1) = Some nxt \<longrightarrow>
      folder_pages_links (Suc n) env url pandaParentId st =
        folder_pages_links n env nxt pandaParentId st1)
   \<and> processFolder_links n env vimeoFolderUri pandaParentId st =
      folder_pages_links n env (vimeoFolderUri @ ''?per_page=50'') pandaParentId st
   \<and> (processFolder_links n env rootUri None st = (Raised x, st') \<longrightarrow>
      run_links n env rootUri st = (Raised x, emit [Console ''error'' ''uncaught''] st'))"
  apply (intro conjI)
  subgoal by (intro impI, elim conjE) (rule visit_skips)
  subgoal by (simp add: findPandaFolder_def found_folder_def)
  subgoal by (simp add: createPandaFolder_def Let_def)
  subgoal by (simp add: video_pages_links_throws folder_pages_links_throws)
  subgoal by (simp add: video_pages_throws folder_pages_throws)
  subgoal by (intro impI) (rule vimeo_get_throws)
  subgoal by (intro impI) (rule for_each_skips)
  subgoal by (intro impI, elim conjE) (rule visit_links_throws)
  subgoal by (intro impI, elim conjE) (rule reconcile_links_throws)
  subgoal by (intro impI, elim conjE) (rule for_each_stops)
  subgoal by (intro impI, elim conjE) (rule video_pages_passes)
  subgoal by (intro impI, elim conjE) (rule video_pages_next)
  subgoal by (intro impI) (rule processVideosInFolder_listing)
  subgoal by (intro impI) (rule descend_passes)
  subgoal by (intro impI, elim conjE) (rule descend_recur_passes)
  subgoal by (intro impI, elim conjE) (rule visit_cached)
  subgoal by (intro impI, elim conjE) (rule visit_found)
  subgoal by (intro impI, elim conjE) (rule visit_created)
  subgoal by (intro impI, elim conjE) (rule folder_pages_passes)
  subgoal by (intro impI, elim conjE) (rule folder_pages_next)
  subgoal by (rule processFolder_def)
  subgoal by (intro impI) (rule run_passes)
  subgoal by (intro impI, elim conjE) (rule video_pages_links_passes)
  subgoal by (intro impI, elim conjE) (rule video_pages_links_next)
  subgoal by (intro impI) (rule processVideosInFolder_links_listing)
  subgoal by (intro impI, elim conjE) (rule visit_links_passes)
  subgoal by (intro impI, elim conjE) (rule visit_links_recur_passes)
  subgoal by (intro impI, elim conjE) (rule folder_pages_links_passes)
  subgoal by (intro impI, elim conjE) (rule folder_pages_links_next)
  subgoal by (rule processFolder_links_def)
  subgoal by (intro impI) (rule run_links_passes)
  done

theorem request_errors_end_the_traversal_witness:
  "axiosVimeoRetry (vimeo broken ''/folders/1/videos?per_page=50'')
       ''/folders/1/videos?per_page=50'' 5 =
     (Throws (HttpError server_error), [Call ''GET'' ''/folders/1/videos?per_page=50''])
   \<and> video_pages_links (Suc 0) broken ''pa'' ''/folders/1/videos?per_page=50'' blank =
       (Raised (HttpError server_error),
        emit [Call ''GET'' ''/folders/1/videos?per_page=50''] blank)
   \<and> vimeo_get broken ''/folders/1/videos?per_page=100'' =
     (Throws (HttpError server_error),
      [Call ''GET'' ''/folders/1/videos?per_page=100'', Sleep (Finite 1000),
       Call ''GET'' ''/folders/1/videos?per_page=100'', Sleep (Finite 2000),
       Call ''GET'' ''/folders/1/videos?per_page=100''])
   \<and> video_pages (Suc 0) broken ''/folders/1/videos?per_page=100'' (start shelf) =
       (Raised (HttpError server_error),
        emit [Call ''GET'' ''/folders/1/videos?per_page=100'', Sleep (Finite 1000),
              Call ''GET'' ''/folders/1/videos?per_page=100'', Sleep (Finite 2000),
              Call ''GET'' ''/folders/1/videos?per_page=100''] (start shelf))
   \<and> or_null (fst (findPandaFolder refusing ''A'' None (start shelf))) = None
   \<and> or_null (fst (createPandaFolder refusing ''A'' None
                      (snd (findPandaFolder refusing ''A'' None (start shelf))))) = None
   \<and> visit (\<lambda>u p s. (Finished, s)) 0 refusing None (folder_item ''A'' ''/folders/1'')
         (start shelf) =
       (Finished,
        emit [Console ''Erro Pulando'' ''A'']
          (snd (createPandaFolder refusing ''A'' None
                  (snd (findPandaFolder refusing ''A'' None (start shelf))))))
   \<and> run 5 refusing ''/root'' (start shelf) =
       (Finished,
        \<lparr>pool = [],
         trace = [Call ''GET'' ''/root?per_page=100'', Call ''GET'' ''/root/2'',
                  Call ''GET'' ''/folders'', Sleep (Finite 1000), Call ''GET'' ''/folders'',
                  Sleep (Finite 2000), Call ''GET'' ''/folders'', Call ''POST'' ''/folders'',
                  Sleep (Finite 1000), Call ''POST'' ''/folders'', Sleep (Finite 2000),
                  Call ''POST'' ''/folders'', Console ''Panda erro ao criar'' ''A'',
                  Console ''Erro Pulando'' ''A'', Call ''GET'' ''/folders'',
                  Sleep (Finite 1000), Call ''GET'' ''/folders'', Sleep (Finite 2000),
                  Call ''GET'' ''/folders'', Call ''POST'' ''/folders'',
                  Sleep (Finite 1000), Call ''POST'' ''/folders'', Sleep (Finite 2000),
                  Call ''POST'' ''/folders'', Console ''Panda erro ao criar'' ''B'',
                  Console ''Erro Pulando'' ''B'',
                  Console ''log'' ''Processamento finalizado''],
         clock = 12000, folderMap = [], panda = shelf, sent = 12\<rparr>)"
proof -
  let ?a = "''/folders/1/videos?per_page=50''"
  let ?b = "''/folders/1/videos?per_page=100''"
  let ?evs = "[Call ''GET'' ?b, Sleep (Finite 1000), Call ''GET'' ?b, Sleep (Finite 2000),
               Call ''GET'' ?b]"
  let ?item = "folder_item ''A'' ''/folders/1''"
  let ?f = "findPandaFolder refusing ''A'' None (start shelf)"
  let ?c = "createPandaFolder refusing ''A'' None (snd ?f)"
  have t: "axiosVimeoRetry (vimeo broken ?a) ?a 5 =
             (Throws (HttpError server_error), [Call ''GET'' ?a])"
    by (simp add: broken_def library_def run_defs)
  from request_errors_end_the_traversal [where env = broken and url = ?a
      and x = "HttpError server_error" and evs = "[Call ''GET'' ?a]" and n = 0
      and pandaFolderId = "''pa''" and st = blank and pandaParentId = None,
      THEN conjunct2, THEN conjunct2, THEN conjunct2, THEN conjunct1] t
  have v: "video_pages_links (Suc 0) broken ''pa'' ?a blank =
             (Raised (HttpError server_error), emit [Call ''GET'' ?a] blank)"
    by simp
  have g: "vimeo_get broken ?b = (Throws (HttpError server_error), ?evs)"
    by (simp add: broken_def library_def run_defs num_times_small)
  from request_errors_end_the_traversal [where env = broken and url = ?b
      and x = "HttpError server_error" and evs = ?evs and n = 0
      and ist = "start shelf" and pandaParentId = None,
      THEN conjunct2, THEN conjunct2, THEN conjunct2, THEN conjunct2, THEN conjunct1] g
  have w: "video_pages (Suc 0) broken ?b (start shelf) =
             (Raised (HttpError server_error), emit ?evs (start shelf))"
    by simp
  have u: "or_null (case folder ?item of None \<Rightarrow> None | Some f \<Rightarrow> folder_uri f) = Some ''/folders/1''"
    and nm: "or_else (case folder ?item of None \<Rightarrow> None | Some f \<Rightarrow> folder_name f) ''sem nome'' = ''A''"
    and m: "map_of (folderMap (start shelf)) ''/folders/1'' = None"
    by (simp_all add: run_defs)
  have f: "or_null (fst ?f) = None"
    by (simp add: index_defs refusing_def library_def run_defs)
  have c: "or_null (fst ?c) = None"
    by (simp add: index_defs refusing_def library_def run_defs)
  have hyp: "or_null (case folder ?item of None \<Rightarrow> None | Some f \<Rightarrow> folder_uri f) = Some ''/folders/1'' \<and>
      map_of (folderMap (start shelf)) ''/folders/1'' = None \<and>
      findPandaFolder refusing
        (or_else (case folder ?item of None \<Rightarrow> None | Some f \<Rightarrow> folder_name f) ''sem nome'')
        None (start shelf) = (fst ?f, snd ?f) \<and>
      or_null (fst ?f) = None \<and>
      createPandaFolder refusing
        (or_else (case folder ?item of None \<Rightarrow> None | Some f \<Rightarrow> folder_name f) ''sem nome'')
        None (snd ?f) = (fst ?c, snd ?c) \<and>
      or_null (fst ?c) = None"
    using u m f c by (simp add: nm)
  from request_errors_end_the_traversal [where env = refusing and item = ?item
      and vimeoUri = "''/folders/1''" and ist = "start shelf" and pandaParentId = None
      and found = "fst ?f" and ?ist1.0 = "snd ?f" and made = "fst ?c" and ?ist2.0 = "snd ?c"
      and irecur = "\<lambda>u p s. (Finished, s)" and n = 0, THEN conjunct1, THEN mp, OF hyp]
  have s: "visit (\<lambda>u p s. (Finished, s)) 0 refusing None ?item (start shelf) =
       (Finished, emit [Console ''Erro Pulando'' ''A''] (snd ?c))"
    by (simp add: nm)
  have r: "run 5 refusing ''/root'' (start shelf) =
       (Finished,
        \<lparr>pool = [],
         trace = [Call ''GET'' ''/root?per_page=100'', Call ''GET'' ''/root/2'',
                  Call ''GET'' ''/folders'', Sleep (Finite 1000), Call ''GET'' ''/folders'',
                  Sleep (Finite 2000), Call ''GET'' ''/folders'', Call ''POST'' ''/folders'',
                  Sleep (Finite 1000), Call ''POST'' ''/folders'', Sleep (Finite 2000),
                  Call ''POST'' ''/folders'', Console ''Panda erro ao criar'' ''A'',
                  Console ''Erro Pulando'' ''A'', Call ''GET'' ''/folders'',
                  Sleep (Finite 1000), Call ''GET'' ''/folders'', Sleep (Finite 2000),
                  Call ''GET'' ''/folders'', Call ''POST'' ''/folders'',
                  Sleep (Finite 1000), Call ''POST'' ''/folders'', Sleep (Finite 2000),
                  Call ''POST'' ''/folders'', Console ''Panda erro ao criar'' ''B'',
                  Console ''Erro Pulando'' ''B'',
                  Console ''log'' ''Processamento finalizado''],
         clock = 12000, folderMap = [], panda = shelf, sent = 12\<rparr>)"
    by (simp add: index_defs refusing_def library_def run_defs timer_delay_def num_times_small)
  from t v g w f c s r show ?thesis by blast
qed

text \<open>
  C9, as stated, is about every Source video that has at least one download link.
  index.js looks only at the entry that comes first after sorting by descending width:
  a video whose widest entry has no link is reported as having no download link and
  skipped, although a narrower entry has one; no \<open>ReferenceError\<close> is raised for it.
\<close>

theorem widest_entry_without_link_is_skipped:
  "download hidden = Some [\<lparr>width = Some 720, link = Some ''https://dl/9''\<rparr>,
                           \<lparr>width = Some 1080, link = None\<rparr>]
   \<and> reconcile hidden (start shelf) =
       (Finished, emit [Console ''Vimeo sem link de download'' ''hidden''] (start shelf))"
  by (simp add: hidden_def video_item_def reconcile_def pick_download_def width_or_0_def
        or_null_def truthy_def or_else_def)

text \<open>
  C9, amended. In index.js, for every Source video whose widest download entry (the
  first after the stable sort by descending width, a missing width counting as 0) has a
  non-empty link, reconciling the video calls \<open>findPandaVideoByVimeoUrl\<close>, which the
  program does not define, and raises a \<open>ReferenceError\<close> before any request or
  write. The videos after it are not processed, and every call on the way up ends with
  the same exception in the same state: the loop over the videos, the loop over the
  pages (at the first page or a later one), \<open>processVideosInFolder\<close>, the folder
  visit in each of its branches, the loop over the folders, the recursion into
  sub-folders, \<open>processFolder\<close>, and \<open>run\<close>, whose handler prints \<open>Erro fatal\<close>
  and ends the run.
\<close>

theorem undefined_matcher_aborts:
  assumes "pick_download (download video) = Some downloadUrl"
  shows "reconcile video st = (Raised (ReferenceError ''findPandaVideoByVimeoUrl''), st)
     \<and> (for_each reconcile before st0 = (Finished, st) \<longrightarrow>
      for_each reconcile (before @ video # after) st0 = (Raised (ReferenceError ''findPandaVideoByVimeoUrl''), st))
     \<and> (vimeo_get env url = (Returns body, evs0) \<and> data body = Items (before @ video # after) \<and>
      for_each reconcile before (emit evs0 st1) = (Finished, st) \<longrightarrow>
      video_pages (Suc n) env url st1 = (Raised (ReferenceError ''findPandaVideoByVimeoUrl''), st))
     \<and> (for_each step earlier s0 = (Finished, s1) \<and> step entry s1 = (Raised x, s2) \<longrightarrow>
      for_each step (earlier @ entry # siblings) s0 = (Raised x, s2))
     \<and> (vimeo_get env url = (Returns body1, evs) \<and> data body1 = Items vs \<and>
      for_each reconcile vs (emit evs ist) = (Finished, ist1) \<and>
      or_null (paging_next body1) = Some nxt \<longrightarrow>
      video_pages (Suc n) env url ist = video_pages n env nxt ist1)
     \<and> (or_null (case folder item of None \<Rightarrow> None | Some f \<Rightarrow> videos_uri f) = Some videosUri \<longrightarrow>
      processVideosInFolder n env item pandaFolderId ist =
        video_pages n env (videosUri @ ''?per_page=100'') ist)
     \<and> (processVideosInFolder n env item pandaFolderId ist = (Raised x, ist') \<longrightarrow>
      descend irecur n env item pandaFolderId ist = (Raised x, ist'))
     \<and> (processVideosInFolder n env item pandaFolderId ist = (Finished, ist1) \<and>
      or_null (case folder item of None \<Rightarrow> None | Some f \<Rightarrow> items_uri f) = Some sub \<longrightarrow>
      descend irecur n env item pandaFolderId ist = irecur sub (Some pandaFolderId) ist1)
     \<and> (or_null (case folder item of None \<Rightarrow> None | Some f \<Rightarrow> folder_uri f) = Some vimeoUri \<and>
      map_of (folderMap ist) vimeoUri = Some pandaFolderId \<longrightarrow>
      visit irecur n env pandaParentId item ist =
        descend irecur n env item pandaFolderId
          (emit [Console ''Cache''
            (or_else (case folder item of None \<Rightarrow> None | Some f \<Rightarrow> folder_name f)
               ''sem nome'')] ist))
     \<and> (or_null (case folder item of None \<Rightarrow> None | Some f \<Rightarrow> folder_uri f) = Some vimeoUri \<and>
      map_of (folderMap ist) vimeoUri = None \<and>
      findPandaFolder env
        (or_else (case folder item of None \<Rightarrow> None | Some f \<Rightarrow> folder_name f)
           ''sem nome'') pandaParentId ist = (found, ist1) \<and>
      or_null found = Some pandaFolderId \<longrightarrow>
      visit irecur n env pandaParentId item ist =
        descend irecur n env item pandaFolderId
          (ist1\<lparr>folderMap := AList.update vimeoUri pandaFolderId (folderMap ist1)\<rparr>))
     \<and> (or_null (case folder item of None \<Rightarrow> None | Some f \<Rightarrow> folder_uri f) = Some vimeoUri \<and>
      map_of (folderMap ist) vimeoUri = None \<and>
      findPandaFolder env
        (or_else (case folder item of None \<Rightarrow> None | Some f \<Rightarrow> folder_name f)
           ''sem nome'') pandaParentId ist = (found, ist1) \<and>
      or_null found = None \<and>
      createPandaFolder env
        (or_else (case folder item of None \<Rightarrow> None | Some f \<Rightarrow> folder_name f)
           ''sem nome'') pandaParentId ist1 = (made, ist2) \<and>
      or_null made = Some pandaFolderId \<longrightarrow>
      visit irecur n env pandaParentId item ist =
        descend irecur n env item pandaFolderId
          (ist2\<lparr>folderMap := AList.update vimeoUri pandaFolderId (folderMap ist2)\<rparr>))
     \<and> (vimeo_get env url = (Returns body1, evs) \<and> data body1 = Items items \<and>
      for_each (visit (\<lambda>u p s. folder_pages n env (u @ ''?per_page=100'') p s) n env pandaParentId)
        items (emit evs ist) = (Raised x, ist') \<longrightarrow>
      folder_pages (Suc n) env url pandaParentId ist = (Raised x, ist'))
     \<and> (vimeo_get env url = (Returns body1, evs) \<and> data body1 = Items items \<and>
      for_each (visit (\<lambda>u p s. folder_pages n env (u @ ''?per_page=100'') p s) n env pandaParentId)
        items (emit evs ist) = (Finished, ist1) \<and>
      or_null (paging_next body1) = Some nxt \<longrightarrow>
      folder_pages (Suc n) env url pandaParentId ist = folder_pages n env nxt pandaParentId ist1)
     \<and> processFolder n env vimeoFolderUri pandaParentId ist =
      folder_pages n env (vimeoFolderUri @ ''?per_page=100'') pandaParentId ist
     \<and> (processFolder n env rootUri None ist = (Raised x, ist') \<longrightarrow>
      run n env rootUri ist = (Raised x, emit [Console ''error'' ''Erro fatal''] ist'))"
proof -
  have a: "\<And>st. reconcile video st = (Raised (ReferenceError ''findPandaVideoByVimeoUrl''), st)"
    using assms by (simp add: reconcile_def findPandaVideoByVimeoUrl_def Let_def)
  have b: "for_each reconcile before st0 = (Finished, st) \<longrightarrow>
          for_each reconcile (before @ video # after) st0 = (Raised (ReferenceError ''findPandaVideoByVimeoUrl''), st)"
    using for_each_stops [where body = reconcile, OF _ a] by blast
  have c: "vimeo_get env url = (Returns body, evs0) \<and> data body = Items (before @ video # after) \<and>
        for_each reconcile before (emit evs0 st1) = (Finished, st) \<longrightarrow>
          video_pages (Suc n) env url st1 = (Raised (ReferenceError ''findPandaVideoByVimeoUrl''), st)"
    using video_pages_passes [of env url body evs0 "before @ video # after" st1]
      for_each_stops [where body = reconcile, OF _ a] by blast
  show ?thesis
    apply (intro conjI)
    subgoal by (rule a)
    subgoal by (rule b)
    subgoal by (rule c)
    subgoal by (intro impI, elim conjE) (rule for_each_stops)
    subgoal by (intro impI, elim conjE) (rule video_pages_next)
    subgoal by (intro impI) (rule processVideosInFolder_listing)
    subgoal by (intro impI) (rule descend_passes)
    subgoal by (intro impI, elim conjE) (rule descend_recur_passes)
    subgoal by (intro impI, elim conjE) (rule visit_cached)
    subgoal by (intro impI, elim conjE) (rule visit_found)
    subgoal by (intro impI, elim conjE) (rule visit_created)
    subgoal by (intro impI, elim conjE) (rule folder_pages_passes)
    subgoal by (intro impI, elim conjE) (rule folder_pages_next)
    subgoal by (rule processFolder_def)
    subgoal by (intro impI) (rule run_passes)
    done
qed

theorem undefined_matcher_aborts_witness:
  "pick_download (download (video_item ''one'' ''/videos/1''
                              [\<lparr>width = Some 1080, link = Some ''https://dl/1''\<rparr>])) =
     Some ''https://dl/1''
   \<and> reconcile (video_item ''one'' ''/videos/1''
                  [\<lparr>width = Some 1080, link = Some ''https://dl/1''\<rparr>]) (start shelf) =
       (Raised (ReferenceError ''findPandaVideoByVimeoUrl''), start shelf)
   \<and> video_pages (Suc 0) library ''/folders/1/videos?per_page=100'' (start shelf) =
       (Raised (ReferenceError ''findPandaVideoByVimeoUrl''),
        emit [Call ''GET'' ''/folders/1/videos?per_page=100''] (start shelf))
   \<and> run 5 library ''/root'' (start shelf) =
       (Raised (ReferenceError ''findPandaVideoByVimeoUrl''),
        \<lparr>pool = [],
         trace = [Call ''GET'' ''/root?per_page=100'', Call ''GET'' ''/root/2'',
                  Call ''GET'' ''/folders'', Call ''GET'' ''/folders/1/videos?per_page=100'',
                  Console ''error'' ''Erro fatal''],
         clock = 0, folderMap = [(''/folders/1'', ''pa'')], panda = shelf, sent = 1\<rparr>)"
proof -
  let ?v = "video_item ''one'' ''/videos/1'' [\<lparr>width = Some 1080, link = Some ''https://dl/1''\<rparr>]"
  let ?b = "''/folders/1/videos?per_page=100''"
  have h: "pick_download (download ?v) = Some ''https://dl/1''"
    by (simp add: video_item_def pick_download_def width_or_0_def or_null_def truthy_def)
  have p: "processFolder 5 library ''/root'' None (start shelf) =
       (Raised (ReferenceError ''findPandaVideoByVimeoUrl''),
        \<lparr>pool = [],
         trace = [Call ''GET'' ''/root?per_page=100'', Call ''GET'' ''/root/2'',
                  Call ''GET'' ''/folders'', Call ''GET'' ''/folders/1/videos?per_page=100''],
         clock = 0, folderMap = [(''/folders/1'', ''pa'')], panda = shelf, sent = 1\<rparr>)"
    by (simp add: index_defs library_def run_defs)
  from undefined_matcher_aborts [OF h, where st = "start shelf", THEN conjunct1]
  have a: "reconcile ?v (start shelf) =
             (Raised (ReferenceError ''findPandaVideoByVimeoUrl''), start shelf)"
    by simp
  have g: "vimeo_get library ?b =
             (Returns \<lparr>data = Items ([] @ ?v # [video_item ''two'' ''/videos/2'' []]),
                       paging_next = None\<rparr>, [Call ''GET'' ?b])"
    by (simp add: library_def run_defs)
  have hyp: "vimeo_get library ?b =
               (Returns \<lparr>data = Items ([] @ ?v # [video_item ''two'' ''/videos/2'' []]),
                         paging_next = None\<rparr>, [Call ''GET'' ?b]) \<and>
             data \<lparr>data = Items ([] @ ?v # [video_item ''two'' ''/videos/2'' []]),
                   paging_next = None\<rparr> = Items ([] @ ?v # [video_item ''two'' ''/videos/2'' []]) \<and>
             for_each reconcile [] (emit [Call ''GET'' ?b] (start shelf)) =
               (Finished, emit [Call ''GET'' ?b] (start shelf))"
    using g by simp
  note w = undefined_matcher_aborts [OF h, where env = library and url = ?b
      and body = "\<lparr>data = Items ([] @ ?v # [video_item ''two'' ''/videos/2'' []]),
                    paging_next = None\<rparr>"
      and ?evs0.0 = "[Call ''GET'' ?b]" and before = "[]"
      and after = "[video_item ''two'' ''/videos/2'' []]" and ?st1.0 = "start shelf"
      and st = "emit [Call ''GET'' ?b] (start shelf)" and n = 0, THEN conjunct2, THEN conjunct2, THEN conjunct1, THEN mp, OF hyp]
  from undefined_matcher_aborts [OF h, where n = 5 and env = library and rootUri = "''/root''"
      and ist = "start shelf" and x = "ReferenceError ''findPandaVideoByVimeoUrl''", THEN conjunct2, THEN conjunct2, THEN conjunct2, THEN conjunct2, THEN conjunct2, THEN conjunct2, THEN conjunct2, THEN conjunct2, THEN conjunct2, THEN conjunct2, THEN conjunct2, THEN conjunct2, THEN conjunct2, THEN conjunct2] p
  have r: "run 5 library ''/root'' (start shelf) =
       (Raised (ReferenceError ''findPandaVideoByVimeoUrl''),
        \<lparr>pool = [],
         trace = [Call ''GET'' ''/root?per_page=100'', Call ''GET'' ''/root/2'',
                  Call ''GET'' ''/folders'', Call ''GET'' ''/folders/1/videos?per_page=100'',
                  Console ''error'' ''Erro fatal''],
         clock = 0, folderMap = [(''/folders/1'', ''pa'')], panda = shelf, sent = 1\<rparr>)"
    by (simp add: emit_def)
  from h a w r show ?thesis by blast
qed

section \<open>Swallowed errors of the folder resolver\<close>

lemma or_null_None: "or_null None = None"
  by (simp add: or_null_def truthy_def)

lemma or_null_Some: "s \<noteq> [] \<Longrightarrow> or_null (Some s) = Some s"
  by (simp add: or_null_def truthy_def)

lemma safe_loop_all_fail:
  "(\<And>i. attempt \<le> i \<Longrightarrow> i \<le> retry \<Longrightarrow> \<exists>e. client i = Fail e) \<Longrightarrow> attempt \<le> Suc retry \<Longrightarrow>
     (fst (safe_loop m client url retry attempt) = ReturnsUndefined \<or>
      (\<exists>e. fst (safe_loop m client url retry attempt) = Throws e))
     \<and> calls (snd (safe_loop m client url retry attempt)) = Suc retry - attempt"
proof (induction m client url retry attempt rule: safe_loop.induct)
  case (1 m client url retry attempt)
  show ?case
  proof (cases "attempt \<le> retry")
    case False
    with "1.prems"(2) show ?thesis by (subst (1 2 3) safe_loop.simps) simp
  next
    case True
    then obtain e where Fail: "client attempt = Fail e"
      using "1.prems"(1) [of attempt] by auto
    have rest: "\<And>i. attempt + 1 \<le> i \<Longrightarrow> i \<le> retry \<Longrightarrow> \<exists>e. client i = Fail e"
      using "1.prems"(1) by simp
    show ?thesis
    proof (cases "status e = Some 429")
      case a: True
      from "1.IH"(1) [OF True Fail a rest] True
      have "(fst (safe_loop m client url retry (attempt + 1)) = ReturnsUndefined \<or>
             (\<exists>e. fst (safe_loop m client url retry (attempt + 1)) = Throws e))
           \<and> calls (snd (safe_loop m client url retry (attempt + 1))) = Suc retry - (attempt + 1)"
        by simp
      with True Fail a show ?thesis
        by (subst (1 2 3) safe_loop.simps) (auto split: prod.splits)
    next
      case b: False
      show ?thesis
      proof (cases "attempt = retry")
        case c: True
        with True Fail b show ?thesis by (subst (1 2 3) safe_loop.simps) simp
      next
        case c: False
        from "1.IH"(2) [OF True Fail b c rest] True
        have "(fst (safe_loop m client url retry (attempt + 1)) = ReturnsUndefined \<or>
               (\<exists>e. fst (safe_loop m client url retry (attempt + 1)) = Throws e))
             \<and> calls (snd (safe_loop m client url retry (attempt + 1))) = Suc retry - (attempt + 1)"
          by simp
        with True Fail b c show ?thesis
          by (subst (1 2 3) safe_loop.simps) (auto split: prod.splits)
      qed
    qed
  qed
qed

lemma safe_loop_three_refusals:
  assumes "client 1 = Fail e0" and "client 2 = Fail e1" and "client 3 = Fail e2"
  shows "(fst (safe_loop m client url 3 1) = ReturnsUndefined \<or>
          (\<exists>e. fst (safe_loop m client url 3 1) = Throws e))
       \<and> calls (snd (safe_loop m client url 3 1)) = 3"
proof -
  have "\<And>i. 1 \<le> i \<Longrightarrow> i \<le> 3 \<Longrightarrow> \<exists>e. client i = Fail e"
  proof -
    fix i :: nat
    assume "1 \<le> i" and "i \<le> 3"
    then have "i = 1 \<or> i = 2 \<or> i = 3" by arith
    with assms show "\<exists>e. client i = Fail e" by auto
  qed
  from safe_loop_all_fail [of 1 3 client m url, OF this] show ?thesis by simp
qed


text \<open>
  C10. In index.js, when every attempt of the folder listing fails, \<open>findPandaFolder\<close>
  returns \<open>null\<close> instead of an error, whatever folders the Target holds, and so does
  \<open>createPandaFolder\<close> when every attempt of its request fails. \<open>processFolder\<close>
  takes the \<open>null\<close> of \<open>findPandaFolder\<close> as "folder absent" and creates a folder:
  when the next request is served, the Target gains a folder with the name and parent
  looked for. So there is a run, the one on \<open>flaky\<close>, in which the listing fails
  three times while folder B exists on the Target, and the Target ends with two
  folders B under the same parent, with no error surfaced.
\<close>

theorem swallowed_listing_error_creates_folder:
  assumes "panda_reply env (sent st) = Refuse e0"
    and "panda_reply env (sent st + 1) = Refuse e1"
    and "panda_reply env (sent st + 2) = Refuse e2"
  shows "fst (findPandaFolder env nm parent st) = None
     \<and> panda (snd (findPandaFolder env nm parent st)) = panda st
     \<and> sent (snd (findPandaFolder env nm parent st)) = sent st + 3
     \<and> fst (createPandaFolder env nm parent st) = None
     \<and> (panda_reply env (sent st + 3) = Served \<and> new_id env (sent st + 3) \<noteq> [] \<and>
        or_null (case folder item of None \<Rightarrow> None | Some f \<Rightarrow> folder_uri f) = Some vimeoUri \<and>
        map_of (folderMap st) vimeoUri = None \<longrightarrow>
          (\<exists>s. visit recur n env parent item st =
                  descend recur n env item (new_id env (sent st + 3)) s
              \<and> panda s = panda st @
                   [\<lparr>panda_id = new_id env (sent st + 3),
                     panda_name = or_else (case folder item of None \<Rightarrow> None
                                           | Some f \<Rightarrow> folder_name f) ''sem nome'',
                     parent_folder_id = or_null parent\<rparr>]))"
proof -
  let ?get = "\<lambda>attempt. case panda_reply env (sent st + (attempt - 1)) of
                           Refuse e \<Rightarrow> Fail e
                         | Garbled \<Rightarrow> Ok None
                         | Served \<Rightarrow> Ok (Some (panda st))"
  let ?post = "\<lambda>attempt. case panda_reply env (sent st + (attempt - 1)) of
                           Refuse e \<Rightarrow> Fail e
                         | Garbled \<Rightarrow> Ok None
                         | Served \<Rightarrow> Ok (Some (new_id env (sent st + (attempt - 1))))"
  have g: "(fst (safeGet ?get ''/folders'' 3) = ReturnsUndefined \<or>
            (\<exists>e. fst (safeGet ?get ''/folders'' 3) = Throws e))
         \<and> calls (snd (safeGet ?get ''/folders'' 3)) = 3"
    unfolding safeGet_def using assms by (intro safe_loop_three_refusals) simp_all
  have p: "(fst (safePost ?post ''/folders'' 3) = ReturnsUndefined \<or>
            (\<exists>e. fst (safePost ?post ''/folders'' 3) = Throws e))
         \<and> calls (snd (safePost ?post ''/folders'' 3)) = 3"
    unfolding safePost_def using assms by (intro safe_loop_three_refusals) simp_all
  have a: "fst (findPandaFolder env nm parent st) = None"
    and b: "panda (snd (findPandaFolder env nm parent st)) = panda st"
    and c: "sent (snd (findPandaFolder env nm parent st)) = sent st + 3"
    using g by (auto simp: findPandaFolder_def found_folder_def emit_def split: prod.splits)
  have d: "fst (createPandaFolder env nm parent st) = None"
    using p by (auto simp: createPandaFolder_def Let_def split: prod.splits)
  have e: "panda_reply env (sent st + 3) = Served \<and> new_id env (sent st + 3) \<noteq> [] \<and>
        or_null (case folder item of None \<Rightarrow> None | Some f \<Rightarrow> folder_uri f) = Some vimeoUri \<and>
        map_of (folderMap st) vimeoUri = None \<longrightarrow>
          (\<exists>s. visit recur n env parent item st =
                  descend recur n env item (new_id env (sent st + 3)) s
              \<and> panda s = panda st @
                   [\<lparr>panda_id = new_id env (sent st + 3),
                     panda_name = or_else (case folder item of None \<Rightarrow> None
                                           | Some f \<Rightarrow> folder_name f) ''sem nome'',
                     parent_folder_id = or_null parent\<rparr>])"
  proof (intro impI)
    let ?nm = "or_else (case folder item of None \<Rightarrow> None | Some f \<Rightarrow> folder_name f) ''sem nome''"
    assume h: "panda_reply env (sent st + 3) = Served \<and> new_id env (sent st + 3) \<noteq> [] \<and>
        or_null (case folder item of None \<Rightarrow> None | Some f \<Rightarrow> folder_uri f) = Some vimeoUri \<and>
        map_of (folderMap st) vimeoUri = None"
    obtain found st1 where f: "findPandaFolder env ?nm parent st = (found, st1)"
      by (cases "findPandaFolder env ?nm parent st")
    have f1: "found = None" and f2: "panda st1 = panda st" and f3: "sent st1 = sent st + 3"
      using g f by (auto simp: findPandaFolder_def found_folder_def emit_def split: prod.splits)
    have m: "createPandaFolder env ?nm parent st1 =
               (Some (new_id env (sent st + 3)),
                emit [Console ''Panda criada'' ?nm]
                  ((emit [Call ''POST'' ''/folders''] st1)
                     \<lparr>sent := sent st1 + 1,
                      panda := panda st1 @
                        [\<lparr>panda_id = new_id env (sent st + 3), panda_name = ?nm,
                          parent_folder_id = or_null parent\<rparr>]\<rparr>))"
      using h f3 by (simp add: createPandaFolder_def safePost_def safe_loop.simps Let_def emit_def)
    define s2 where "s2 = snd (createPandaFolder env ?nm parent st1)"
    let ?s = "s2\<lparr>folderMap := AList.update vimeoUri (new_id env (sent st + 3)) (folderMap s2)\<rparr>"
    have v: "visit recur n env parent item st =
               descend recur n env item (new_id env (sent st + 3)) ?s"
      using h f f1 m by (simp add: visit_def Let_def or_null_None or_null_Some s2_def)
    have pd: "panda ?s = panda st @
                   [\<lparr>panda_id = new_id env (sent st + 3), panda_name = ?nm,
                     parent_folder_id = or_null parent\<rparr>]"
      using m f2 by (simp add: s2_def emit_def)
    from v pd show "\<exists>s. visit recur n env parent item st =
                  descend recur n env item (new_id env (sent st + 3)) s
              \<and> panda s = panda st @
                   [\<lparr>panda_id = new_id env (sent st + 3), panda_name = ?nm,
                     parent_folder_id = or_null parent\<rparr>]"
      by blast
  qed
  from a b c d e show ?thesis by blast
qed


theorem swallowed_listing_error_creates_folder_witness:
  "panda_reply flaky (sent (start shelf)) = Refuse server_error
   \<and> panda_reply flaky (sent (start shelf) + 1) = Refuse server_error
   \<and> panda_reply flaky (sent (start shelf) + 2) = Refuse server_error
   \<and> find (folder_matches ''B'' None) (panda (start shelf)) =
       Some \<lparr>panda_id = ''pb'', panda_name = ''B'', parent_folder_id = None\<rparr>
   \<and> fst (findPandaFolder flaky ''B'' None (start shelf)) = None
   \<and> run 5 flaky ''/root'' (start shelf) =
       (Finished,
        \<lparr>pool = [],
         trace = [Call ''GET'' ''/root?per_page=100'', Call ''GET'' ''/folders'',
                  Sleep (Finite 1000), Call ''GET'' ''/folders'', Sleep (Finite 2000),
                  Call ''GET'' ''/folders'', Call ''POST'' ''/folders'',
                  Console ''Panda criada'' ''B'',
                  Call ''GET'' ''/folders/2/videos?per_page=100'',
                  Console ''Vimeo sem link de download'' ''three'',
                  Console ''log'' ''Processamento finalizado''],
         clock = 3000, folderMap = [(''/folders/2'', ''new'')],
         panda = [\<lparr>panda_id = ''pa'', panda_name = ''A'', parent_folder_id = None\<rparr>,
                  \<lparr>panda_id = ''pb'', panda_name = ''B'', parent_folder_id = None\<rparr>,
                  \<lparr>panda_id = ''new'', panda_name = ''B'', parent_folder_id = None\<rparr>],
         sent = 4\<rparr>)"
proof -
  have r0: "panda_reply flaky (sent (start shelf)) = Refuse server_error"
    and r1: "panda_reply flaky (sent (start shelf) + 1) = Refuse server_error"
    and r2: "panda_reply flaky (sent (start shelf) + 2) = Refuse server_error"
    by (simp_all add: flaky_def start_def)
  have x: "find (folder_matches ''B'' None) (panda (start shelf)) =
       Some \<lparr>panda_id = ''pb'', panda_name = ''B'', parent_folder_id = None\<rparr>"
    by (simp add: start_def shelf_def folder_matches_def)
  from swallowed_listing_error_creates_folder [OF r0 r1 r2, where nm = "''B''" and parent = None]
  have f: "fst (findPandaFolder flaky ''B'' None (start shelf)) = None"
    by simp
  have r: "run 5 flaky ''/root'' (start shelf) =
       (Finished,
        \<lparr>pool = [],
         trace = [Call ''GET'' ''/root?per_page=100'', Call ''GET'' ''/folders'',
                  Sleep (Finite 1000), Call ''GET'' ''/folders'', Sleep (Finite 2000),
                  Call ''GET'' ''/folders'', Call ''POST'' ''/folders'',
                  Console ''Panda criada'' ''B'',
                  Call ''GET'' ''/folders/2/videos?per_page=100'',
                  Console ''Vimeo sem link de download'' ''three'',
                  Console ''log'' ''Processamento finalizado''],
         clock = 3000, folderMap = [(''/folders/2'', ''new'')],
         panda = [\<lparr>panda_id = ''pa'', panda_name = ''A'', parent_folder_id = None\<rparr>,
                  \<lparr>panda_id = ''pb'', panda_name = ''B'', parent_folder_id = None\<rparr>,
                  \<lparr>panda_id = ''new'', panda_name = ''B'', parent_folder_id = None\<rparr>],
         sent = 4\<rparr>)"
    by (simp add: index_defs flaky_def library_def run_defs timer_delay_def)
  from r0 r1 r2 x f r show ?thesis by blast
qed


section \<open>Idempotence of the mirror\<close>

lemma keys_emit: "keys (emit evs st) = keys st"
  by (simp add: keys_def emit_def)

lemma keys_cong: "pool a = pool b \<Longrightarrow> keys a = keys b"
  by (simp add: keys_def)

lemma steadyI:
  assumes "\<And>t r t'. f t = (r, t') \<Longrightarrow> keys t \<subseteq> keys t'"
    and "\<And>t r t' u. f t = (r, t') \<Longrightarrow> keys t' \<subseteq> keys u \<Longrightarrow> (r \<noteq> Finished \<Longrightarrow> keys u \<subseteq> keys t') \<Longrightarrow>
           \<exists>u'. f u = (r, u') \<and> pool u' = pool u \<and> upserts (trace u') = upserts (trace u)"
  shows "steady f"
  unfolding steady_def using assms by blast

lemma steady_mono: "steady f \<Longrightarrow> f t = (r, t') \<Longrightarrow> keys t \<subseteq> keys t'"
  unfolding steady_def by blast

lemma steady_again:
  "steady f \<Longrightarrow> f t = (r, t') \<Longrightarrow> keys t' \<subseteq> keys u \<Longrightarrow> (r \<noteq> Finished \<Longrightarrow> keys u \<subseteq> keys t') \<Longrightarrow>
     \<exists>u'. f u = (r, u') \<and> pool u' = pool u \<and> upserts (trace u') = upserts (trace u)"
  unfolding steady_def by blast

lemma steady_const: "upserts evs = 0 \<Longrightarrow> steady (\<lambda>s. (r, emit evs s))"
  by (rule steadyI) (auto simp: keys_emit pool_emit upserts_emit)

lemma steady_skip: "steady (\<lambda>s. (r, s))"
  by (rule steadyI) auto

lemma then_do_Finished: "f st = (Finished, st') \<Longrightarrow> then_do f g st = g st'"
  by (simp add: then_do_def)

lemma then_do_other: "f st = (e, st') \<Longrightarrow> e \<noteq> Finished \<Longrightarrow> then_do f g st = (e, st')"
  by (cases e) (simp_all add: then_do_def)

lemma steady_then_do:
  assumes f: "steady f" and g: "steady g"
  shows "steady (then_do f g)"
proof (rule steadyI)
  fix t r t'
  assume run: "then_do f g t = (r, t')"
  obtain r1 t1 where f1: "f t = (r1, t1)" by (cases "f t")
  show "keys t \<subseteq> keys t'"
  proof (cases "r1 = Finished")
    case True
    with run f1 have "g t1 = (r, t')" by (simp add: then_do_Finished)
    with steady_mono [OF g] steady_mono [OF f f1] show ?thesis by blast
  next
    case False
    with run f1 have "(r1, t1) = (r, t')" by (simp add: then_do_other)
    with steady_mono [OF f f1] show ?thesis by simp
  qed
next
  fix t r t' u
  assume run: "then_do f g t = (r, t')" and sub: "keys t' \<subseteq> keys u"
    and bk: "r \<noteq> Finished \<Longrightarrow> keys u \<subseteq> keys t'"
  obtain r1 t1 where f1: "f t = (r1, t1)" by (cases "f t")
  show "\<exists>u'. then_do f g u = (r, u') \<and> pool u' = pool u \<and> upserts (trace u') = upserts (trace u)"
  proof (cases "r1 = Finished")
    case True
    with run f1 have g1: "g t1 = (r, t')" by (simp add: then_do_Finished)
    from steady_mono [OF g g1] sub have "keys t1 \<subseteq> keys u" by blast
    with steady_again [OF f f1, of u] True
    obtain u1 where fu: "f u = (Finished, u1)" and pu: "pool u1 = pool u"
      and wu: "upserts (trace u1) = upserts (trace u)" by auto
    from pu have ku: "keys u1 = keys u" by (rule keys_cong)
    from steady_again [OF g g1, of u1] sub bk ku
    obtain u' where gu: "g u1 = (r, u')" and pu': "pool u' = pool u1"
      and wu': "upserts (trace u') = upserts (trace u1)" by auto
    from fu gu have "then_do f g u = (r, u')" by (simp add: then_do_Finished)
    with pu pu' wu wu' show ?thesis by simp
  next
    case False
    with run f1 have eq: "r1 = r" "t1 = t'" by (simp_all add: then_do_other)
    from steady_again [OF f f1, of u] sub bk eq
    obtain u' where fu: "f u = (r, u')" and pu: "pool u' = pool u"
      and wu: "upserts (trace u') = upserts (trace u)" by auto
    from fu False eq have "then_do f g u = (r, u')" by (simp add: then_do_other)
    with pu wu show ?thesis by blast
  qed
qed

lemma for_each_then_do:
  "for_each body (x # xs) = then_do (body x) (for_each body xs)"
  by (rule ext) (simp add: then_do_def split: prod.splits ending.splits)

lemma steady_for_each:
  "(\<And>x. steady (body x)) \<Longrightarrow> steady (for_each body xs)"
proof (induction xs)
  case Nil
  have "for_each body [] = (\<lambda>s. (Finished, s))" by (rule ext) simp
  then show ?case by (simp add: steady_skip)
next
  case (Cons x xs)
  then show ?case by (simp add: for_each_then_do steady_then_do)
qed


lemma axios_loop_upserts: "upserts (snd (axios_loop client url retries attempt)) = 0"
proof (induction client url retries attempt rule: axios_loop.induct)
  case (1 client url retries attempt)
  show ?case
  proof (cases "attempt < retries")
    case False
    then show ?thesis by (subst axios_loop.simps) simp
  next
    case True
    show ?thesis
    proof (cases "client attempt")
      case (Ok r)
      with True show ?thesis by (subst axios_loop.simps) simp
    next
      case (Fail e)
      show ?thesis
      proof (cases "status e = Some 429")
        case a: True
        from "1.IH"(1)[OF True Fail a] True Fail a show ?thesis
          by (subst axios_loop.simps) (auto split: prod.splits)
      next
        case b: False
        show ?thesis
        proof (cases "code e = Some ''ECONNRESET'' \<or> code e = Some ''ETIMEDOUT''")
          case c: True
          from "1.IH"(2)[OF True Fail b c] True Fail b c show ?thesis
            by (subst axios_loop.simps) (auto split: prod.splits)
        next
          case c: False
          with True Fail b show ?thesis by (subst axios_loop.simps) simp
        qed
      qed
    qed
  qed
qed

lemma has_key_keys: "has_key k (pool st) \<longleftrightarrow> k \<in> keys st"
  by (simp add: keys_def has_key_iff)

lemma keys_upsert_links:
  "keys (st\<lparr>pool := upsert_links k v ttl ts (pool st')\<rparr>) = insert k (keys st')"
proof -
  have "set (map vimeo_video_id (upsert_links k v ttl ts (pool st'))) = insert k (keys st')"
    unfolding upsert_links_def
    by (subst keys_on_duplicate_key_update) (auto simp: keys_def has_key_iff)
  then show ?thesis by (simp add: keys_def)
qed

lemma steady_reconcile_links: "steady (reconcile_links env pandaFolderId video)"
proof (rule steadyI)
  fix t r t'
  assume "reconcile_links env pandaFolderId video t = (r, t')"
  then show "keys t \<subseteq> keys t'"
    by (auto simp: reconcile_links_def Let_def keys_emit keys_upsert_links
             split: option.splits sum.splits if_splits)
next
  fix t r t' u
  assume a: "reconcile_links env pandaFolderId video t = (r, t')" and le: "keys t' \<subseteq> keys u"
    and ge: "r \<noteq> Finished \<Longrightarrow> keys u \<subseteq> keys t'"
  show "\<exists>u'. reconcile_links env pandaFolderId video u = (r, u') \<and> pool u' = pool u \<and>
             upserts (trace u') = upserts (trace u)"
  proof (cases "uri video")
    case None
    with a show ?thesis by (simp add: reconcile_links_def Let_def)
  next
    case (Some path)
    show ?thesis
    proof (cases "formatVimeoUrl_links path")
      case None
      with a Some show ?thesis by (simp add: reconcile_links_def Let_def)
    next
      case k: (Some k)
      let ?ttl = "or_else (video_name video) sem_titulo"
      show ?thesis
      proof (cases "k \<in> keys u")
        case True
        moreover from a Some k le ge True have "r = Finished"
          by (auto simp: reconcile_links_def Let_def keys_emit keys_upsert_links pool_emit
                has_key_keys vimeoVideoExists_def
                split: option.splits sum.splits if_splits)
        ultimately show ?thesis using Some k
          by (simp add: reconcile_links_def Let_def pool_emit upserts_emit keys_emit
                has_key_keys vimeoVideoExists_def)
      next
        case False
        with le have nt': "k \<notin> keys t'" by blast
        with a Some k have nt: "k \<notin> keys t"
          by (auto simp: reconcile_links_def Let_def keys_emit keys_upsert_links pool_emit
                has_key_keys vimeoVideoExists_def
                split: option.splits sum.splits if_splits)
        from a Some k nt nt' False show ?thesis
          by (auto simp: reconcile_links_def Let_def keys_emit keys_upsert_links pool_emit
                upserts_emit has_key_keys vimeoVideoExists_def
                split: option.splits sum.splits if_splits)
      qed
    qed
  qed
qed


lemma axiosVimeoRetry_upserts: "axiosVimeoRetry client url retries = (res, evs) \<Longrightarrow> upserts evs = 0"
  using axios_loop_upserts [of client url retries 0] by (simp add: axiosVimeoRetry_def)

lemma video_pages_links_Suc:
  "video_pages_links (Suc n) env pandaFolderId url =
     (case axiosVimeoRetry (vimeo env url) url 5 of
        (res, evs) \<Rightarrow>
          (case res of
             Throws e \<Rightarrow> (\<lambda>s. (Raised e, emit evs s))
           | ReturnsUndefined \<Rightarrow> (\<lambda>s. (Raised (TypeError ''data''), emit evs s))
           | Returns body \<Rightarrow>
               (case iterated (data body) of
                  Inl e \<Rightarrow> (\<lambda>s. (Raised e, emit evs s))
                | Inr None \<Rightarrow> (\<lambda>s. (Finished, emit evs s))
                | Inr (Some videos) \<Rightarrow>
                    then_do (\<lambda>s. (Finished, emit evs s))
                      (then_do (for_each (reconcile_links env pandaFolderId) videos)
                         (case or_null (paging_next body) of
                            None \<Rightarrow> (\<lambda>s. (Finished, s))
                          | Some nxt \<Rightarrow> video_pages_links n env pandaFolderId nxt)))))"
  by (rule ext)
     (simp add: then_do_def Let_def
           split: prod.splits completion.splits option.splits ending.splits sum.splits)

lemma steady_video_pages_links: "steady (video_pages_links n env pandaFolderId url)"
proof (induction n arbitrary: url)
  case 0
  have "video_pages_links 0 env pandaFolderId url = (\<lambda>s. (Unfinished, s))"
    by (rule ext) simp
  then show ?case by (simp add: steady_skip)
next
  case (Suc n)
  obtain res evs where f: "axiosVimeoRetry (vimeo env url) url 5 = (res, evs)"
    by (cases "axiosVimeoRetry (vimeo env url) url 5")
  then have z: "upserts evs = 0" by (rule axiosVimeoRetry_upserts)
  show ?case
    unfolding video_pages_links_Suc f
    using z Suc.IH
    by (auto split: completion.splits option.splits sum.splits
          intro!: steady_const steady_skip steady_then_do steady_for_each
                  steady_reconcile_links)
qed

lemma steady_processVideosInFolder_links:
  "steady (processVideosInFolder_links n env item pandaFolderId)"
proof -
  have "processVideosInFolder_links n env item pandaFolderId =
          (case or_null (case folder item of None \<Rightarrow> None | Some f \<Rightarrow> videos_uri f) of
             None \<Rightarrow> (\<lambda>s. (Finished, s))
           | Some videosUri \<Rightarrow> video_pages_links n env pandaFolderId (videosUri @ ''?per_page=50''))"
    by (rule ext) (simp add: processVideosInFolder_links_def split: option.splits)
  then show ?thesis
    by (auto split: option.splits intro!: steady_skip steady_video_pages_links)
qed

lemma visit_links_then_do:
  "visit_links recur n env pandaParentId item =
     (case or_null (case folder item of None \<Rightarrow> None | Some f \<Rightarrow> folder_uri f) of
        None \<Rightarrow> (\<lambda>s. (Finished, s))
      | Some vimeoUri \<Rightarrow>
          (case findPandaFolder_links (panda_folders env)
                  (or_else (case folder item of None \<Rightarrow> None | Some f \<Rightarrow> folder_name f)
                     ''sem nome'') pandaParentId of
             Inl e \<Rightarrow> (\<lambda>s. (Raised e, emit [Call ''GET'' ''/folders''] s))
           | Inr found \<Rightarrow>
               (case or_null found of
                  None \<Rightarrow>
                    then_do (\<lambda>s. (Finished, emit [Call ''GET'' ''/folders''] s))
                      (\<lambda>s. (Finished,
                            emit [Console ''Skip''
                                    (or_else (case folder item of None \<Rightarrow> None
                                              | Some f \<Rightarrow> folder_name f) ''sem nome'')] s))
                | Some pandaFolderId \<Rightarrow>
                    then_do (\<lambda>s. (Finished, emit [Call ''GET'' ''/folders''] s))
                      (then_do (processVideosInFolder_links n env item pandaFolderId)
                         (case or_null (case folder item of None \<Rightarrow> None
                                        | Some f \<Rightarrow> items_uri f) of
                            None \<Rightarrow> (\<lambda>s. (Finished, emit [Sleep (Finite 500)] s))
                          | Some subfoldersUri \<Rightarrow>
                              then_do (recur subfoldersUri (Some pandaFolderId))
                                (\<lambda>s. (Finished, emit [Sleep (Finite 500)] s)))))))"
  by (rule ext)
     (simp add: visit_links_def then_do_def Let_def
           split: prod.splits sum.splits option.splits ending.splits)

lemma steady_visit_links:
  assumes "\<And>u p. steady (recur u p)"
  shows "steady (visit_links recur n env pandaParentId item)"
  unfolding visit_links_then_do
  using assms
  by (auto split: sum.splits option.splits
        intro!: steady_const steady_skip steady_then_do steady_processVideosInFolder_links)

lemma folder_pages_links_Suc:
  "folder_pages_links (Suc n) env url pandaParentId =
     (case axiosVimeoRetry (vimeo env url) url 5 of
        (res, evs) \<Rightarrow>
          (case res of
             Throws e \<Rightarrow> (\<lambda>s. (Raised e, emit evs s))
           | ReturnsUndefined \<Rightarrow> (\<lambda>s. (Raised (TypeError ''data''), emit evs s))
           | Returns body \<Rightarrow>
               (case iterated (data body) of
                  Inl e \<Rightarrow> (\<lambda>s. (Raised e, emit evs s))
                | Inr None \<Rightarrow> (\<lambda>s. (Finished, emit evs s))
                | Inr (Some items) \<Rightarrow>
                    then_do (\<lambda>s. (Finished, emit evs s))
                      (then_do
                         (for_each
                            (visit_links
                               (\<lambda>u p s. folder_pages_links n env (u @ ''?per_page=50'') p s)
                               n env pandaParentId) items)
                         (case or_null (paging_next body) of
                            None \<Rightarrow> (\<lambda>s. (Finished, s))
                          | Some nxt \<Rightarrow> folder_pages_links n env nxt pandaParentId)))))"
  by (rule ext)
     (simp add: then_do_def Let_def
           split: prod.splits completion.splits option.splits ending.splits sum.splits)

lemma steady_folder_pages_links: "steady (folder_pages_links n env url pandaParentId)"
proof (induction n arbitrary: url pandaParentId)
  case 0
  have "folder_pages_links 0 env url pandaParentId = (\<lambda>s. (Unfinished, s))"
    by (rule ext) simp
  then show ?case by (simp add: steady_skip)
next
  case (Suc n)
  obtain res evs where f: "axiosVimeoRetry (vimeo env url) url 5 = (res, evs)"
    by (cases "axiosVimeoRetry (vimeo env url) url 5")
  then have z: "upserts evs = 0" by (rule axiosVimeoRetry_upserts)
  have v: "\<And>item. steady (visit_links (\<lambda>u p s. folder_pages_links n env (u @ ''?per_page=50'') p s)
                              n env pandaParentId item)"
    by (rule steady_visit_links) (rule Suc.IH)
  show ?case
    unfolding folder_pages_links_Suc f
    using z Suc.IH v
    by (auto split: completion.splits option.splits sum.splits
          intro!: steady_const steady_skip steady_then_do steady_for_each)
qed

lemma quietI:
  "(\<And>s r s'. f s = (r, s') \<Longrightarrow> pool s' = pool s \<and> upserts (trace s') = upserts (trace s)) \<Longrightarrow>
     quiet f"
  unfolding quiet_def by blast

lemma quietD:
  "quiet f \<Longrightarrow> f s = (r, s') \<Longrightarrow> pool s' = pool s \<and> upserts (trace s') = upserts (trace s)"
  unfolding quiet_def by blast

lemma quiet_const: "upserts evs = 0 \<Longrightarrow> quiet (\<lambda>s. (r, emit evs s))"
  by (rule quietI) (auto simp: pool_emit upserts_emit)

lemma quiet_skip: "quiet (\<lambda>s. (r, s))"
  by (rule quietI) auto

lemma quiet_then_do:
  assumes f: "quiet f" and g: "quiet g"
  shows "quiet (then_do f g)"
proof (rule quietI)
  fix s r s'
  assume a: "then_do f g s = (r, s')"
  obtain r1 s1 where f1: "f s = (r1, s1)" by (cases "f s")
  show "pool s' = pool s \<and> upserts (trace s') = upserts (trace s)"
  proof (cases "r1 = Finished")
    case True
    with a f1 have "g s1 = (r, s')" by (simp add: then_do_Finished)
    with quietD [OF g] quietD [OF f f1] show ?thesis by metis
  next
    case False
    with a f1 have "(r1, s1) = (r, s')" by (simp add: then_do_other)
    with quietD [OF f f1] show ?thesis by simp
  qed
qed

lemma quiet_for_each: "(\<And>x. quiet (body x)) \<Longrightarrow> quiet (for_each body xs)"
proof (induction xs)
  case Nil
  have "for_each body [] = (\<lambda>s. (Finished, s))" by (rule ext) simp
  then show ?case by (simp add: quiet_skip)
next
  case (Cons x xs)
  then show ?case by (simp add: for_each_then_do quiet_then_do)
qed

lemma safe_loop_upserts: "upserts (snd (safe_loop m client url retry attempt)) = 0"
proof (induction m client url retry attempt rule: safe_loop.induct)
  case (1 m client url retry attempt)
  show ?case
  proof (cases "attempt \<le> retry")
    case False
    then show ?thesis by (subst safe_loop.simps) simp
  next
    case True
    show ?thesis
    proof (cases "client attempt")
      case (Ok r)
      with True show ?thesis by (subst safe_loop.simps) simp
    next
      case (Fail e)
      show ?thesis
      proof (cases "status e = Some 429")
        case a: True
        from "1.IH"(1)[OF True Fail a] True Fail a show ?thesis
          by (subst safe_loop.simps) (auto split: prod.splits)
      next
        case b: False
        show ?thesis
        proof (cases "attempt = retry")
          case c: True
          with True Fail b show ?thesis by (subst safe_loop.simps) simp
        next
          case c: False
          from "1.IH"(2)[OF True Fail b c] True Fail b c show ?thesis
            by (subst safe_loop.simps) (auto split: prod.splits)
        qed
      qed
    qed
  qed
qed

lemma safeGet_upserts: "safeGet client url retry = (got, evs) \<Longrightarrow> upserts evs = 0"
  using safe_loop_upserts [of "''GET''" client url retry 1] by (simp add: safeGet_def)

lemma safePost_upserts: "safePost client url retry = (got, evs) \<Longrightarrow> upserts evs = 0"
  using safe_loop_upserts [of "''POST''" client url retry 1] by (simp add: safePost_def)

lemma vimeo_get_upserts: "vimeo_get env url = (got, evs) \<Longrightarrow> upserts evs = 0"
  unfolding vimeo_get_def by (rule safeGet_upserts)

lemma findPandaFolder_quiet:
  "findPandaFolder env nm parent s = (found, s') \<Longrightarrow>
     pool s' = pool s \<and> upserts (trace s') = upserts (trace s)"
  by (auto simp: findPandaFolder_def emit_def upserts_append
           split: prod.splits dest: safeGet_upserts)

lemma createPandaFolder_quiet:
  "createPandaFolder env nm parent s = (made, s') \<Longrightarrow>
     pool s' = pool s \<and> upserts (trace s') = upserts (trace s)"
  by (auto simp: createPandaFolder_def Let_def emit_def upserts_append
           split: prod.splits completion.splits option.splits if_splits
           dest: safePost_upserts)

lemma quiet_reconcile: "quiet (reconcile video)"
  by (rule quietI)
     (auto simp: reconcile_def Let_def findPandaVideoByVimeoUrl_def pool_emit upserts_emit
           split: option.splits)

lemma video_pages_Suc:
  "video_pages (Suc n) env url =
     (case vimeo_get env url of
        (got, evs) \<Rightarrow>
          (case got of
             Throws e \<Rightarrow> (\<lambda>s. (Raised e, emit evs s))
           | ReturnsUndefined \<Rightarrow> (\<lambda>s. (Finished, emit evs s))
           | Returns body \<Rightarrow>
               (case listed (data body) of
                  None \<Rightarrow> (\<lambda>s. (Finished, emit evs s))
                | Some videos \<Rightarrow>
                    then_do (\<lambda>s. (Finished, emit evs s))
                      (then_do (for_each reconcile videos)
                         (case or_null (paging_next body) of
                            None \<Rightarrow> (\<lambda>s. (Finished, s))
                          | Some nxt \<Rightarrow> video_pages n env nxt)))))"
  by (rule ext)
     (simp add: then_do_def Let_def
           split: prod.splits completion.splits option.splits ending.splits sum.splits)

lemma quiet_video_pages: "quiet (video_pages n env url)"
proof (induction n arbitrary: url)
  case 0
  have "video_pages 0 env url = (\<lambda>s. (Unfinished, s))" by (rule ext) simp
  then show ?case by (simp add: quiet_skip)
next
  case (Suc n)
  obtain got evs where f: "vimeo_get env url = (got, evs)" by (cases "vimeo_get env url")
  then have z: "upserts evs = 0" by (rule vimeo_get_upserts)
  show ?case
    unfolding video_pages_Suc f
    using z Suc.IH
    by (auto split: completion.splits option.splits
          intro!: quiet_const quiet_skip quiet_then_do quiet_for_each quiet_reconcile)
qed

lemma quiet_processVideosInFolder: "quiet (processVideosInFolder n env item pandaFolderId)"
proof (rule quietI)
  fix s r s'
  assume "processVideosInFolder n env item pandaFolderId s = (r, s')"
  then show "pool s' = pool s \<and> upserts (trace s') = upserts (trace s)"
    using quietD [OF quiet_video_pages]
    by (auto simp: processVideosInFolder_def pool_emit upserts_emit split: option.splits)
qed

lemma quiet_descend:
  assumes "\<And>u p. quiet (recur u p)"
  shows "quiet (descend recur n env item pandaFolderId)"
proof -
  have "descend recur n env item pandaFolderId =
          then_do (processVideosInFolder n env item pandaFolderId)
            (case or_null (case folder item of None \<Rightarrow> None | Some f \<Rightarrow> items_uri f) of
               None \<Rightarrow> (\<lambda>s. (Finished, s))
             | Some subfoldersUri \<Rightarrow> recur subfoldersUri (Some pandaFolderId))"
    by (rule ext)
       (simp add: descend_def then_do_def split: prod.splits ending.splits option.splits)
  then show ?thesis
    using assms
    by (auto split: option.splits
          intro!: quiet_then_do quiet_skip quiet_processVideosInFolder)
qed

lemma quiet_visit:
  assumes "\<And>u p. quiet (recur u p)"
  shows "quiet (visit recur n env pandaParentId item)"
proof (rule quietI)
  fix s r s'
  assume a: "visit recur n env pandaParentId item s = (r, s')"
  note d = quietD [OF quiet_descend [of recur, OF assms]]
  from a show "pool s' = pool s \<and> upserts (trace s') = upserts (trace s)"
    by (auto simp: visit_def Let_def pool_emit upserts_emit
             split: option.splits prod.splits
             dest!: d findPandaFolder_quiet createPandaFolder_quiet)
qed

lemma folder_pages_Suc:
  "folder_pages (Suc n) env url pandaParentId =
     (case vimeo_get env url of
        (got, evs) \<Rightarrow>
          (case got of
             Throws e \<Rightarrow> (\<lambda>s. (Raised e, emit evs s))
           | ReturnsUndefined \<Rightarrow> (\<lambda>s. (Finished, emit evs s))
           | Returns body \<Rightarrow>
               (case listed (data body) of
                  None \<Rightarrow> (\<lambda>s. (Finished, emit evs s))
                | Some items \<Rightarrow>
                    then_do (\<lambda>s. (Finished, emit evs s))
                      (then_do
                         (for_each
                            (visit (\<lambda>u p s. folder_pages n env (u @ ''?per_page=100'') p s)
                               n env pandaParentId) items)
                         (case or_null (paging_next body) of
                            None \<Rightarrow> (\<lambda>s. (Finished, s))
                          | Some nxt \<Rightarrow> folder_pages n env nxt pandaParentId)))))"
  by (rule ext)
     (simp add: then_do_def Let_def
           split: prod.splits completion.splits option.splits ending.splits sum.splits)

lemma quiet_folder_pages: "quiet (folder_pages n env url pandaParentId)"
proof (induction n arbitrary: url pandaParentId)
  case 0
  have "folder_pages 0 env url pandaParentId = (\<lambda>s. (Unfinished, s))" by (rule ext) simp
  then show ?case by (simp add: quiet_skip)
next
  case (Suc n)
  obtain got evs where f: "vimeo_get env url = (got, evs)" by (cases "vimeo_get env url")
  then have z: "upserts evs = 0" by (rule vimeo_get_upserts)
  have v: "\<And>item. quiet (visit (\<lambda>u p s. folder_pages n env (u @ ''?per_page=100'') p s)
                             n env pandaParentId item)"
    by (rule quiet_visit) (rule Suc.IH)
  show ?case
    unfolding folder_pages_Suc f
    using z Suc.IH v
    by (auto split: completion.splits option.splits
          intro!: quiet_const quiet_skip quiet_then_do quiet_for_each)
qed

lemma run_never_writes:
  "run n env rootUri s = (r, s') \<Longrightarrow> pool s' = pool s \<and> upserts (trace s') = upserts (trace s)"
  using quietD [OF quiet_folder_pages, of n env "rootUri @ ''?per_page=100''" None s]
  by (auto simp: run_def processFolder_def pool_emit upserts_emit split: prod.splits ending.splits)


text \<open>
  A second run may meet failures the first did not: after a first run that ended
  normally it still writes nothing.
\<close>

lemma replaysI:
  "(\<And>t t' u. f t = (Finished, t') \<Longrightarrow> keys t' \<subseteq> keys u \<Longrightarrow>
       \<exists>r u'. g u = (r, u') \<and> pool u' = pool u \<and> upserts (trace u') = upserts (trace u)) \<Longrightarrow>
     replays f g"
  unfolding replays_def by blast

lemma replaysD:
  "replays f g \<Longrightarrow> f t = (Finished, t') \<Longrightarrow> keys t' \<subseteq> keys u \<Longrightarrow>
     \<exists>r u'. g u = (r, u') \<and> pool u' = pool u \<and> upserts (trace u') = upserts (trace u)"
  unfolding replays_def by blast

lemma replays_const: "upserts evs = 0 \<Longrightarrow> replays f (\<lambda>s. (r, emit evs s))"
  by (rule replaysI) (simp add: pool_emit upserts_emit)

lemma replays_skip: "replays f (\<lambda>s. (r, s))"
  by (rule replaysI) simp

lemma replays_never: "(\<And>t t'. f t \<noteq> (Finished, t')) \<Longrightarrow> replays f g"
  by (rule replaysI) simp

lemma replays_then_do:
  assumes f: "replays f1 g1" and g: "replays f2 g2" and m: "steady f2"
  shows "replays (then_do f1 f2) (then_do g1 g2)"
proof (rule replaysI)
  fix t t' u
  assume a: "then_do f1 f2 t = (Finished, t')" and le: "keys t' \<subseteq> keys u"
  obtain r1 t1 where f1: "f1 t = (r1, t1)" by (cases "f1 t")
  have r1: "r1 = Finished"
  proof (rule ccontr)
    assume "r1 \<noteq> Finished"
    with a f1 show False by (simp add: then_do_other)
  qed
  with a f1 have f2: "f2 t1 = (Finished, t')" by (simp add: then_do_Finished)
  from steady_mono [OF m f2] le have "keys t1 \<subseteq> keys u" by blast
  with replaysD [OF f] f1 r1
  obtain r u1 where g1: "g1 u = (r, u1)" and p1: "pool u1 = pool u"
    and w1: "upserts (trace u1) = upserts (trace u)" by blast
  show "\<exists>r u'. then_do g1 g2 u = (r, u') \<and> pool u' = pool u \<and>
          upserts (trace u') = upserts (trace u)"
  proof (cases "r = Finished")
    case True
    from p1 have "keys u1 = keys u" by (rule keys_cong)
    with replaysD [OF g f2, of u1] le
    obtain r' u' where g2: "g2 u1 = (r', u')" and p2: "pool u' = pool u1"
      and w2: "upserts (trace u') = upserts (trace u1)" by auto
    from g1 True g2 have "then_do g1 g2 u = (r', u')" by (simp add: then_do_Finished)
    with p1 p2 w1 w2 show ?thesis by simp
  next
    case False
    with g1 have "then_do g1 g2 u = (r, u1)" by (simp add: then_do_other)
    with p1 w1 show ?thesis by simp
  qed
qed

lemma replays_for_each:
  assumes "\<And>x. replays (b1 x) (b2 x)" and "\<And>x. steady (b1 x)"
  shows "replays (for_each b1 xs) (for_each b2 xs)"
proof (induction xs)
  case Nil
  have "for_each b2 [] = (\<lambda>s. (Finished, s))" by (rule ext) simp
  then show ?case by (simp add: replays_skip)
next
  case (Cons x xs)
  then show ?case
    using assms by (simp add: for_each_then_do replays_then_do steady_for_each)
qed

lemma axios_loop_Returns:
  "fst (axios_loop client url retries attempt) = Returns d \<Longrightarrow> \<exists>i. client i = Ok d"
proof (induction client url retries attempt rule: axios_loop.induct)
  case (1 client url retries attempt)
  show ?case
  proof (cases "attempt < retries")
    case False
    with "1.prems" show ?thesis by (subst (asm) axios_loop.simps) simp
  next
    case True
    show ?thesis
    proof (cases "client attempt")
      case (Ok r)
      with True "1.prems" have "r = d" by (subst (asm) axios_loop.simps) simp
      with Ok show ?thesis by blast
    next
      case (Fail e)
      show ?thesis
      proof (cases "status e = Some 429")
        case a: True
        from "1.prems" True Fail a
        have "fst (axios_loop client url retries (attempt + 1)) = Returns d"
          by (subst (asm) axios_loop.simps) (auto split: prod.splits)
        with "1.IH"(1)[OF True Fail a] show ?thesis by blast
      next
        case b: False
        show ?thesis
        proof (cases "code e = Some ''ECONNRESET'' \<or> code e = Some ''ETIMEDOUT''")
          case c: True
          from "1.prems" True Fail b c
          have "fst (axios_loop client url retries (attempt + 1)) = Returns d"
            by (subst (asm) axios_loop.simps) (auto split: prod.splits)
          with "1.IH"(2)[OF True Fail b c] show ?thesis by blast
        next
          case c: False
          with True Fail b "1.prems" show ?thesis by (subst (asm) axios_loop.simps) simp
        qed
      qed
    qed
  qed
qed

lemma same_page:
  assumes "same_data a b"
    and "axiosVimeoRetry (vimeo a url) url 5 = (Returns p, evs)"
    and "axiosVimeoRetry (vimeo b url) url 5 = (Returns q, evs')"
  shows "p = q"
proof -
  from assms(2) have "fst (axios_loop (vimeo a url) url 5 0) = Returns p"
    by (simp add: axiosVimeoRetry_def)
  then have "\<exists>i. vimeo a url i = Ok p" by (rule axios_loop_Returns)
  then obtain i where i: "vimeo a url i = Ok p" ..
  from assms(3) have "fst (axios_loop (vimeo b url) url 5 0) = Returns q"
    by (simp add: axiosVimeoRetry_def)
  then have "\<exists>j. vimeo b url j = Ok q" by (rule axios_loop_Returns)
  then obtain j where j: "vimeo b url j = Ok q" ..
  from assms(1) i j show ?thesis unfolding same_data_def by blast
qed

lemma replays_reconcile_links:
  assumes "same_data a b"
  shows "replays (reconcile_links a pandaFolderId video) (reconcile_links b pandaFolderId video)"
proof (rule replaysI)
  fix t t' u
  assume r: "reconcile_links a pandaFolderId video t = (Finished, t')" and le: "keys t' \<subseteq> keys u"
  let ?ttl = "or_else (video_name video) sem_titulo"
  show "\<exists>r u'. reconcile_links b pandaFolderId video u = (r, u') \<and> pool u' = pool u \<and>
          upserts (trace u') = upserts (trace u)"
  proof (cases "uri video")
    case None
    then show ?thesis by (simp add: reconcile_links_def Let_def)
  next
    case (Some path)
    show ?thesis
    proof (cases "formatVimeoUrl_links path")
      case None
      with Some show ?thesis by (simp add: reconcile_links_def Let_def)
    next
      case k: (Some k)
      show ?thesis
      proof (cases "k \<in> keys u")
        case True
        with Some k show ?thesis
          by (simp add: reconcile_links_def Let_def pool_emit upserts_emit keys_emit
                has_key_keys vimeoVideoExists_def)
      next
        case False
        with le have nt': "k \<notin> keys t'" by blast
        with r Some k have miss: "findPandaVideoByTitle (panda_videos a pandaFolderId ?ttl) = Inr None"
          by (auto simp: reconcile_links_def Let_def keys_emit keys_upsert_links
                has_key_keys vimeoVideoExists_def
                split: option.splits sum.splits if_splits)
        have "findPandaVideoByTitle (panda_videos b pandaFolderId ?ttl) = Inr None \<or>
              (\<exists>e. findPandaVideoByTitle (panda_videos b pandaFolderId ?ttl) = Inl e)"
        proof (cases "panda_videos b pandaFolderId ?ttl")
          case (Fail e)
          then show ?thesis by (simp add: findPandaVideoByTitle_def)
        next
          case (Ok w)
          from miss obtain v where v: "panda_videos a pandaFolderId ?ttl = Ok v"
            by (auto simp: findPandaVideoByTitle_def split: attempt.splits)
          with Ok assms have "v = w" unfolding same_data_def by blast
          with miss v Ok show ?thesis by simp
        qed
        with Some k False show ?thesis
          by (auto simp: reconcile_links_def Let_def keys_emit pool_emit upserts_emit
                has_key_keys vimeoVideoExists_def)
      qed
    qed
  qed
qed


lemma steady_next_video_page:
  "steady (case nxt of None \<Rightarrow> (\<lambda>s. (Finished, s))
           | Some url \<Rightarrow> video_pages_links n env pandaFolderId url)"
  by (cases nxt) (simp_all add: steady_skip steady_video_pages_links)

lemma replays_video_pages_links:
  assumes d: "same_data a b"
  shows "replays (video_pages_links n a pandaFolderId url) (video_pages_links n b pandaFolderId url)"
proof (induction n arbitrary: url)
  case 0
  show ?case by (rule replays_never) simp
next
  case (Suc n)
  obtain ra ea where fa: "axiosVimeoRetry (vimeo a url) url 5 = (ra, ea)"
    by (cases "axiosVimeoRetry (vimeo a url) url 5")
  obtain rb eb where fb: "axiosVimeoRetry (vimeo b url) url 5 = (rb, eb)"
    by (cases "axiosVimeoRetry (vimeo b url) url 5")
  from fa have za: "upserts ea = 0" by (rule axiosVimeoRetry_upserts)
  from fb have zb: "upserts eb = 0" by (rule axiosVimeoRetry_upserts)
  show ?case
  proof (cases ra)
    case (Throws e)
    show ?thesis
      by (rule replays_never) (simp add: fa Throws Let_def)
  next
    case ReturnsUndefined
    show ?thesis
      by (rule replays_never) (simp add: fa ReturnsUndefined Let_def)
  next
    case (Returns p)
    show ?thesis
    proof (cases rb)
      case (Throws e)
      have "video_pages_links (Suc n) b pandaFolderId url = (\<lambda>s. (Raised e, emit eb s))"
        by (simp add: video_pages_links_Suc fb Throws)
      with zb show ?thesis by (simp add: replays_const)
    next
      case ReturnsUndefined
      have "video_pages_links (Suc n) b pandaFolderId url =
              (\<lambda>s. (Raised (TypeError ''data''), emit eb s))"
        by (simp add: video_pages_links_Suc fb ReturnsUndefined)
      with zb show ?thesis by (simp add: replays_const)
    next
      case q: (Returns q)
      from same_page [OF d] fa fb Returns q have pq: "p = q" by blast
      show ?thesis
      proof (cases "iterated (data p)")
        case (Inl e)
        have "video_pages_links (Suc n) b pandaFolderId url = (\<lambda>s. (Raised e, emit eb s))"
          using pq Inl by (simp add: video_pages_links_Suc fb q)
        with zb show ?thesis by (simp add: replays_const)
      next
        case (Inr listing)
        show ?thesis
        proof (cases listing)
        case None
        have "video_pages_links (Suc n) b pandaFolderId url = (\<lambda>s. (Finished, emit eb s))"
          using pq None Inr by (simp add: video_pages_links_Suc fb q)
        with zb show ?thesis by (simp add: replays_const)
      next
        case (Some videos)
        let ?next = "\<lambda>env. case or_null (paging_next p) of
                            None \<Rightarrow> (\<lambda>s. (Finished, s))
                          | Some nxt \<Rightarrow> video_pages_links n env pandaFolderId nxt"
        have ea: "video_pages_links (Suc n) a pandaFolderId url =
                    then_do (\<lambda>s. (Finished, emit ea s))
                      (then_do (for_each (reconcile_links a pandaFolderId) videos) (?next a))"
          using Some Inr by (simp add: video_pages_links_Suc fa Returns)
        have eb: "video_pages_links (Suc n) b pandaFolderId url =
                    then_do (\<lambda>s. (Finished, emit eb s))
                      (then_do (for_each (reconcile_links b pandaFolderId) videos) (?next b))"
          using Some Inr pq by (simp add: video_pages_links_Suc fb q)
        have n: "replays (?next a) (?next b)"
          by (cases "or_null (paging_next p)") (simp_all add: replays_skip Suc.IH)
        have f: "replays (for_each (reconcile_links a pandaFolderId) videos)
                   (for_each (reconcile_links b pandaFolderId) videos)"
          by (intro replays_for_each replays_reconcile_links d steady_reconcile_links)
        show ?thesis
          unfolding ea eb
          by (intro replays_then_do replays_const zb f n steady_then_do steady_for_each
                steady_reconcile_links steady_next_video_page)
        qed
      qed
    qed
  qed
qed

lemma replays_processVideosInFolder_links:
  assumes d: "same_data a b"
  shows "replays (processVideosInFolder_links n a item pandaFolderId)
           (processVideosInFolder_links n b item pandaFolderId)"
proof -
  have e: "\<And>env. processVideosInFolder_links n env item pandaFolderId =
          (case or_null (case folder item of None \<Rightarrow> None | Some f \<Rightarrow> videos_uri f) of
             None \<Rightarrow> (\<lambda>s. (Finished, s))
           | Some videosUri \<Rightarrow> video_pages_links n env pandaFolderId (videosUri @ ''?per_page=50''))"
    by (rule ext) (simp add: processVideosInFolder_links_def split: option.splits)
  show ?thesis
    unfolding e
    by (cases "or_null (case folder item of None \<Rightarrow> None | Some f \<Rightarrow> videos_uri f)")
       (simp_all add: replays_skip replays_video_pages_links [OF d])
qed


lemma same_found:
  assumes "same_data a b"
    and "findPandaFolder_links (panda_folders a) nm parent = Inr x"
    and "findPandaFolder_links (panda_folders b) nm parent = Inr y"
  shows "x = y"
proof -
  from assms(2) obtain f where f: "panda_folders a = Ok f"
    by (auto simp: findPandaFolder_links_def split: attempt.splits)
  from assms(3) obtain g where g: "panda_folders b = Ok g"
    by (auto simp: findPandaFolder_links_def split: attempt.splits)
  from assms(1) f g have "f = g" unfolding same_data_def by blast
  with assms(2,3) f g show ?thesis by simp
qed

lemma steady_after_videos:
  assumes "\<And>u p. steady (recur u p)"
  shows "steady (case sub of None \<Rightarrow> (\<lambda>s. (Finished, emit [Sleep (Finite 500)] s))
                 | Some subfoldersUri \<Rightarrow>
                     then_do (recur subfoldersUri (Some pandaFolderId))
                       (\<lambda>s. (Finished, emit [Sleep (Finite 500)] s)))"
  using assms by (cases sub) (simp_all add: steady_const steady_then_do)

lemma replays_visit_links:
  assumes d: "same_data a b"
    and r: "\<And>u p. replays (ra u p) (rb u p)"
    and m: "\<And>u p. steady (ra u p)"
  shows "replays (visit_links ra n a pandaParentId item) (visit_links rb n b pandaParentId item)"
proof (cases "or_null (case folder item of None \<Rightarrow> None | Some f \<Rightarrow> folder_uri f)")
  case None
  then show ?thesis by (simp add: visit_links_then_do replays_skip)
next
  case (Some vimeoUri)
  let ?nm = "or_else (case folder item of None \<Rightarrow> None | Some f \<Rightarrow> folder_name f) ''sem nome''"
  show ?thesis
  proof (cases "findPandaFolder_links (panda_folders a) ?nm pandaParentId")
    case (Inl e)
    show ?thesis
      by (rule replays_never) (simp add: visit_links_then_do Some Inl)
  next
    case (Inr found)
    show ?thesis
    proof (cases "findPandaFolder_links (panda_folders b) ?nm pandaParentId")
      case (Inl e)
      have "visit_links rb n b pandaParentId item =
              (\<lambda>s. (Raised e, emit [Call ''GET'' ''/folders''] s))"
        by (simp add: visit_links_then_do Some Inl)
      then show ?thesis by (simp add: replays_const)
    next
      case y: (Inr y)
      from same_found [OF d Inr y] have xy: "y = found" by simp
      show ?thesis
      proof (cases "or_null found")
        case None
        have "visit_links rb n b pandaParentId item =
                then_do (\<lambda>s. (Finished, emit [Call ''GET'' ''/folders''] s))
                  (\<lambda>s. (Finished, emit [Console ''Skip'' ?nm] s))"
          using None xy by (simp add: visit_links_then_do Some y)
        moreover have "then_do (\<lambda>s. (Finished, emit [Call ''GET'' ''/folders''] s))
                  (\<lambda>s. (Finished, emit [Console ''Skip'' ?nm] s)) =
                  (\<lambda>s::state. (Finished, emit [Call ''GET'' ''/folders'', Console ''Skip'' ?nm] s))"
          by (rule ext) (simp add: then_do_def emit_def)
        ultimately show ?thesis by (simp add: replays_const)
      next
        case pid: (Some pandaFolderId)
        let ?sub = "or_null (case folder item of None \<Rightarrow> None | Some f \<Rightarrow> items_uri f)"
        let ?tail = "\<lambda>recur. case ?sub of
                        None \<Rightarrow> (\<lambda>s. (Finished, emit [Sleep (Finite 500)] s))
                      | Some subfoldersUri \<Rightarrow>
                          then_do (recur subfoldersUri (Some pandaFolderId))
                            (\<lambda>s. (Finished, emit [Sleep (Finite 500)] s))"
        have ea: "visit_links ra n a pandaParentId item =
                then_do (\<lambda>s. (Finished, emit [Call ''GET'' ''/folders''] s))
                  (then_do (processVideosInFolder_links n a item pandaFolderId) (?tail ra))"
          using pid by (simp add: visit_links_then_do Some Inr)
        have eb: "visit_links rb n b pandaParentId item =
                then_do (\<lambda>s. (Finished, emit [Call ''GET'' ''/folders''] s))
                  (then_do (processVideosInFolder_links n b item pandaFolderId) (?tail rb))"
          using pid xy by (simp add: visit_links_then_do Some y)
        have t: "replays (?tail ra) (?tail rb)"
          by (cases ?sub)
             (simp_all add: replays_const replays_then_do r steady_const)
        show ?thesis
          unfolding ea eb
          by (intro replays_then_do replays_const t steady_then_do
                replays_processVideosInFolder_links [OF d] steady_processVideosInFolder_links
                steady_after_videos m)
             simp
      qed
    qed
  qed
qed

lemma steady_next_folder_page:
  "steady (case nxt of None \<Rightarrow> (\<lambda>s. (Finished, s))
           | Some url \<Rightarrow> folder_pages_links n env url pandaParentId)"
  by (cases nxt) (simp_all add: steady_skip steady_folder_pages_links)

lemma replays_folder_pages_links:
  assumes d: "same_data a b"
  shows "replays (folder_pages_links n a url pandaParentId)
           (folder_pages_links n b url pandaParentId)"
proof (induction n arbitrary: url pandaParentId)
  case 0
  show ?case by (rule replays_never) simp
next
  case (Suc n)
  obtain ra ea where fa: "axiosVimeoRetry (vimeo a url) url 5 = (ra, ea)"
    by (cases "axiosVimeoRetry (vimeo a url) url 5")
  obtain rb eb where fb: "axiosVimeoRetry (vimeo b url) url 5 = (rb, eb)"
    by (cases "axiosVimeoRetry (vimeo b url) url 5")
  from fb have zb: "upserts eb = 0" by (rule axiosVimeoRetry_upserts)
  let ?visit = "\<lambda>env. visit_links (\<lambda>u p s. folder_pages_links n env (u @ ''?per_page=50'') p s)
                          n env pandaParentId"
  have v: "\<And>item. replays (?visit a item) (?visit b item)"
    by (rule replays_visit_links [OF d]) (rule Suc.IH, rule steady_folder_pages_links)
  have sv: "\<And>item. steady (?visit a item)"
    by (rule steady_visit_links) (rule steady_folder_pages_links)
  show ?case
  proof (cases ra)
    case (Throws e)
    show ?thesis
      by (rule replays_never) (simp add: fa Throws Let_def)
  next
    case ReturnsUndefined
    show ?thesis
      by (rule replays_never) (simp add: fa ReturnsUndefined Let_def)
  next
    case (Returns p)
    show ?thesis
    proof (cases rb)
      case (Throws e)
      have "folder_pages_links (Suc n) b url pandaParentId = (\<lambda>s. (Raised e, emit eb s))"
        by (simp add: folder_pages_links_Suc fb Throws)
      with zb show ?thesis by (simp add: replays_const)
    next
      case ReturnsUndefined
      have "folder_pages_links (Suc n) b url pandaParentId =
              (\<lambda>s. (Raised (TypeError ''data''), emit eb s))"
        by (simp add: folder_pages_links_Suc fb ReturnsUndefined)
      with zb show ?thesis by (simp add: replays_const)
    next
      case q: (Returns q)
      from same_page [OF d] fa fb Returns q have pq: "p = q" by blast
      show ?thesis
      proof (cases "iterated (data p)")
        case (Inl e)
        have "folder_pages_links (Suc n) b url pandaParentId = (\<lambda>s. (Raised e, emit eb s))"
          using pq Inl by (simp add: folder_pages_links_Suc fb q)
        with zb show ?thesis by (simp add: replays_const)
      next
        case (Inr listing)
        show ?thesis
        proof (cases listing)
        case None
        have "folder_pages_links (Suc n) b url pandaParentId = (\<lambda>s. (Finished, emit eb s))"
          using pq None Inr by (simp add: folder_pages_links_Suc fb q)
        with zb show ?thesis by (simp add: replays_const)
      next
        case (Some items)
        let ?next = "\<lambda>env. case or_null (paging_next p) of
                            None \<Rightarrow> (\<lambda>s. (Finished, s))
                          | Some nxt \<Rightarrow> folder_pages_links n env nxt pandaParentId"
        have ea: "folder_pages_links (Suc n) a url pandaParentId =
                    then_do (\<lambda>s. (Finished, emit ea s))
                      (then_do (for_each (?visit a) items) (?next a))"
          using Some Inr by (simp add: folder_pages_links_Suc fa Returns)
        have eb: "folder_pages_links (Suc n) b url pandaParentId =
                    then_do (\<lambda>s. (Finished, emit eb s))
                      (then_do (for_each (?visit b) items) (?next b))"
          using Some Inr pq by (simp add: folder_pages_links_Suc fb q)
        have n: "replays (?next a) (?next b)"
          by (cases "or_null (paging_next p)") (simp_all add: replays_skip Suc.IH)
        have f: "replays (for_each (?visit a) items) (for_each (?visit b) items)"
          by (intro replays_for_each v sv)
        show ?thesis
          unfolding ea eb
          by (intro replays_then_do replays_const zb f n steady_then_do steady_for_each sv
                steady_next_folder_page)
        qed
      qed
    qed
  qed
qed

lemma second_run_after_full_mirror:
  assumes "same_data a b" and "run_links n a rootUri st = (Finished, st1)"
  shows "\<exists>r st2. run_links n b rootUri st1 = (r, st2) \<and> pool st2 = pool st1 \<and>
           upserts (trace st2) = upserts (trace st1)"
proof -
  obtain r0 t where p: "processFolder_links n a rootUri None st = (r0, t)"
    by (cases "processFolder_links n a rootUri None st")
  with assms(2) have r0: "r0 = Finished" and k: "keys st1 = keys t"
    by (auto simp: run_links_def keys_emit split: ending.splits)
  have "replays (processFolder_links n a rootUri None) (processFolder_links n b rootUri None)"
    unfolding processFolder_links_def [abs_def] by (rule replays_folder_pages_links [OF assms(1)])
  from replaysD [OF this, of st t st1] p r0 k
  obtain r u' where q: "processFolder_links n b rootUri None st1 = (r, u')"
    and pu: "pool u' = pool st1" and wu: "upserts (trace u') = upserts (trace st1)"
    by auto
  from q pu wu show ?thesis
    by (cases r) (simp_all add: run_links_def pool_emit upserts_emit)
qed

lemmas links_defs = run_links_def processFolder_links_def visit_links_def
  findPandaFolder_links_def processVideosInFolder_links_def reconcile_links_def
  formatVimeoUrl_links_def match_videos_def is_digit_def vimeoVideoExists_def has_key_def
  findPandaVideoByTitle_def sem_titulo_def upsert_links_def on_duplicate_key_update_def
  formatPandaIdToUrl_def timer_delay_def iterated_def

text \<open>
  getVimeoPandaLinks.js: a Source video whose reference already has a row with a target
  id is skipped as already present: the table is queried and the skip is printed, with
  no remote request and no write. Consequently a second run of the whole mirror, started
  on the table the first run left and against the same Source and Target answers, ends
  as the first did, leaves the table as it is and executes no further write; this holds
  for every run, also one that an exception ended. After a first run that ended
  normally, a second run against the same data writes nothing even when some of its
  requests fail that did not fail before.
\<close>

lemma links_mirror_idempotent:
  "(uri video = Some path \<and> formatVimeoUrl_links path = Some k \<and> row \<in> set (pool st) \<and>
    vimeo_video_id row = k \<and> panda_video_id row = Some target \<longrightarrow>
      reconcile_links env pandaFolderId video st =
        (Finished, emit [Select k, Console ''SKIP'' (or_else (video_name video) sem_titulo)] st))
   \<and> (run_links n env rootUri st = (r1, st1) \<longrightarrow>
      (\<exists>st2. run_links n env rootUri st1 = (r1, st2) \<and> pool st2 = pool st1 \<and>
             upserts (trace st2) = upserts (trace st1)))
   \<and> (same_data env env' \<and> run_links n env rootUri st = (Finished, st1) \<longrightarrow>
      (\<exists>r st2. run_links n env' rootUri st1 = (r, st2) \<and> pool st2 = pool st1 \<and>
             upserts (trace st2) = upserts (trace st1)))"
proof (intro conjI impI)
  assume a: "uri video = Some path \<and> formatVimeoUrl_links path = Some k \<and> row \<in> set (pool st) \<and>
    vimeo_video_id row = k \<and> panda_video_id row = Some target"
  then have "has_key k (pool st)"
    by (auto simp: has_key_iff)
  with a show "reconcile_links env pandaFolderId video st =
        (Finished, emit [Select k, Console ''SKIP'' (or_else (video_name video) sem_titulo)] st)"
    by (simp add: reconcile_links_def Let_def vimeoVideoExists_def emit_def)
next
  assume a: "run_links n env rootUri st = (r1, st1)"
  obtain r t where p: "processFolder_links n env rootUri None st = (r, t)"
    by (cases "processFolder_links n env rootUri None st")
  have s: "steady (processFolder_links n env rootUri None)"
    unfolding processFolder_links_def [abs_def] by (rule steady_folder_pages_links)
  from a p have r: "r1 = r" and k: "keys st1 = keys t"
    by (auto simp: run_links_def keys_emit split: ending.splits)
  from steady_again [OF s p, of st1] k
  obtain u' where q: "processFolder_links n env rootUri None st1 = (r, u')"
    and pu: "pool u' = pool st1" and wu: "upserts (trace u') = upserts (trace st1)"
    by auto
  from q r pu wu show "\<exists>st2. run_links n env rootUri st1 = (r1, st2) \<and> pool st2 = pool st1 \<and>
             upserts (trace st2) = upserts (trace st1)"
    by (cases r) (simp_all add: run_links_def pool_emit upserts_emit)
next
  assume "same_data env env' \<and> run_links n env rootUri st = (Finished, st1)"
  then show "\<exists>r st2. run_links n env' rootUri st1 = (r, st2) \<and> pool st2 = pool st1 \<and>
             upserts (trace st2) = upserts (trace st1)"
    using second_run_after_full_mirror by blast
qed

text \<open>On the example Source the first run maps the videos \<open>one\<close> and \<open>three\<close>, and the second run writes nothing.\<close>

lemma links_mirror_idempotent_example:
  "fst (run_links 5 library ''/root'' blank) = Finished
   \<and> map vimeo_video_id (pool (snd (run_links 5 library ''/root'' blank))) =
       [''https://player.vimeo.com/video/1'', ''https://player.vimeo.com/video/3'']
   \<and> upserts (trace (snd (run_links 5 library ''/root'' blank))) = 2
   \<and> fst (run_links 5 library ''/root'' (snd (run_links 5 library ''/root'' blank))) = Finished
   \<and> pool (snd (run_links 5 library ''/root'' (snd (run_links 5 library ''/root'' blank)))) =
       pool (snd (run_links 5 library ''/root'' blank))
   \<and> upserts (trace (snd (run_links 5 library ''/root''
                             (snd (run_links 5 library ''/root'' blank))))) = 2"
proof -
  let ?first = "run_links 5 library ''/root'' blank"
  have f1: "fst ?first = Finished"
    and f2: "map vimeo_video_id (pool (snd ?first)) =
               [''https://player.vimeo.com/video/1'', ''https://player.vimeo.com/video/3'']"
    and f3: "upserts (trace (snd ?first)) = 2"
    by (simp_all add: links_defs library_def run_defs)
  have f: "?first = (Finished, snd ?first)"
    using f1 by (cases ?first) simp
  from links_mirror_idempotent [where n = 5 and env = library and rootUri = "''/root''"
      and st = blank and ?r1.0 = Finished and ?st1.0 = "snd ?first",
      THEN conjunct2, THEN conjunct1] f
  obtain st2 where g: "run_links 5 library ''/root'' (snd ?first) = (Finished, st2)"
    and g2: "pool st2 = pool (snd ?first)"
    and g3: "upserts (trace st2) = upserts (trace (snd ?first))"
    by blast
  from g g2 g3 f3
  have c2: "fst (run_links 5 library ''/root'' (snd ?first)) = Finished"
    and c3: "pool (snd (run_links 5 library ''/root'' (snd ?first))) = pool (snd ?first)"
    and c4: "upserts (trace (snd (run_links 5 library ''/root'' (snd ?first)))) = 2"
    by simp_all
  from f1 f2 f3 c2 c3 c4 show ?thesis by blast
qed

text \<open>
  C1. The claim holds of getVimeoPandaLinks.js (\<open>links_mirror_idempotent\<close>). index.js
  has the query of the table, \<open>videoExistsInDB\<close>, but no line calls it, and its
  traversal never consults the table: for the video \<open>one\<close>, whose reference already
  has a row with a target id, it does not take the skip that getVimeoPandaLinks.js takes
  on the same table, it goes on to the call of the matcher, and since
  \<open>findPandaVideoByVimeoUrl\<close> is not defined the reconciliation raises a
  \<open>ReferenceError\<close>, which ends the run at the first folder.
\<close>

theorem mapped_video_is_not_skipped_by_index:
  "vimeo_video_id (mapped ''https://player.vimeo.com/video/1'' ''x'') =
     ''https://player.vimeo.com/video/1''
   \<and> panda_video_id (mapped ''https://player.vimeo.com/video/1'' ''x'') = Some ''x''
   \<and> formatVimeoUrl ''/videos/1'' = Inr ''https://player.vimeo.com/video/1''
   \<and> reconcile_links library ''pa''
        (video_item ''one'' ''/videos/1'' [\<lparr>width = Some 1080, link = Some ''https://dl/1''\<rparr>])
        (blank\<lparr>pool := [mapped ''https://player.vimeo.com/video/1'' ''x'']\<rparr>) =
       (Finished,
        \<lparr>pool = [mapped ''https://player.vimeo.com/video/1'' ''x''],
         trace = [Select ''https://player.vimeo.com/video/1'', Console ''SKIP'' ''one''],
         clock = 0\<rparr>)
   \<and> reconcile
        (video_item ''one'' ''/videos/1'' [\<lparr>width = Some 1080, link = Some ''https://dl/1''\<rparr>])
        ((start shelf)\<lparr>pool := [mapped ''https://player.vimeo.com/video/1'' ''x'']\<rparr>) =
       (Raised (ReferenceError ''findPandaVideoByVimeoUrl''),
        (start shelf)\<lparr>pool := [mapped ''https://player.vimeo.com/video/1'' ''x'']\<rparr>)
   \<and> run 5 library ''/root''
        ((start shelf)\<lparr>pool := [mapped ''https://player.vimeo.com/video/1'' ''x'']\<rparr>) =
       (Raised (ReferenceError ''findPandaVideoByVimeoUrl''),
        \<lparr>pool = [mapped ''https://player.vimeo.com/video/1'' ''x''],
         trace = [Call ''GET'' ''/root?per_page=100'', Call ''GET'' ''/root/2'',
                  Call ''GET'' ''/folders'', Call ''GET'' ''/folders/1/videos?per_page=100'',
                  Console ''error'' ''Erro fatal''],
         clock = 0, folderMap = [(''/folders/1'', ''pa'')], panda = shelf, sent = 1\<rparr>)"
proof -
  let ?k = "''https://player.vimeo.com/video/1''"
  let ?v = "video_item ''one'' ''/videos/1'' [\<lparr>width = Some 1080, link = Some ''https://dl/1''\<rparr>]"
  have a: "vimeo_video_id (mapped ?k ''x'') = ?k" and b: "panda_video_id (mapped ?k ''x'') = Some ''x''"
    by (simp_all add: mapped_def)
  have c: "formatVimeoUrl ''/videos/1'' = Inr ?k"
    by (simp add: formatVimeoUrl_def match_videos_def is_digit_def)
  have d: "reconcile_links library ''pa'' ?v (blank\<lparr>pool := [mapped ?k ''x'']\<rparr>) =
       (Finished,
        \<lparr>pool = [mapped ?k ''x''], trace = [Select ?k, Console ''SKIP'' ''one''], clock = 0\<rparr>)"
    by (simp add: reconcile_links_def formatVimeoUrl_links_def match_videos_def is_digit_def
          vimeoVideoExists_def has_key_def a video_item_def blank_def emit_def Let_def or_else_def)
  have e: "reconcile ?v ((start shelf)\<lparr>pool := [mapped ?k ''x'']\<rparr>) =
       (Raised (ReferenceError ''findPandaVideoByVimeoUrl''),
        (start shelf)\<lparr>pool := [mapped ?k ''x'']\<rparr>)"
    by (simp add: reconcile_def pick_download_def width_or_0_def findPandaVideoByVimeoUrl_def
          video_item_def or_null_def truthy_def Let_def)
  have f: "run 5 library ''/root'' ((start shelf)\<lparr>pool := [mapped ?k ''x'']\<rparr>) =
       (Raised (ReferenceError ''findPandaVideoByVimeoUrl''),
        \<lparr>pool = [mapped ?k ''x''],
         trace = [Call ''GET'' ''/root?per_page=100'', Call ''GET'' ''/root/2'',
                  Call ''GET'' ''/folders'', Call ''GET'' ''/folders/1/videos?per_page=100'',
                  Console ''error'' ''Erro fatal''],
         clock = 0, folderMap = [(''/folders/1'', ''pa'')], panda = shelf, sent = 1\<rparr>)"
    by (simp add: index_defs library_def run_defs)
  from a b c d e f show ?thesis by blast
qed

end
